theory Spec2Isabelle
  imports Complex_Main "HOL-Library.Word"
begin

section \<open>The Datafile class of BOUT++ (src/fileio/datafile.cxx)\<close>

text \<open>
  A shallow embedding of \<^verbatim>\<open>Datafile\<close>: the registry of variables (\<^verbatim>\<open>add\<close>,
  \<^verbatim>\<open>varAdded\<close>) and the two drivers \<^verbatim>\<open>read\<close> and \<^verbatim>\<open>write\<close> with their helpers.

  The class works on objects it does not define: the file format behind the pointer
  \<^verbatim>\<open>file\<close> (a \<^verbatim>\<open>DataFormat\<close> with virtual primitives), the fields and vectors the
  registered pointers refer to, the mesh, \<^verbatim>\<open>MPI_Wtime\<close> and \<^verbatim>\<open>vsprintf\<close>. Their
  declarations are not part of the file, so they are parameters of the model, collected
  in an environment \<open>E\<close>: a theorem about \<open>E\<close> holds whatever the format, the fields,
  the basis changes, the clock and the formatter do.
\<close>

subsection \<open>Values and memory\<close>

type_synonym cint = "32 word"
type_synonym BoutReal = real
type_synonym addr = nat

text \<open>
  \<^verbatim>\<open>Vector2D\<close> and \<^verbatim>\<open>Vector3D\<close>: three field members and the basis flag. The type of
  the members (\<^verbatim>\<open>Field2D\<close>, \<^verbatim>\<open>Field3D\<close>) is a type parameter.
\<close>

record 'f Vector =
  vec_x :: 'f
  vec_y :: 'f
  vec_z :: 'f
  covariant :: bool

text \<open>
  The memory of the caller, one region for each type a binding can point to. Two bindings
  may hold the same address, and a field pointer may point into a vector
  (\<^verbatim>\<open>&(it->ptr->x)\<close>), so a pointer to a field is either a field of its own or a member
  of a vector.
\<close>

datatype fptr = Whole addr | Member_x addr | Member_y addr | Member_z addr

record ('f2, 'f3) memory =
  int_mem :: "addr \<Rightarrow> cint"
  BoutReal_mem :: "addr \<Rightarrow> BoutReal"
  f2d_mem :: "addr \<Rightarrow> 'f2"
  f3d_mem :: "addr \<Rightarrow> 'f3"
  v2d_mem :: "addr \<Rightarrow> 'f2 Vector"
  v3d_mem :: "addr \<Rightarrow> 'f3 Vector"

subsection \<open>The registry\<close>

text \<open>
  \<^verbatim>\<open>VarStr<T>\<close>: pointer, name and grow flag. The field \<^verbatim>\<open>covar\<close> is assigned by the
  two vector overloads of \<^verbatim>\<open>add\<close> only and read for vectors only, so the model has it
  on the vector bindings alone.
\<close>

record 'p VarStr =
  ptr :: 'p
  name :: string
  grow :: bool

record 'p VecVarStr = "'p VarStr" +
  covar :: bool

text \<open>
  The calls made on \<^verbatim>\<open>file\<close>, in order. This list is not in the source: it records
  which primitive of the format was invoked with which arguments. The flag of a transfer
  tells the record variant (\<^verbatim>\<open>read_rec\<close>, \<^verbatim>\<open>write_rec\<close>) from the plain one.
\<close>

datatype call =
    Openr string
  | Openw string bool
  | Is_valid
  | SetRecord int
  | Close
  | Read_int bool string
  | Read_BoutReal bool string
  | Read_2d bool string cint cint
  | Read_3d bool string cint cint cint
  | Write_int bool string cint
  | Write_BoutReal bool string BoutReal
  | Write_2d bool string cint cint "BoutReal list"
  | Write_3d bool string cint cint cint "BoutReal list"

text \<open>
  The state: the members of one \<^verbatim>\<open>Datafile\<close> (the six vectors of bindings,
  \<^verbatim>\<open>def_filename\<close>, and \<open>the_file\<close>, the state of the object \<^verbatim>\<open>file\<close> points to), the two static
  members \<^verbatim>\<open>enabled\<close> and \<^verbatim>\<open>wtime\<close>, the caller's memory, the lines written to \<^verbatim>\<open>output\<close>
  (\<open>output_log\<close>), the calls made on \<^verbatim>\<open>file\<close>, and the number of clock readings so far.
  \<^verbatim>\<open>file\<close> is taken to point to a format (a null \<^verbatim>\<open>file\<close> is dereferenced by
  \<^verbatim>\<open>read\<close> and \<^verbatim>\<open>write\<close> without a check).
\<close>

record ('b, 'f2, 'f3) state =
  int_arr :: "addr VarStr list"
  BoutReal_arr :: "addr VarStr list"
  f2d_arr :: "fptr VarStr list"
  f3d_arr :: "fptr VarStr list"
  v2d_arr :: "addr VecVarStr list"
  v3d_arr :: "addr VecVarStr list"
  def_filename :: string
  the_file :: 'b
  enabled :: bool
  wtime :: BoutReal
  mem :: "('f2, 'f3) memory"
  output_log :: "string list"
  calls :: "call list"
  clock :: nat

subsection \<open>The collaborators\<close>

text \<open>
  \<^verbatim>\<open>DataFormat\<close>: each primitive takes the state of the format and returns the new one.
  A read primitive gets the present contents of the destination and returns its result and
  the contents it leaves there; a write primitive gets the contents of the source.
\<close>

record 'b DataFormat =
  openr :: "string \<Rightarrow> 'b \<Rightarrow> bool \<times> 'b"
  openw :: "string \<Rightarrow> bool \<Rightarrow> 'b \<Rightarrow> bool \<times> 'b"
  is_valid :: "'b \<Rightarrow> bool \<times> 'b"
  setRecord :: "int \<Rightarrow> 'b \<Rightarrow> 'b"
  close :: "'b \<Rightarrow> 'b"
  read_int :: "string \<Rightarrow> cint \<Rightarrow> 'b \<Rightarrow> bool \<times> cint \<times> 'b"
  read_rec_int :: "string \<Rightarrow> cint \<Rightarrow> 'b \<Rightarrow> bool \<times> cint \<times> 'b"
  read_BoutReal :: "string \<Rightarrow> BoutReal \<Rightarrow> 'b \<Rightarrow> bool \<times> BoutReal \<times> 'b"
  read_rec_BoutReal :: "string \<Rightarrow> BoutReal \<Rightarrow> 'b \<Rightarrow> bool \<times> BoutReal \<times> 'b"
  read_2d :: "string \<Rightarrow> cint \<Rightarrow> cint \<Rightarrow> BoutReal list \<Rightarrow> 'b \<Rightarrow> bool \<times> BoutReal list \<times> 'b"
  read_rec_2d :: "string \<Rightarrow> cint \<Rightarrow> cint \<Rightarrow> BoutReal list \<Rightarrow> 'b \<Rightarrow> bool \<times> BoutReal list \<times> 'b"
  read_3d :: "string \<Rightarrow> cint \<Rightarrow> cint \<Rightarrow> cint \<Rightarrow> BoutReal list \<Rightarrow> 'b \<Rightarrow> bool \<times> BoutReal list \<times> 'b"
  read_rec_3d :: "string \<Rightarrow> cint \<Rightarrow> cint \<Rightarrow> cint \<Rightarrow> BoutReal list \<Rightarrow> 'b \<Rightarrow> bool \<times> BoutReal list \<times> 'b"
  write_int :: "string \<Rightarrow> cint \<Rightarrow> 'b \<Rightarrow> bool \<times> 'b"
  write_rec_int :: "string \<Rightarrow> cint \<Rightarrow> 'b \<Rightarrow> bool \<times> 'b"
  write_BoutReal :: "string \<Rightarrow> BoutReal \<Rightarrow> 'b \<Rightarrow> bool \<times> 'b"
  write_rec_BoutReal :: "string \<Rightarrow> BoutReal \<Rightarrow> 'b \<Rightarrow> bool \<times> 'b"
  write_2d :: "string \<Rightarrow> cint \<Rightarrow> cint \<Rightarrow> BoutReal list \<Rightarrow> 'b \<Rightarrow> bool \<times> 'b"
  write_rec_2d :: "string \<Rightarrow> cint \<Rightarrow> cint \<Rightarrow> BoutReal list \<Rightarrow> 'b \<Rightarrow> bool \<times> 'b"
  write_3d :: "string \<Rightarrow> cint \<Rightarrow> cint \<Rightarrow> cint \<Rightarrow> BoutReal list \<Rightarrow> 'b \<Rightarrow> bool \<times> 'b"
  write_rec_3d :: "string \<Rightarrow> cint \<Rightarrow> cint \<Rightarrow> cint \<Rightarrow> BoutReal list \<Rightarrow> 'b \<Rightarrow> bool \<times> 'b"

text \<open>
  What \<^verbatim>\<open>Datafile\<close> uses of a field: \<^verbatim>\<open>allocate()\<close>, \<^verbatim>\<open>isAllocated()\<close>, the
  assignment of a constant (\<^verbatim>\<open>*f = 0.0\<close>) and the buffer behind \<^verbatim>\<open>getData()\<close>, which
  a read primitive fills (\<open>putData\<close> is the field with that buffer overwritten).
\<close>

record 'f Field =
  allocate :: "'f \<Rightarrow> 'f"
  isAllocated :: "'f \<Rightarrow> bool"
  assign :: "BoutReal \<Rightarrow> 'f \<Rightarrow> 'f"
  getData :: "'f \<Rightarrow> BoutReal list"
  putData :: "BoutReal list \<Rightarrow> 'f \<Rightarrow> 'f"

datatype va_arg = Arg_int cint | Arg_double BoutReal | Arg_str string

record ('b, 'f2, 'f3) env =
  format :: "'b DataFormat"
  Field2D :: "'f2 Field"
  Field3D :: "'f3 Field"
  toCovariant2D :: "'f2 Vector \<Rightarrow> 'f2 Vector"
  toContravariant2D :: "'f2 Vector \<Rightarrow> 'f2 Vector"
  toCovariant3D :: "'f3 Vector \<Rightarrow> 'f3 Vector"
  toContravariant3D :: "'f3 Vector \<Rightarrow> 'f3 Vector"
  ngx :: cint
  ngy :: cint
  ngz :: cint
  MPI_Wtime :: "nat \<Rightarrow> BoutReal"
  vsprintf :: "string \<Rightarrow> va_arg list \<Rightarrow> string"
  setFilename_string :: "string \<Rightarrow> ('b, 'f2, 'f3) state \<Rightarrow> ('b, 'f2, 'f3) state"

text \<open>
  \<open>MPI_Wtime E n\<close> is the \<open>n\<close>-th reading of the clock. \<open>setFilename_string\<close> is the
  overload \<^verbatim>\<open>setFilename(const string&)\<close>, which the variadic \<^verbatim>\<open>setFilename\<close> calls and
  which is defined outside the file.
\<close>

subsection \<open>Access to the memory and to \<^verbatim>\<open>file\<close>\<close>

fun load_f2d :: "fptr \<Rightarrow> ('f2, 'f3) memory \<Rightarrow> 'f2" where
  "load_f2d (Whole a) m = f2d_mem m a"
| "load_f2d (Member_x a) m = vec_x (v2d_mem m a)"
| "load_f2d (Member_y a) m = vec_y (v2d_mem m a)"
| "load_f2d (Member_z a) m = vec_z (v2d_mem m a)"

fun store_f2d :: "fptr \<Rightarrow> 'f2 \<Rightarrow> ('f2, 'f3) memory \<Rightarrow> ('f2, 'f3) memory" where
  "store_f2d (Whole a) f m = m\<lparr>f2d_mem := (f2d_mem m)(a := f)\<rparr>"
| "store_f2d (Member_x a) f m = m\<lparr>v2d_mem := (v2d_mem m)(a := (v2d_mem m a)\<lparr>vec_x := f\<rparr>)\<rparr>"
| "store_f2d (Member_y a) f m = m\<lparr>v2d_mem := (v2d_mem m)(a := (v2d_mem m a)\<lparr>vec_y := f\<rparr>)\<rparr>"
| "store_f2d (Member_z a) f m = m\<lparr>v2d_mem := (v2d_mem m)(a := (v2d_mem m a)\<lparr>vec_z := f\<rparr>)\<rparr>"

fun load_f3d :: "fptr \<Rightarrow> ('f2, 'f3) memory \<Rightarrow> 'f3" where
  "load_f3d (Whole a) m = f3d_mem m a"
| "load_f3d (Member_x a) m = vec_x (v3d_mem m a)"
| "load_f3d (Member_y a) m = vec_y (v3d_mem m a)"
| "load_f3d (Member_z a) m = vec_z (v3d_mem m a)"

fun store_f3d :: "fptr \<Rightarrow> 'f3 \<Rightarrow> ('f2, 'f3) memory \<Rightarrow> ('f2, 'f3) memory" where
  "store_f3d (Whole a) f m = m\<lparr>f3d_mem := (f3d_mem m)(a := f)\<rparr>"
| "store_f3d (Member_x a) f m = m\<lparr>v3d_mem := (v3d_mem m)(a := (v3d_mem m a)\<lparr>vec_x := f\<rparr>)\<rparr>"
| "store_f3d (Member_y a) f m = m\<lparr>v3d_mem := (v3d_mem m)(a := (v3d_mem m a)\<lparr>vec_y := f\<rparr>)\<rparr>"
| "store_f3d (Member_z a) f m = m\<lparr>v3d_mem := (v3d_mem m)(a := (v3d_mem m a)\<lparr>vec_z := f\<rparr>)\<rparr>"

definition set_int :: "addr \<Rightarrow> cint \<Rightarrow> ('b, 'f2, 'f3) state \<Rightarrow> ('b, 'f2, 'f3) state" where
  "set_int p v s = s\<lparr>mem := (mem s)\<lparr>int_mem := (int_mem (mem s))(p := v)\<rparr>\<rparr>"

definition set_BoutReal :: "addr \<Rightarrow> BoutReal \<Rightarrow> ('b, 'f2, 'f3) state \<Rightarrow> ('b, 'f2, 'f3) state" where
  "set_BoutReal p v s = s\<lparr>mem := (mem s)\<lparr>BoutReal_mem := (BoutReal_mem (mem s))(p := v)\<rparr>\<rparr>"

definition set_f2d :: "fptr \<Rightarrow> 'f2 \<Rightarrow> ('b, 'f2, 'f3) state \<Rightarrow> ('b, 'f2, 'f3) state" where
  "set_f2d p f s = s\<lparr>mem := store_f2d p f (mem s)\<rparr>"

definition set_f3d :: "fptr \<Rightarrow> 'f3 \<Rightarrow> ('b, 'f2, 'f3) state \<Rightarrow> ('b, 'f2, 'f3) state" where
  "set_f3d p f s = s\<lparr>mem := store_f3d p f (mem s)\<rparr>"

definition set_covariant2D :: "addr \<Rightarrow> bool \<Rightarrow> ('b, 'f2, 'f3) state \<Rightarrow> ('b, 'f2, 'f3) state" where
  "set_covariant2D p c s =
     s\<lparr>mem := (mem s)\<lparr>v2d_mem := (v2d_mem (mem s))(p := (v2d_mem (mem s) p)\<lparr>covariant := c\<rparr>)\<rparr>\<rparr>"

definition set_covariant3D :: "addr \<Rightarrow> bool \<Rightarrow> ('b, 'f2, 'f3) state \<Rightarrow> ('b, 'f2, 'f3) state" where
  "set_covariant3D p c s =
     s\<lparr>mem := (mem s)\<lparr>v3d_mem := (v3d_mem (mem s))(p := (v3d_mem (mem s) p)\<lparr>covariant := c\<rparr>)\<rparr>\<rparr>"

text \<open>\<^verbatim>\<open>output.write(...)\<close>: one more line on the output.\<close>

definition output_write :: "string \<Rightarrow> ('b, 'f2, 'f3) state \<Rightarrow> ('b, 'f2, 'f3) state" where
  "output_write line s = s\<lparr>output_log := output_log s @ [line]\<rparr>"

text \<open>The four warnings of \<^verbatim>\<open>read\<close>, with \<^verbatim>\<open>%s\<close> replaced by the name.\<close>

definition warning_int :: "string \<Rightarrow> string" where
  "warning_int nm = CHR 0x09 # ''WARNING: Could not read integer '' @ nm @ ''. Setting to zero'' @ [CHR 0x0A]"

definition warning_BoutReal :: "string \<Rightarrow> string" where
  "warning_BoutReal nm = CHR 0x09 # ''WARNING: Could not read BoutReal '' @ nm @ ''. Setting to zero'' @ [CHR 0x0A]"

definition warning_f2d :: "string \<Rightarrow> string" where
  "warning_f2d nm = CHR 0x09 # ''WARNING: Could not read 2D field '' @ nm @ ''. Setting to zero'' @ [CHR 0x0A]"

definition warning_f3d :: "string \<Rightarrow> string" where
  "warning_f3d nm = CHR 0x09 # ''WARNING: Could not read 3D field '' @ nm @ ''. Setting to zero'' @ [CHR 0x0A]"

text \<open>
  A call of a primitive on \<^verbatim>\<open>file\<close>: the format moves to its new state and the call is
  put on record.
\<close>

definition invoke :: "call \<Rightarrow> 'b \<Rightarrow> ('b, 'f2, 'f3) state \<Rightarrow> ('b, 'f2, 'f3) state" where
  "invoke c b s = s\<lparr>the_file := b, calls := calls s @ [c]\<rparr>"

definition file_openr :: "('b, 'f2, 'f3) env \<Rightarrow> string \<Rightarrow> ('b, 'f2, 'f3) state \<Rightarrow> bool \<times> ('b, 'f2, 'f3) state" where
  "file_openr E filename s =
     (case openr (format E) filename (the_file s) of (ok, b) \<Rightarrow> (ok, invoke (Openr filename) b s))"

definition file_openw :: "('b, 'f2, 'f3) env \<Rightarrow> string \<Rightarrow> bool \<Rightarrow> ('b, 'f2, 'f3) state \<Rightarrow> bool \<times> ('b, 'f2, 'f3) state" where
  "file_openw E filename app s =
     (case openw (format E) filename app (the_file s) of (ok, b) \<Rightarrow> (ok, invoke (Openw filename app) b s))"

definition file_is_valid :: "('b, 'f2, 'f3) env \<Rightarrow> ('b, 'f2, 'f3) state \<Rightarrow> bool \<times> ('b, 'f2, 'f3) state" where
  "file_is_valid E s = (case is_valid (format E) (the_file s) of (ok, b) \<Rightarrow> (ok, invoke Is_valid b s))"

definition file_setRecord :: "('b, 'f2, 'f3) env \<Rightarrow> int \<Rightarrow> ('b, 'f2, 'f3) state \<Rightarrow> ('b, 'f2, 'f3) state" where
  "file_setRecord E n s = invoke (SetRecord n) (setRecord (format E) n (the_file s)) s"

definition file_close :: "('b, 'f2, 'f3) env \<Rightarrow> ('b, 'f2, 'f3) state \<Rightarrow> ('b, 'f2, 'f3) state" where
  "file_close E s = invoke Close (close (format E) (the_file s)) s"

text \<open>
  The transfers. \<open>prim\<close> is the primitive called (\<^verbatim>\<open>read\<close> or \<^verbatim>\<open>read_rec\<close>,
  \<^verbatim>\<open>write\<close> or \<^verbatim>\<open>write_rec\<close>) and \<open>rec\<close> tells which of the two it is. A read writes
  through the pointer it is given, whatever it returns.
\<close>

definition file_read_int ::
  "(string \<Rightarrow> cint \<Rightarrow> 'b \<Rightarrow> bool \<times> cint \<times> 'b) \<Rightarrow> bool \<Rightarrow> addr \<Rightarrow> string
   \<Rightarrow> ('b, 'f2, 'f3) state \<Rightarrow> bool \<times> ('b, 'f2, 'f3) state" where
  "file_read_int prim rec p nm s =
     (case prim nm (int_mem (mem s) p) (the_file s) of
        (ok, v, b) \<Rightarrow> (ok, set_int p v (invoke (Read_int rec nm) b s)))"

definition file_read_BoutReal ::
  "(string \<Rightarrow> BoutReal \<Rightarrow> 'b \<Rightarrow> bool \<times> BoutReal \<times> 'b) \<Rightarrow> bool \<Rightarrow> addr \<Rightarrow> string
   \<Rightarrow> ('b, 'f2, 'f3) state \<Rightarrow> bool \<times> ('b, 'f2, 'f3) state" where
  "file_read_BoutReal prim rec p nm s =
     (case prim nm (BoutReal_mem (mem s) p) (the_file s) of
        (ok, v, b) \<Rightarrow> (ok, set_BoutReal p v (invoke (Read_BoutReal rec nm) b s)))"

definition file_read_2d ::
  "('b, 'f2, 'f3) env \<Rightarrow> (string \<Rightarrow> cint \<Rightarrow> cint \<Rightarrow> BoutReal list \<Rightarrow> 'b \<Rightarrow> bool \<times> BoutReal list \<times> 'b)
   \<Rightarrow> bool \<Rightarrow> fptr \<Rightarrow> string \<Rightarrow> ('b, 'f2, 'f3) state \<Rightarrow> bool \<times> ('b, 'f2, 'f3) state" where
  "file_read_2d E prim rec p nm s =
     (case prim nm (ngx E) (ngy E) (getData (Field2D E) (load_f2d p (mem s))) (the_file s) of
        (ok, buf, b) \<Rightarrow>
          (ok, set_f2d p (putData (Field2D E) buf (load_f2d p (mem s)))
                 (invoke (Read_2d rec nm (ngx E) (ngy E)) b s)))"

definition file_read_3d ::
  "('b, 'f2, 'f3) env \<Rightarrow> (string \<Rightarrow> cint \<Rightarrow> cint \<Rightarrow> cint \<Rightarrow> BoutReal list \<Rightarrow> 'b \<Rightarrow> bool \<times> BoutReal list \<times> 'b)
   \<Rightarrow> bool \<Rightarrow> fptr \<Rightarrow> string \<Rightarrow> ('b, 'f2, 'f3) state \<Rightarrow> bool \<times> ('b, 'f2, 'f3) state" where
  "file_read_3d E prim rec p nm s =
     (case prim nm (ngx E) (ngy E) (ngz E) (getData (Field3D E) (load_f3d p (mem s))) (the_file s) of
        (ok, buf, b) \<Rightarrow>
          (ok, set_f3d p (putData (Field3D E) buf (load_f3d p (mem s)))
                 (invoke (Read_3d rec nm (ngx E) (ngy E) (ngz E)) b s)))"

definition file_write_int ::
  "(string \<Rightarrow> cint \<Rightarrow> 'b \<Rightarrow> bool \<times> 'b) \<Rightarrow> bool \<Rightarrow> string \<Rightarrow> cint
   \<Rightarrow> ('b, 'f2, 'f3) state \<Rightarrow> bool \<times> ('b, 'f2, 'f3) state" where
  "file_write_int prim rec nm v s =
     (case prim nm v (the_file s) of (ok, b) \<Rightarrow> (ok, invoke (Write_int rec nm v) b s))"

definition file_write_BoutReal ::
  "(string \<Rightarrow> BoutReal \<Rightarrow> 'b \<Rightarrow> bool \<times> 'b) \<Rightarrow> bool \<Rightarrow> string \<Rightarrow> BoutReal
   \<Rightarrow> ('b, 'f2, 'f3) state \<Rightarrow> bool \<times> ('b, 'f2, 'f3) state" where
  "file_write_BoutReal prim rec nm v s =
     (case prim nm v (the_file s) of (ok, b) \<Rightarrow> (ok, invoke (Write_BoutReal rec nm v) b s))"

definition file_write_2d ::
  "('b, 'f2, 'f3) env \<Rightarrow> (string \<Rightarrow> cint \<Rightarrow> cint \<Rightarrow> BoutReal list \<Rightarrow> 'b \<Rightarrow> bool \<times> 'b)
   \<Rightarrow> bool \<Rightarrow> string \<Rightarrow> BoutReal list \<Rightarrow> ('b, 'f2, 'f3) state \<Rightarrow> bool \<times> ('b, 'f2, 'f3) state" where
  "file_write_2d E prim rec nm buf s =
     (case prim nm (ngx E) (ngy E) buf (the_file s) of
        (ok, b) \<Rightarrow> (ok, invoke (Write_2d rec nm (ngx E) (ngy E) buf) b s))"

definition file_write_3d ::
  "('b, 'f2, 'f3) env \<Rightarrow> (string \<Rightarrow> cint \<Rightarrow> cint \<Rightarrow> cint \<Rightarrow> BoutReal list \<Rightarrow> 'b \<Rightarrow> bool \<times> 'b)
   \<Rightarrow> bool \<Rightarrow> string \<Rightarrow> BoutReal list \<Rightarrow> ('b, 'f2, 'f3) state \<Rightarrow> bool \<times> ('b, 'f2, 'f3) state" where
  "file_write_3d E prim rec nm buf s =
     (case prim nm (ngx E) (ngy E) (ngz E) buf (the_file s) of
        (ok, b) \<Rightarrow> (ok, invoke (Write_3d rec nm (ngx E) (ngy E) (ngz E) buf) b s))"

definition mpi_wtime :: "('b, 'f2, 'f3) env \<Rightarrow> ('b, 'f2, 'f3) state \<Rightarrow> BoutReal \<times> ('b, 'f2, 'f3) state" where
  "mpi_wtime E s = (MPI_Wtime E (clock s), s\<lparr>clock := Suc (clock s)\<rparr>)"

subsection \<open>\<^verbatim>\<open>varAdded\<close> and \<^verbatim>\<open>add\<close>\<close>

text \<open>One loop of \<^verbatim>\<open>varAdded\<close>: \<^verbatim>\<open>true\<close> at the first binding of that name.\<close>

fun name_in :: "string \<Rightarrow> ('p, 'm) VarStr_scheme list \<Rightarrow> bool" where
  "name_in nm [] = False"
| "name_in nm (it # rest) = (if nm = name it then True else name_in nm rest)"

definition varAdded :: "string \<Rightarrow> ('b, 'f2, 'f3) state \<Rightarrow> bool" where
  "varAdded nm s =
     (if name_in nm (int_arr s) then True
      else if name_in nm (BoutReal_arr s) then True
      else if name_in nm (f2d_arr s) then True
      else if name_in nm (f3d_arr s) then True
      else if name_in nm (v2d_arr s) then True
      else if name_in nm (v3d_arr s) then True
      else False)"

text \<open>
  A \<^verbatim>\<open>BoutException\<close>, with the format and the arguments it is constructed from. A
  function that can throw returns the exception, if any, and the state it leaves.
\<close>

datatype exn = BoutException string "va_arg list"

definition add_int :: "addr \<Rightarrow> string \<Rightarrow> cint \<Rightarrow> ('b, 'f2, 'f3) state \<Rightarrow> exn option \<times> ('b, 'f2, 'f3) state" where
  "add_int i nm g s =
     (if varAdded nm s
      then (Some (BoutException ''Variable '%s' already added to Datafile'' [Arg_str nm]), s)
      else let d = \<lparr>ptr = i, name = nm, grow = (if 0 <s g then True else False)\<rparr>
           in (None, s\<lparr>int_arr := int_arr s @ [d]\<rparr>))"

definition add_BoutReal :: "addr \<Rightarrow> string \<Rightarrow> cint \<Rightarrow> ('b, 'f2, 'f3) state \<Rightarrow> exn option \<times> ('b, 'f2, 'f3) state" where
  "add_BoutReal r nm g s =
     (if varAdded nm s
      then (Some (BoutException ''Variable '%s' already added to Datafile'' [Arg_str nm]), s)
      else let d = \<lparr>ptr = r, name = nm, grow = (if 0 <s g then True else False)\<rparr>
           in (None, s\<lparr>BoutReal_arr := BoutReal_arr s @ [d]\<rparr>))"

definition add_Field2D :: "fptr \<Rightarrow> string \<Rightarrow> cint \<Rightarrow> ('b, 'f2, 'f3) state \<Rightarrow> exn option \<times> ('b, 'f2, 'f3) state" where
  "add_Field2D f nm g s =
     (if varAdded nm s
      then (Some (BoutException ''Variable '%s' already added to Datafile'' [Arg_str nm]), s)
      else let d = \<lparr>ptr = f, name = nm, grow = (if 0 <s g then True else False)\<rparr>
           in (None, s\<lparr>f2d_arr := f2d_arr s @ [d]\<rparr>))"

definition add_Field3D :: "fptr \<Rightarrow> string \<Rightarrow> cint \<Rightarrow> ('b, 'f2, 'f3) state \<Rightarrow> exn option \<times> ('b, 'f2, 'f3) state" where
  "add_Field3D f nm g s =
     (if varAdded nm s
      then (Some (BoutException ''Variable '%s' already added to Datafile'' [Arg_str nm]), s)
      else let d = \<lparr>ptr = f, name = nm, grow = (if 0 <s g then True else False)\<rparr>
           in (None, s\<lparr>f3d_arr := f3d_arr s @ [d]\<rparr>))"

definition add_Vector2D :: "addr \<Rightarrow> string \<Rightarrow> cint \<Rightarrow> ('b, 'f2, 'f3) state \<Rightarrow> exn option \<times> ('b, 'f2, 'f3) state" where
  "add_Vector2D f nm g s =
     (if varAdded nm s
      then (Some (BoutException ''Variable '%s' already added to Datafile'' [Arg_str nm]), s)
      else let d = \<lparr>ptr = f, name = nm, grow = (if 0 <s g then True else False),
                     covar = covariant (v2d_mem (mem s) f)\<rparr>
           in (None, s\<lparr>v2d_arr := v2d_arr s @ [d]\<rparr>))"

definition add_Vector3D :: "addr \<Rightarrow> string \<Rightarrow> cint \<Rightarrow> ('b, 'f2, 'f3) state \<Rightarrow> exn option \<times> ('b, 'f2, 'f3) state" where
  "add_Vector3D f nm g s =
     (if varAdded nm s
      then (Some (BoutException ''Variable '%s' already added to Datafile'' [Arg_str nm]), s)
      else let d = \<lparr>ptr = f, name = nm, grow = (if 0 <s g then True else False),
                     covar = covariant (v3d_mem (mem s) f)\<rparr>
           in (None, s\<lparr>v3d_arr := v3d_arr s @ [d]\<rparr>))"

subsection \<open>\<^verbatim>\<open>read\<close>\<close>

text \<open>The bodies of the two scalar loops of \<^verbatim>\<open>read\<close>.\<close>

definition read_int_var :: "('b, 'f2, 'f3) env \<Rightarrow> addr VarStr \<Rightarrow> ('b, 'f2, 'f3) state \<Rightarrow> ('b, 'f2, 'f3) state" where
  "read_int_var E it s =
     (if grow it then
        (case file_read_int (read_rec_int (format E)) True (ptr it) (name it) s of
           (ok, s1) \<Rightarrow>
             if \<not> ok then set_int (ptr it) 0 (output_write (warning_int (name it)) s1) else s1)
      else
        (case file_read_int (read_int (format E)) False (ptr it) (name it) s of
           (ok, s1) \<Rightarrow>
             if \<not> ok then set_int (ptr it) 0 (output_write (warning_int (name it)) s1) else s1))"

definition read_BoutReal_var :: "('b, 'f2, 'f3) env \<Rightarrow> addr VarStr \<Rightarrow> ('b, 'f2, 'f3) state \<Rightarrow> ('b, 'f2, 'f3) state" where
  "read_BoutReal_var E it s =
     (if grow it then
        (case file_read_BoutReal (read_rec_BoutReal (format E)) True (ptr it) (name it) s of
           (ok, s1) \<Rightarrow>
             if \<not> ok then set_BoutReal (ptr it) 0 (output_write (warning_BoutReal (name it)) s1) else s1)
      else
        (case file_read_BoutReal (read_BoutReal (format E)) False (ptr it) (name it) s of
           (ok, s1) \<Rightarrow>
             if \<not> ok then set_BoutReal (ptr it) 0 (output_write (warning_BoutReal (name it)) s1) else s1))"

definition read_f2d :: "('b, 'f2, 'f3) env \<Rightarrow> string \<Rightarrow> fptr \<Rightarrow> bool \<Rightarrow> ('b, 'f2, 'f3) state \<Rightarrow> bool \<times> ('b, 'f2, 'f3) state" where
  "read_f2d E nm f g s =
     (let s0 = set_f2d f (allocate (Field2D E) (load_f2d f (mem s))) s in
      if g then
        (case file_read_2d E (read_rec_2d (format E)) True f nm s0 of
           (ok, s1) \<Rightarrow>
             if \<not> ok then
               (let s2 = output_write (warning_f2d nm) s1
                in (False, set_f2d f (assign (Field2D E) 0 (load_f2d f (mem s2))) s2))
             else (True, s1))
      else
        (case file_read_2d E (read_2d (format E)) False f nm s0 of
           (ok, s1) \<Rightarrow>
             if \<not> ok then
               (let s2 = output_write (warning_f2d nm) s1
                in (False, set_f2d f (assign (Field2D E) 0 (load_f2d f (mem s2))) s2))
             else (True, s1)))"

definition read_f3d :: "('b, 'f2, 'f3) env \<Rightarrow> string \<Rightarrow> fptr \<Rightarrow> bool \<Rightarrow> ('b, 'f2, 'f3) state \<Rightarrow> bool \<times> ('b, 'f2, 'f3) state" where
  "read_f3d E nm f g s =
     (let s0 = set_f3d f (allocate (Field3D E) (load_f3d f (mem s))) s in
      if g then
        (case file_read_3d E (read_rec_3d (format E)) True f nm s0 of
           (ok, s1) \<Rightarrow>
             if \<not> ok then
               (let s2 = output_write (warning_f3d nm) s1
                in (False, set_f3d f (assign (Field3D E) 0 (load_f3d f (mem s2))) s2))
             else (True, s1))
      else
        (case file_read_3d E (read_3d (format E)) False f nm s0 of
           (ok, s1) \<Rightarrow>
             if \<not> ok then
               (let s2 = output_write (warning_f3d nm) s1
                in (False, set_f3d f (assign (Field3D E) 0 (load_f3d f (mem s2))) s2))
             else (True, s1)))"

text \<open>The bodies of the four other loops; the result of \<^verbatim>\<open>read_f2d\<close> is dropped there.\<close>

definition read_f2d_var :: "('b, 'f2, 'f3) env \<Rightarrow> fptr VarStr \<Rightarrow> ('b, 'f2, 'f3) state \<Rightarrow> ('b, 'f2, 'f3) state" where
  "read_f2d_var E it s = snd (read_f2d E (name it) (ptr it) (grow it) s)"

definition read_f3d_var :: "('b, 'f2, 'f3) env \<Rightarrow> fptr VarStr \<Rightarrow> ('b, 'f2, 'f3) state \<Rightarrow> ('b, 'f2, 'f3) state" where
  "read_f3d_var E it s = snd (read_f3d E (name it) (ptr it) (grow it) s)"

definition read_v2d_var :: "('b, 'f2, 'f3) env \<Rightarrow> addr VecVarStr \<Rightarrow> ('b, 'f2, 'f3) state \<Rightarrow> ('b, 'f2, 'f3) state" where
  "read_v2d_var E it s =
     (let s3 =
        (if covar it then
           (let s1 = snd (read_f2d E (name it @ ''_x'') (Member_x (ptr it)) (grow it) s);
                s2 = snd (read_f2d E (name it @ ''_y'') (Member_y (ptr it)) (grow it) s1)
            in snd (read_f2d E (name it @ ''_z'') (Member_z (ptr it)) (grow it) s2))
         else
           (let s1 = snd (read_f2d E (name it @ ''x'') (Member_x (ptr it)) (grow it) s);
                s2 = snd (read_f2d E (name it @ ''y'') (Member_y (ptr it)) (grow it) s1)
            in snd (read_f2d E (name it @ ''z'') (Member_z (ptr it)) (grow it) s2)))
      in set_covariant2D (ptr it) (covar it) s3)"

definition read_v3d_var :: "('b, 'f2, 'f3) env \<Rightarrow> addr VecVarStr \<Rightarrow> ('b, 'f2, 'f3) state \<Rightarrow> ('b, 'f2, 'f3) state" where
  "read_v3d_var E it s =
     (let s3 =
        (if covar it then
           (let s1 = snd (read_f3d E (name it @ ''_x'') (Member_x (ptr it)) (grow it) s);
                s2 = snd (read_f3d E (name it @ ''_y'') (Member_y (ptr it)) (grow it) s1)
            in snd (read_f3d E (name it @ ''_z'') (Member_z (ptr it)) (grow it) s2))
         else
           (let s1 = snd (read_f3d E (name it @ ''x'') (Member_x (ptr it)) (grow it) s);
                s2 = snd (read_f3d E (name it @ ''y'') (Member_y (ptr it)) (grow it) s1)
            in snd (read_f3d E (name it @ ''z'') (Member_z (ptr it)) (grow it) s2)))
      in set_covariant3D (ptr it) (covar it) s3)"

text \<open>The six loops of \<^verbatim>\<open>read\<close>, in their order; no loop changes the vector it runs over.\<close>

definition read_vars :: "('b, 'f2, 'f3) env \<Rightarrow> ('b, 'f2, 'f3) state \<Rightarrow> ('b, 'f2, 'f3) state" where
  "read_vars E s =
     (let s1 = fold (read_int_var E) (int_arr s) s;
          s2 = fold (read_BoutReal_var E) (BoutReal_arr s1) s1;
          s3 = fold (read_f2d_var E) (f2d_arr s2) s2;
          s4 = fold (read_f3d_var E) (f3d_arr s3) s3;
          s5 = fold (read_v2d_var E) (v2d_arr s4) s4
      in fold (read_v3d_var E) (v3d_arr s5) s5)"

text \<open>
  \<^verbatim>\<open>read(const char *format, ...)\<close>; \<open>None\<close> is the null pointer. The result is the
  \<^verbatim>\<open>int\<close> returned and the state left.
\<close>

definition read :: "('b, 'f2, 'f3) env \<Rightarrow> string option \<Rightarrow> va_arg list \<Rightarrow> ('b, 'f2, 'f3) state \<Rightarrow> cint \<times> ('b, 'f2, 'f3) state" where
  "read E fmt ap s =
     (case fmt of
        None \<Rightarrow> (1, s)
      | Some f \<Rightarrow>
          (let filename = vsprintf E f ap in
           case mpi_wtime E s of (tstart, s1) \<Rightarrow>
           case file_openr E filename s1 of (opened, s2) \<Rightarrow>
             if \<not> opened then (1, s2)
             else
               case file_is_valid E s2 of (valid, s3) \<Rightarrow>
                 if \<not> valid then (1, s3)
                 else
                   (let s4 = file_setRecord E (- 1) s3;
                        s5 = read_vars E s4;
                        s6 = file_close E s5
                    in case mpi_wtime E s6 of (tend, s7) \<Rightarrow>
                         (0, s7\<lparr>wtime := wtime s7 + (tend - tstart)\<rparr>))))"

subsection \<open>\<^verbatim>\<open>write\<close>\<close>

text \<open>
  \<^verbatim>\<open>write_f2d\<close> and \<^verbatim>\<open>write_f3d\<close> only look at the field they are given
  (\<^verbatim>\<open>isAllocated\<close>, \<^verbatim>\<open>getData\<close>), so the model passes them the field itself: the one
  in memory for a field binding, a member of the local copy for a vector.
\<close>

definition write_f2d :: "('b, 'f2, 'f3) env \<Rightarrow> string \<Rightarrow> 'f2 \<Rightarrow> bool \<Rightarrow> ('b, 'f2, 'f3) state \<Rightarrow> bool \<times> ('b, 'f2, 'f3) state" where
  "write_f2d E nm f g s =
     (if \<not> isAllocated (Field2D E) f then (False, s)
      else if g then file_write_2d E (write_rec_2d (format E)) True nm (getData (Field2D E) f) s
      else file_write_2d E (write_2d (format E)) False nm (getData (Field2D E) f) s)"

definition write_f3d :: "('b, 'f2, 'f3) env \<Rightarrow> string \<Rightarrow> 'f3 \<Rightarrow> bool \<Rightarrow> ('b, 'f2, 'f3) state \<Rightarrow> bool \<times> ('b, 'f2, 'f3) state" where
  "write_f3d E nm f g s =
     (if \<not> isAllocated (Field3D E) f then (False, s)
      else if g then file_write_3d E (write_rec_3d (format E)) True nm (getData (Field3D E) f) s
      else file_write_3d E (write_3d (format E)) False nm (getData (Field3D E) f) s)"

text \<open>The bodies of the six loops of \<^verbatim>\<open>write\<close>; the results of the primitives are dropped.\<close>

definition write_int_var :: "('b, 'f2, 'f3) env \<Rightarrow> addr VarStr \<Rightarrow> ('b, 'f2, 'f3) state \<Rightarrow> ('b, 'f2, 'f3) state" where
  "write_int_var E it s =
     (if grow it
      then snd (file_write_int (write_rec_int (format E)) True (name it) (int_mem (mem s) (ptr it)) s)
      else snd (file_write_int (write_int (format E)) False (name it) (int_mem (mem s) (ptr it)) s))"

definition write_BoutReal_var :: "('b, 'f2, 'f3) env \<Rightarrow> addr VarStr \<Rightarrow> ('b, 'f2, 'f3) state \<Rightarrow> ('b, 'f2, 'f3) state" where
  "write_BoutReal_var E it s =
     (if grow it
      then snd (file_write_BoutReal (write_rec_BoutReal (format E)) True (name it) (BoutReal_mem (mem s) (ptr it)) s)
      else snd (file_write_BoutReal (write_BoutReal (format E)) False (name it) (BoutReal_mem (mem s) (ptr it)) s))"

definition write_f2d_var :: "('b, 'f2, 'f3) env \<Rightarrow> fptr VarStr \<Rightarrow> ('b, 'f2, 'f3) state \<Rightarrow> ('b, 'f2, 'f3) state" where
  "write_f2d_var E it s = snd (write_f2d E (name it) (load_f2d (ptr it) (mem s)) (grow it) s)"

definition write_f3d_var :: "('b, 'f2, 'f3) env \<Rightarrow> fptr VarStr \<Rightarrow> ('b, 'f2, 'f3) state \<Rightarrow> ('b, 'f2, 'f3) state" where
  "write_f3d_var E it s = snd (write_f3d E (name it) (load_f3d (ptr it) (mem s)) (grow it) s)"

text \<open>
  A vector: \<open>v\<close> is the local \<^verbatim>\<open>Vector2D v = *(it->ptr)\<close> after \<^verbatim>\<open>v.toCovariant()\<close> or
  \<^verbatim>\<open>v.toContravariant()\<close>. The copy is a value of its own (it shares no storage with
  the vector it is copied from), so the conversion is a function from the vector in memory
  to the local one, and the members written are those of the local one.
\<close>

definition write_v2d_var :: "('b, 'f2, 'f3) env \<Rightarrow> addr VecVarStr \<Rightarrow> ('b, 'f2, 'f3) state \<Rightarrow> ('b, 'f2, 'f3) state" where
  "write_v2d_var E it s =
     (if covar it then
        (let v = toCovariant2D E (v2d_mem (mem s) (ptr it));
             s1 = snd (write_f2d E (name it @ ''_x'') (vec_x v) (grow it) s);
             s2 = snd (write_f2d E (name it @ ''_y'') (vec_y v) (grow it) s1)
         in snd (write_f2d E (name it @ ''_z'') (vec_z v) (grow it) s2))
      else
        (let v = toContravariant2D E (v2d_mem (mem s) (ptr it));
             s1 = snd (write_f2d E (name it @ ''x'') (vec_x v) (grow it) s);
             s2 = snd (write_f2d E (name it @ ''y'') (vec_y v) (grow it) s1)
         in snd (write_f2d E (name it @ ''z'') (vec_z v) (grow it) s2)))"

definition write_v3d_var :: "('b, 'f2, 'f3) env \<Rightarrow> addr VecVarStr \<Rightarrow> ('b, 'f2, 'f3) state \<Rightarrow> ('b, 'f2, 'f3) state" where
  "write_v3d_var E it s =
     (if covar it then
        (let v = toCovariant3D E (v3d_mem (mem s) (ptr it));
             s1 = snd (write_f3d E (name it @ ''_x'') (vec_x v) (grow it) s);
             s2 = snd (write_f3d E (name it @ ''_y'') (vec_y v) (grow it) s1)
         in snd (write_f3d E (name it @ ''_z'') (vec_z v) (grow it) s2))
      else
        (let v = toContravariant3D E (v3d_mem (mem s) (ptr it));
             s1 = snd (write_f3d E (name it @ ''x'') (vec_x v) (grow it) s);
             s2 = snd (write_f3d E (name it @ ''y'') (vec_y v) (grow it) s1)
         in snd (write_f3d E (name it @ ''z'') (vec_z v) (grow it) s2)))"

definition write_vars :: "('b, 'f2, 'f3) env \<Rightarrow> ('b, 'f2, 'f3) state \<Rightarrow> ('b, 'f2, 'f3) state" where
  "write_vars E s =
     (let s1 = fold (write_int_var E) (int_arr s) s;
          s2 = fold (write_BoutReal_var E) (BoutReal_arr s1) s1;
          s3 = fold (write_f2d_var E) (f2d_arr s2) s2;
          s4 = fold (write_f3d_var E) (f3d_arr s3) s3;
          s5 = fold (write_v2d_var E) (v2d_arr s4) s4
      in fold (write_v3d_var E) (v3d_arr s5) s5)"

text \<open>\<^verbatim>\<open>write(const string &filename, bool append)\<close>, here \<open>write_filename\<close>.\<close>

definition write_filename :: "('b, 'f2, 'f3) env \<Rightarrow> string \<Rightarrow> bool \<Rightarrow> ('b, 'f2, 'f3) state \<Rightarrow> bool \<times> ('b, 'f2, 'f3) state" where
  "write_filename E filename app s =
     (if \<not> enabled s then (True, s)
      else
        case mpi_wtime E s of (tstart, s1) \<Rightarrow>
        case file_openw E filename app s1 of (opened, s2) \<Rightarrow>
          if \<not> opened then (False, s2)
          else
            case file_is_valid E s2 of (valid, s3) \<Rightarrow>
              if \<not> valid then (False, s3)
              else
                (let s4 = file_setRecord E (- 1) s3;
                     s5 = write_vars E s4;
                     s6 = file_close E s5
                 in case mpi_wtime E s6 of (tend, s7) \<Rightarrow>
                      (True, s7\<lparr>wtime := wtime s7 + (tend - tstart)\<rparr>)))"

text \<open>
  \<^verbatim>\<open>write(const char *format, ...)\<close> and \<^verbatim>\<open>append(const char *format, ...)\<close>, here
  \<open>write_format\<close> and \<open>append_format\<close>.
\<close>

definition write_format :: "('b, 'f2, 'f3) env \<Rightarrow> string option \<Rightarrow> va_arg list \<Rightarrow> ('b, 'f2, 'f3) state \<Rightarrow> cint \<times> ('b, 'f2, 'f3) state" where
  "write_format E fmt ap s =
     (case fmt of
        None \<Rightarrow> (1, s)
      | Some f \<Rightarrow>
          (let filename = vsprintf E f ap in
           case write_filename E filename False s of (r, s1) \<Rightarrow> if r then (0, s1) else (1, s1)))"

definition append_format :: "('b, 'f2, 'f3) env \<Rightarrow> string option \<Rightarrow> va_arg list \<Rightarrow> ('b, 'f2, 'f3) state \<Rightarrow> cint \<times> ('b, 'f2, 'f3) state" where
  "append_format E fmt ap s =
     (case fmt of
        None \<Rightarrow> (1, s)
      | Some f \<Rightarrow>
          (let filename = vsprintf E f ap in
           case write_filename E filename True s of (r, s1) \<Rightarrow> if r then (0, s1) else (1, s1)))"

text \<open>\<^verbatim>\<open>setFilename(const char *format, ...)\<close> returns nothing.\<close>

definition setFilename :: "('b, 'f2, 'f3) env \<Rightarrow> string option \<Rightarrow> va_arg list \<Rightarrow> ('b, 'f2, 'f3) state \<Rightarrow> ('b, 'f2, 'f3) state" where
  "setFilename E fmt ap s =
     (case fmt of
        None \<Rightarrow> s\<lparr>def_filename := []\<rparr>
      | Some f \<Rightarrow> (let filename = vsprintf E f ap in setFilename_string E filename s))"

subsection \<open>What a registry asks for\<close>

text \<open>
  Two functions that are not in the source, used to state what \<^verbatim>\<open>read\<close> does:
  \<open>registry\<close> is the six vectors of bindings together, and \<open>read_requests\<close> lists one
  read for each scalar and field binding and three for each vector binding, in the order
  of the loops of \<^verbatim>\<open>read\<close>.
\<close>

definition registry ::
  "('b, 'f2, 'f3) state \<Rightarrow>
   addr VarStr list \<times> addr VarStr list \<times> fptr VarStr list \<times> fptr VarStr list
     \<times> addr VecVarStr list \<times> addr VecVarStr list" where
  "registry s = (int_arr s, BoutReal_arr s, f2d_arr s, f3d_arr s, v2d_arr s, v3d_arr s)"

definition read_requests :: "('b, 'f2, 'f3) env \<Rightarrow> ('b, 'f2, 'f3) state \<Rightarrow> call list" where
  "read_requests E s =
     map (\<lambda>it. Read_int (grow it) (name it)) (int_arr s)
   @ map (\<lambda>it. Read_BoutReal (grow it) (name it)) (BoutReal_arr s)
   @ map (\<lambda>it. Read_2d (grow it) (name it) (ngx E) (ngy E)) (f2d_arr s)
   @ map (\<lambda>it. Read_3d (grow it) (name it) (ngx E) (ngy E) (ngz E)) (f3d_arr s)
   @ concat (map (\<lambda>it. map (\<lambda>c. Read_2d (grow it) (name it @ c) (ngx E) (ngy E))
                          (if covar it then [''_x'', ''_y'', ''_z''] else [''x'', ''y'', ''z'']))
                 (v2d_arr s))
   @ concat (map (\<lambda>it. map (\<lambda>c. Read_3d (grow it) (name it @ c) (ngx E) (ngy E) (ngz E))
                          (if covar it then [''_x'', ''_y'', ''_z''] else [''x'', ''y'', ''z'']))
                 (v3d_arr s))"

text \<open>
  In the same way \<open>write_requests\<close> lists the writes of a registry on a memory, in the
  order of the loops of \<^verbatim>\<open>write\<close>: the value of each scalar, the buffer of each field
  that is allocated, and for each vector the buffers of the allocated members of the vector
  converted to the basis of its binding. \<open>requests_2d\<close> and \<open>requests_3d\<close> are the writes
  of a list of named fields.
\<close>

definition requests_2d :: "('b, 'f2, 'f3) env \<Rightarrow> bool \<Rightarrow> (string \<times> 'f2) list \<Rightarrow> call list" where
  "requests_2d E g nfs =
     concat (map (\<lambda>(nm, f). if isAllocated (Field2D E) f
                              then [Write_2d g nm (ngx E) (ngy E) (getData (Field2D E) f)] else [])
               nfs)"

definition requests_3d :: "('b, 'f2, 'f3) env \<Rightarrow> bool \<Rightarrow> (string \<times> 'f3) list \<Rightarrow> call list" where
  "requests_3d E g nfs =
     concat (map (\<lambda>(nm, f). if isAllocated (Field3D E) f
                              then [Write_3d g nm (ngx E) (ngy E) (ngz E) (getData (Field3D E) f)] else [])
               nfs)"

definition write_requests :: "('b, 'f2, 'f3) env \<Rightarrow> ('b, 'f2, 'f3) state \<Rightarrow> call list" where
  "write_requests E s =
     map (\<lambda>it. Write_int (grow it) (name it) (int_mem (mem s) (ptr it))) (int_arr s)
   @ map (\<lambda>it. Write_BoutReal (grow it) (name it) (BoutReal_mem (mem s) (ptr it))) (BoutReal_arr s)
   @ concat (map (\<lambda>it. requests_2d E (grow it) [(name it, load_f2d (ptr it) (mem s))]) (f2d_arr s))
   @ concat (map (\<lambda>it. requests_3d E (grow it) [(name it, load_f3d (ptr it) (mem s))]) (f3d_arr s))
   @ concat (map (\<lambda>it.
        if covar it
        then (let v = toCovariant2D E (v2d_mem (mem s) (ptr it))
              in requests_2d E (grow it)
                   [(name it @ ''_x'', vec_x v), (name it @ ''_y'', vec_y v), (name it @ ''_z'', vec_z v)])
        else (let v = toContravariant2D E (v2d_mem (mem s) (ptr it))
              in requests_2d E (grow it)
                   [(name it @ ''x'', vec_x v), (name it @ ''y'', vec_y v), (name it @ ''z'', vec_z v)]))
      (v2d_arr s))
   @ concat (map (\<lambda>it.
        if covar it
        then (let v = toCovariant3D E (v3d_mem (mem s) (ptr it))
              in requests_3d E (grow it)
                   [(name it @ ''_x'', vec_x v), (name it @ ''_y'', vec_y v), (name it @ ''_z'', vec_z v)])
        else (let v = toContravariant3D E (v3d_mem (mem s) (ptr it))
              in requests_3d E (grow it)
                   [(name it @ ''x'', vec_x v), (name it @ ''y'', vec_y v), (name it @ ''z'', vec_z v)]))
      (v3d_arr s))"

text \<open>The name of the variable a transfer is about.\<close>

fun call_name :: "call \<Rightarrow> string option" where
  "call_name (Read_int r nm) = Some nm"
| "call_name (Read_BoutReal r nm) = Some nm"
| "call_name (Read_2d r nm lx ly) = Some nm"
| "call_name (Read_3d r nm lx ly lz) = Some nm"
| "call_name (Write_int r nm v) = Some nm"
| "call_name (Write_BoutReal r nm v) = Some nm"
| "call_name (Write_2d r nm lx ly d) = Some nm"
| "call_name (Write_3d r nm lx ly lz d) = Some nm"
| "call_name c = None"

subsection \<open>A small instance\<close>

text \<open>
  One environment to run the definitions in: a format that keeps its variables in two
  association lists (integers, and arrays of reals; a real scalar is an array of one
  element; a record is a plain variable), opens every file, and fails to read a name it
  does not hold; fields that are a buffer or nothing, on a mesh of 2 by 2 by 1 points;
  basis changes that only set the flag; a clock that counts its readings; and a formatter
  for templates without conversion specifications.
\<close>

type_synonym file0 = "(string \<times> cint) list \<times> (string \<times> BoutReal list) list"
type_synonym field0 = "BoutReal list option"

definition read_int0 :: "string \<Rightarrow> cint \<Rightarrow> file0 \<Rightarrow> bool \<times> cint \<times> file0" where
  "read_int0 nm v b = (case map_of (fst b) nm of None \<Rightarrow> (False, v, b) | Some w \<Rightarrow> (True, w, b))"

definition read_BoutReal0 :: "string \<Rightarrow> BoutReal \<Rightarrow> file0 \<Rightarrow> bool \<times> BoutReal \<times> file0" where
  "read_BoutReal0 nm v b =
     (case map_of (snd b) nm of None \<Rightarrow> (False, v, b) | Some ws \<Rightarrow> (True, hd (ws @ [v]), b))"

definition read_array0 :: "string \<Rightarrow> BoutReal list \<Rightarrow> file0 \<Rightarrow> bool \<times> BoutReal list \<times> file0" where
  "read_array0 nm buf b = (case map_of (snd b) nm of None \<Rightarrow> (False, buf, b) | Some ws \<Rightarrow> (True, ws, b))"

definition write_int0 :: "string \<Rightarrow> cint \<Rightarrow> file0 \<Rightarrow> bool \<times> file0" where
  "write_int0 nm v b = (True, ((nm, v) # fst b, snd b))"

definition write_array0 :: "string \<Rightarrow> BoutReal list \<Rightarrow> file0 \<Rightarrow> bool \<times> file0" where
  "write_array0 nm buf b = (True, (fst b, (nm, buf) # snd b))"

definition format0 :: "file0 DataFormat" where
  "format0 =
     \<lparr>openr = (\<lambda>filename b. (True, b)),
      openw = (\<lambda>filename app b. (True, if app then b else ([], []))),
      is_valid = (\<lambda>b. (True, b)),
      setRecord = (\<lambda>n b. b),
      close = (\<lambda>b. b),
      read_int = read_int0,
      read_rec_int = read_int0,
      read_BoutReal = read_BoutReal0,
      read_rec_BoutReal = read_BoutReal0,
      read_2d = (\<lambda>nm lx ly. read_array0 nm),
      read_rec_2d = (\<lambda>nm lx ly. read_array0 nm),
      read_3d = (\<lambda>nm lx ly lz. read_array0 nm),
      read_rec_3d = (\<lambda>nm lx ly lz. read_array0 nm),
      write_int = write_int0,
      write_rec_int = write_int0,
      write_BoutReal = (\<lambda>nm v. write_array0 nm [v]),
      write_rec_BoutReal = (\<lambda>nm v. write_array0 nm [v]),
      write_2d = (\<lambda>nm lx ly. write_array0 nm),
      write_rec_2d = (\<lambda>nm lx ly. write_array0 nm),
      write_3d = (\<lambda>nm lx ly lz. write_array0 nm),
      write_rec_3d = (\<lambda>nm lx ly lz. write_array0 nm)\<rparr>"

definition Field0 :: "field0 Field" where
  "Field0 =
     \<lparr>allocate = (\<lambda>f. case f of None \<Rightarrow> Some [0, 0, 0, 0] | Some d \<Rightarrow> Some d),
      isAllocated = (\<lambda>f. case f of None \<Rightarrow> False | Some d \<Rightarrow> True),
      assign = (\<lambda>c f. Some [c, c, c, c]),
      getData = (\<lambda>f. case f of None \<Rightarrow> [] | Some d \<Rightarrow> d),
      putData = (\<lambda>buf f. Some buf)\<rparr>"

definition env0 :: "(file0, field0, field0) env" where
  "env0 =
     \<lparr>format = format0,
      Field2D = Field0,
      Field3D = Field0,
      toCovariant2D = (\<lambda>v. v\<lparr>covariant := True\<rparr>),
      toContravariant2D = (\<lambda>v. v\<lparr>covariant := False\<rparr>),
      toCovariant3D = (\<lambda>v. v\<lparr>covariant := True\<rparr>),
      toContravariant3D = (\<lambda>v. v\<lparr>covariant := False\<rparr>),
      ngx = 2,
      ngy = 2,
      ngz = 1,
      MPI_Wtime = (\<lambda>n. real n),
      vsprintf = (\<lambda>f ap. f),
      setFilename_string = (\<lambda>filename s. s\<lparr>def_filename := filename\<rparr>)\<rparr>"

text \<open>
  A memory with every field unallocated but the \<open>x\<close> and \<open>z\<close> members of the vectors,
  and a \<^verbatim>\<open>Datafile\<close> with nothing registered on an empty file.
\<close>

definition memory0 :: "(field0, field0) memory" where
  "memory0 =
     \<lparr>int_mem = (\<lambda>a. 7),
      BoutReal_mem = (\<lambda>a. 5 / 2),
      f2d_mem = (\<lambda>a. None),
      f3d_mem = (\<lambda>a. None),
      v2d_mem = (\<lambda>a. \<lparr>vec_x = Some [1, 2, 3, 4], vec_y = None, vec_z = Some [5, 6, 7, 8], covariant = False\<rparr>),
      v3d_mem = (\<lambda>a. \<lparr>vec_x = Some [1, 2, 3, 4], vec_y = None, vec_z = Some [5, 6, 7, 8], covariant = True\<rparr>)\<rparr>"

definition Datafile0 :: "(file0, field0, field0) state" where
  "Datafile0 =
     \<lparr>int_arr = [], BoutReal_arr = [], f2d_arr = [], f3d_arr = [], v2d_arr = [], v3d_arr = [],
      def_filename = [], the_file = ([], []), enabled = True, wtime = 0, mem = memory0,
      output_log = [], calls = [], clock = 0\<rparr>"

text \<open>The same \<^verbatim>\<open>Datafile\<close> with two bindings of each kind.\<close>

definition Datafile1 :: "(file0, field0, field0) state" where
  "Datafile1 =
     Datafile0
       \<lparr>int_arr := [\<lparr>ptr = 0, name = ''n'', grow = False\<rparr>, \<lparr>ptr = 1, name = ''t'', grow = True\<rparr>],
        BoutReal_arr := [\<lparr>ptr = 0, name = ''dt'', grow = False\<rparr>, \<lparr>ptr = 1, name = ''time'', grow = True\<rparr>],
        f2d_arr := [\<lparr>ptr = Whole 0, name = ''phi'', grow = False\<rparr>, \<lparr>ptr = Member_x 0, name = ''Bx'', grow = True\<rparr>],
        f3d_arr := [\<lparr>ptr = Whole 0, name = ''rho'', grow = True\<rparr>, \<lparr>ptr = Member_z 1, name = ''Bz'', grow = False\<rparr>],
        v2d_arr := [\<lparr>ptr = 0, name = ''B'', grow = False, covar = False\<rparr>, \<lparr>ptr = 1, name = ''A'', grow = True, covar = True\<rparr>],
        v3d_arr := [\<lparr>ptr = 0, name = ''v'', grow = True, covar = True\<rparr>, \<lparr>ptr = 1, name = ''u'', grow = False, covar = False\<rparr>]\<rparr>"

section \<open>Properties\<close>

subsection \<open>Registration\<close>

lemma name_in_iff: "name_in nm xs \<longleftrightarrow> nm \<in> name ` set xs"
  by (induction xs) auto

lemma varAdded_iff:
  "varAdded nm s \<longleftrightarrow>
     nm \<in> name ` set (int_arr s) \<union> name ` set (BoutReal_arr s) \<union> name ` set (f2d_arr s)
        \<union> name ` set (f3d_arr s) \<union> name ` set (v2d_arr s) \<union> name ` set (v3d_arr s)"
  by (simp add: varAdded_def name_in_iff)

lemmas add_defs =
  add_int_def add_BoutReal_def add_Field2D_def add_Field3D_def add_Vector2D_def add_Vector3D_def

text \<open>
  C2. An \<^verbatim>\<open>add\<close> with a name that one of the six vectors already holds (the strings are
  equal) throws the exception built from that name and leaves the state as it was; with a
  new name it returns with one binding appended to the vector of its kind, and nothing else
  changed.
\<close>

theorem add_duplicate_name:
  fixes s :: "('b, 'f2, 'f3) state"
  shows
  "(nm \<in> name ` set (int_arr s) \<union> name ` set (BoutReal_arr s) \<union> name ` set (f2d_arr s)
        \<union> name ` set (f3d_arr s) \<union> name ` set (v2d_arr s) \<union> name ` set (v3d_arr s) \<longrightarrow>
      add_int a nm g s = (Some (BoutException ''Variable '%s' already added to Datafile'' [Arg_str nm]), s)
    \<and> add_BoutReal a nm g s = (Some (BoutException ''Variable '%s' already added to Datafile'' [Arg_str nm]), s)
    \<and> add_Field2D p nm g s = (Some (BoutException ''Variable '%s' already added to Datafile'' [Arg_str nm]), s)
    \<and> add_Field3D p nm g s = (Some (BoutException ''Variable '%s' already added to Datafile'' [Arg_str nm]), s)
    \<and> add_Vector2D a nm g s = (Some (BoutException ''Variable '%s' already added to Datafile'' [Arg_str nm]), s)
    \<and> add_Vector3D a nm g s = (Some (BoutException ''Variable '%s' already added to Datafile'' [Arg_str nm]), s))
 \<and> (nm \<notin> name ` set (int_arr s) \<union> name ` set (BoutReal_arr s) \<union> name ` set (f2d_arr s)
        \<union> name ` set (f3d_arr s) \<union> name ` set (v2d_arr s) \<union> name ` set (v3d_arr s) \<longrightarrow>
      add_int a nm g s = (None, s\<lparr>int_arr := int_arr s @ [\<lparr>ptr = a, name = nm, grow = 0 <s g\<rparr>]\<rparr>)
    \<and> add_BoutReal a nm g s = (None, s\<lparr>BoutReal_arr := BoutReal_arr s @ [\<lparr>ptr = a, name = nm, grow = 0 <s g\<rparr>]\<rparr>)
    \<and> add_Field2D p nm g s = (None, s\<lparr>f2d_arr := f2d_arr s @ [\<lparr>ptr = p, name = nm, grow = 0 <s g\<rparr>]\<rparr>)
    \<and> add_Field3D p nm g s = (None, s\<lparr>f3d_arr := f3d_arr s @ [\<lparr>ptr = p, name = nm, grow = 0 <s g\<rparr>]\<rparr>)
    \<and> add_Vector2D a nm g s =
        (None, s\<lparr>v2d_arr := v2d_arr s @ [\<lparr>ptr = a, name = nm, grow = 0 <s g, covar = covariant (v2d_mem (mem s) a)\<rparr>]\<rparr>)
    \<and> add_Vector3D a nm g s =
        (None, s\<lparr>v3d_arr := v3d_arr s @ [\<lparr>ptr = a, name = nm, grow = 0 <s g, covar = covariant (v3d_mem (mem s) a)\<rparr>]\<rparr>))"
  unfolding varAdded_iff [symmetric]
  by (simp add: add_defs)

theorem add_duplicate_name_witness:
  "add_Field2D (Whole 5) ''v'' 1 Datafile1
     = (Some (BoutException ''Variable '%s' already added to Datafile'' [Arg_str ''v'']), Datafile1)
   \<and> add_Field2D (Whole 5) ''V'' 1 Datafile1
     = (None, Datafile1\<lparr>f2d_arr := f2d_arr Datafile1 @ [\<lparr>ptr = Whole 5, name = ''V'', grow = 0 <s (1 :: cint)\<rparr>]\<rparr>)"
proof -
  have dup: "''v'' \<in> name ` set (int_arr Datafile1) \<union> name ` set (BoutReal_arr Datafile1)
        \<union> name ` set (f2d_arr Datafile1) \<union> name ` set (f3d_arr Datafile1)
        \<union> name ` set (v2d_arr Datafile1) \<union> name ` set (v3d_arr Datafile1)"
    by (simp add: Datafile1_def)
  have new: "''V'' \<notin> name ` set (int_arr Datafile1) \<union> name ` set (BoutReal_arr Datafile1)
        \<union> name ` set (f2d_arr Datafile1) \<union> name ` set (f3d_arr Datafile1)
        \<union> name ` set (v2d_arr Datafile1) \<union> name ` set (v3d_arr Datafile1)"
    by (simp add: Datafile1_def)
  show ?thesis
    using dup new
      add_duplicate_name [of "''v''" Datafile1 0 1 "Whole 5"]
      add_duplicate_name [of "''V''" Datafile1 0 1 "Whole 5"]
    by blast
qed

text \<open>
  C10. The binding an \<^verbatim>\<open>add\<close> appends has its grow flag set exactly when the argument
  \<^verbatim>\<open>grow\<close>, read as a signed integer, is greater than zero; the flags of the bindings
  before it are as they were.
\<close>

theorem add_grow_flag:
  fixes s :: "('b, 'f2, 'f3) state"
  shows
  "\<not> varAdded nm s \<Longrightarrow>
     map grow (int_arr (snd (add_int a nm g s))) = map grow (int_arr s) @ [0 < sint g]
   \<and> map grow (BoutReal_arr (snd (add_BoutReal a nm g s))) = map grow (BoutReal_arr s) @ [0 < sint g]
   \<and> map grow (f2d_arr (snd (add_Field2D p nm g s))) = map grow (f2d_arr s) @ [0 < sint g]
   \<and> map grow (f3d_arr (snd (add_Field3D p nm g s))) = map grow (f3d_arr s) @ [0 < sint g]
   \<and> map grow (v2d_arr (snd (add_Vector2D a nm g s))) = map grow (v2d_arr s) @ [0 < sint g]
   \<and> map grow (v3d_arr (snd (add_Vector3D a nm g s))) = map grow (v3d_arr s) @ [0 < sint g]"
  by (simp add: add_defs word_sless_alt)

theorem add_grow_flag_witness:
  "\<not> varAdded ''w'' Datafile1
   \<and> map grow (int_arr (snd (add_int 2 ''w'' 1 Datafile1))) = [False, True, True]
   \<and> map grow (f3d_arr (snd (add_Field3D (Whole 2) ''w'' 0 Datafile1))) = [True, False, False]
   \<and> map grow (v2d_arr (snd (add_Vector2D 2 ''w'' (- 1) Datafile1))) = [False, True, False]"
proof -
  have new: "\<not> varAdded ''w'' Datafile1"
    by (simp add: varAdded_def Datafile1_def)
  show ?thesis
    using new
      add_grow_flag [OF new, of 2 1 "Whole 2"]
      add_grow_flag [OF new, of 2 0 "Whole 2"]
      add_grow_flag [OF new, of 2 "- 1" "Whole 2"]
    by (simp add: Datafile1_def)
qed

subsection \<open>The switch \<^verbatim>\<open>enabled\<close>\<close>

text \<open>
  C3. With \<^verbatim>\<open>enabled\<close> false, \<^verbatim>\<open>write(filename, append)\<close> returns \<^verbatim>\<open>true\<close> and
  leaves the whole state as it was: no call on \<^verbatim>\<open>file\<close> is made and the format keeps
  its state.
\<close>

theorem write_disabled:
  "\<not> enabled s \<Longrightarrow>
     write_filename E filename app s = (True, s)
   \<and> calls (snd (write_filename E filename app s)) = calls s
   \<and> the_file (snd (write_filename E filename app s)) = the_file s"
  by (simp add: write_filename_def)

theorem write_disabled_witness:
  "\<not> enabled (Datafile1\<lparr>enabled := False\<rparr>)
   \<and> write_filename env0 ''BOUT.dmp.0.nc'' True (Datafile1\<lparr>enabled := False\<rparr>)
       = (True, Datafile1\<lparr>enabled := False\<rparr>)
   \<and> calls (snd (write_filename env0 ''BOUT.dmp.0.nc'' True (Datafile1\<lparr>enabled := False\<rparr>))) = []"
proof -
  have off: "\<not> enabled (Datafile1\<lparr>enabled := False\<rparr>)" by simp
  show ?thesis
    using off write_disabled [OF off, of env0 "''BOUT.dmp.0.nc''" True]
    by (simp add: Datafile1_def Datafile0_def)
qed

subsection \<open>Frames and calls of the steps of \<^verbatim>\<open>read\<close>\<close>

lemmas env0_defs = env0_def format0_def Field0_def read_int0_def read_BoutReal0_def read_array0_def
  write_int0_def write_array0_def

lemmas Datafile1_defs = Datafile1_def Datafile0_def memory0_def

lemmas state_defs =
  invoke_def set_int_def set_BoutReal_def set_f2d_def set_f3d_def set_covariant2D_def
  set_covariant3D_def output_write_def

lemmas run_defs =
  read_def read_vars_def read_int_var_def read_BoutReal_var_def read_f2d_var_def read_f3d_var_def
  read_v2d_var_def read_v3d_var_def read_f2d_def read_f3d_def
  write_filename_def write_vars_def write_int_var_def write_BoutReal_var_def write_f2d_var_def
  write_f3d_var_def write_v2d_var_def write_v3d_var_def write_f2d_def write_f3d_def
  file_openr_def file_openw_def file_is_valid_def file_setRecord_def file_close_def
  file_read_int_def file_read_BoutReal_def file_read_2d_def file_read_3d_def
  file_write_int_def file_write_BoutReal_def file_write_2d_def file_write_3d_def
  mpi_wtime_def state_defs env0_defs Datafile1_defs Let_def

lemma load_store_f2d: "load_f2d p (store_f2d p f m) = f"
  by (cases p) simp_all

lemma load_store_f3d: "load_f3d p (store_f3d p f m) = f"
  by (cases p) simp_all

lemma fold_frame:
  assumes "\<And>x s. g (f x s) = g s"
  shows "g (fold f xs s) = g s"
  by (induction xs arbitrary: s) (simp_all add: assms)

lemma fold_calls:
  assumes "\<And>x s. calls (f x s) = calls s @ ev x"
  shows "calls (fold f xs s) = calls s @ concat (map ev xs)"
  by (induction xs arbitrary: s) (simp_all add: assms)

lemma read_int_var_calls: "calls (read_int_var E it s) = calls s @ [Read_int (grow it) (name it)]"
  by (simp add: read_int_var_def file_read_int_def state_defs split_def)

lemma read_int_var_registry: "registry (read_int_var E it s) = registry s"
  by (simp add: read_int_var_def file_read_int_def state_defs registry_def split_def)

lemma read_BoutReal_var_calls:
  "calls (read_BoutReal_var E it s) = calls s @ [Read_BoutReal (grow it) (name it)]"
  by (simp add: read_BoutReal_var_def file_read_BoutReal_def state_defs split_def)

lemma read_BoutReal_var_registry: "registry (read_BoutReal_var E it s) = registry s"
  by (simp add: read_BoutReal_var_def file_read_BoutReal_def state_defs registry_def split_def)

lemma read_f2d_calls: "calls (snd (read_f2d E nm f g s)) = calls s @ [Read_2d g nm (ngx E) (ngy E)]"
  by (simp add: read_f2d_def file_read_2d_def state_defs Let_def split_def)

lemma read_f2d_registry: "registry (snd (read_f2d E nm f g s)) = registry s"
  by (simp add: read_f2d_def file_read_2d_def state_defs registry_def Let_def split_def)

lemma read_f3d_calls:
  "calls (snd (read_f3d E nm f g s)) = calls s @ [Read_3d g nm (ngx E) (ngy E) (ngz E)]"
  by (simp add: read_f3d_def file_read_3d_def state_defs Let_def split_def)

lemma read_f3d_registry: "registry (snd (read_f3d E nm f g s)) = registry s"
  by (simp add: read_f3d_def file_read_3d_def state_defs registry_def Let_def split_def)

lemma set_covariant_calls:
  "calls (set_covariant2D p c s) = calls s" "calls (set_covariant3D p c s) = calls s"
  by (simp_all add: state_defs)

lemma set_covariant_registry:
  "registry (set_covariant2D p c s) = registry s" "registry (set_covariant3D p c s) = registry s"
  by (simp_all add: state_defs registry_def)

lemma read_v2d_var_calls:
  "calls (read_v2d_var E it s) =
     calls s @ map (\<lambda>c. Read_2d (grow it) (name it @ c) (ngx E) (ngy E))
                 (if covar it then [''_x'', ''_y'', ''_z''] else [''x'', ''y'', ''z''])"
  by (simp add: read_v2d_var_def Let_def read_f2d_calls set_covariant_calls)

lemma read_v2d_var_registry: "registry (read_v2d_var E it s) = registry s"
  by (simp add: read_v2d_var_def Let_def read_f2d_registry set_covariant_registry)

lemma read_v3d_var_calls:
  "calls (read_v3d_var E it s) =
     calls s @ map (\<lambda>c. Read_3d (grow it) (name it @ c) (ngx E) (ngy E) (ngz E))
                 (if covar it then [''_x'', ''_y'', ''_z''] else [''x'', ''y'', ''z''])"
  by (simp add: read_v3d_var_def Let_def read_f3d_calls set_covariant_calls)

lemma read_v3d_var_registry: "registry (read_v3d_var E it s) = registry s"
  by (simp add: read_v3d_var_def Let_def read_f3d_registry set_covariant_registry)

lemma registry_eqD:
  assumes "registry t = registry s"
  shows "int_arr t = int_arr s" "BoutReal_arr t = BoutReal_arr s" "f2d_arr t = f2d_arr s"
    "f3d_arr t = f3d_arr s" "v2d_arr t = v2d_arr s" "v3d_arr t = v3d_arr s"
  using assms by (simp_all add: registry_def)

lemma read_loops_registry:
  "registry (fold (read_int_var E) xs s) = registry s"
  "registry (fold (read_BoutReal_var E) xs s) = registry s"
  "registry (fold (read_f2d_var E) ys s) = registry s"
  "registry (fold (read_f3d_var E) ys s) = registry s"
  "registry (fold (read_v2d_var E) zs s) = registry s"
  "registry (fold (read_v3d_var E) zs s) = registry s"
  by (rule fold_frame,
      simp add: read_int_var_registry read_BoutReal_var_registry read_f2d_var_def read_f3d_var_def
        read_f2d_registry read_f3d_registry read_v2d_var_registry read_v3d_var_registry)+

lemma read_vars_registry: "registry (read_vars E s) = registry s"
  by (simp add: read_vars_def Let_def read_loops_registry)

lemma read_loops_calls:
  "calls (fold (read_int_var E) xs s) = calls s @ concat (map (\<lambda>it. [Read_int (grow it) (name it)]) xs)"
  "calls (fold (read_BoutReal_var E) xs s) = calls s @ concat (map (\<lambda>it. [Read_BoutReal (grow it) (name it)]) xs)"
  "calls (fold (read_f2d_var E) ys s) = calls s @ concat (map (\<lambda>it. [Read_2d (grow it) (name it) (ngx E) (ngy E)]) ys)"
  "calls (fold (read_f3d_var E) ys s) = calls s @ concat (map (\<lambda>it. [Read_3d (grow it) (name it) (ngx E) (ngy E) (ngz E)]) ys)"
  "calls (fold (read_v2d_var E) zs s) =
     calls s @ concat (map (\<lambda>it. map (\<lambda>c. Read_2d (grow it) (name it @ c) (ngx E) (ngy E))
                 (if covar it then [''_x'', ''_y'', ''_z''] else [''x'', ''y'', ''z''])) zs)"
  "calls (fold (read_v3d_var E) zs s) =
     calls s @ concat (map (\<lambda>it. map (\<lambda>c. Read_3d (grow it) (name it @ c) (ngx E) (ngy E) (ngz E))
                 (if covar it then [''_x'', ''_y'', ''_z''] else [''x'', ''y'', ''z''])) zs)"
  by (rule fold_calls,
      simp add: read_int_var_calls read_BoutReal_var_calls read_f2d_var_def read_f3d_var_def
        read_f2d_calls read_f3d_calls read_v2d_var_calls read_v3d_var_calls)+

lemma concat_map_single: "concat (map (\<lambda>x. [h x]) xs) = map h xs"
  by (induction xs) simp_all

lemma read_vars_calls: "calls (read_vars E s) = calls s @ read_requests E s"
proof -
  define s1 where "s1 = fold (read_int_var E) (int_arr s) s"
  define s2 where "s2 = fold (read_BoutReal_var E) (BoutReal_arr s1) s1"
  define s3 where "s3 = fold (read_f2d_var E) (f2d_arr s2) s2"
  define s4 where "s4 = fold (read_f3d_var E) (f3d_arr s3) s3"
  define s5 where "s5 = fold (read_v2d_var E) (v2d_arr s4) s4"
  have r1: "registry s1 = registry s" by (simp add: s1_def read_loops_registry)
  have r2: "registry s2 = registry s" by (simp add: s2_def read_loops_registry r1)
  have r3: "registry s3 = registry s" by (simp add: s3_def read_loops_registry r2)
  have r4: "registry s4 = registry s" by (simp add: s4_def read_loops_registry r3)
  have r5: "registry s5 = registry s" by (simp add: s5_def read_loops_registry r4)
  have "read_vars E s = fold (read_v3d_var E) (v3d_arr s5) s5"
    by (simp add: read_vars_def Let_def s1_def s2_def s3_def s4_def s5_def)
  then have "calls (read_vars E s) = calls s5 @ concat (map (\<lambda>it. map (\<lambda>c. Read_3d (grow it) (name it @ c) (ngx E) (ngy E) (ngz E))
                 (if covar it then [''_x'', ''_y'', ''_z''] else [''x'', ''y'', ''z''])) (v3d_arr s))"
    by (simp add: read_loops_calls registry_eqD [OF r5])
  moreover have "calls s5 = calls s4 @ concat (map (\<lambda>it. map (\<lambda>c. Read_2d (grow it) (name it @ c) (ngx E) (ngy E))
                 (if covar it then [''_x'', ''_y'', ''_z''] else [''x'', ''y'', ''z''])) (v2d_arr s))"
    by (simp add: s5_def read_loops_calls registry_eqD [OF r4])
  moreover have "calls s4 = calls s3 @ map (\<lambda>it. Read_3d (grow it) (name it) (ngx E) (ngy E) (ngz E)) (f3d_arr s)"
    by (simp add: s4_def read_loops_calls registry_eqD [OF r3] concat_map_single)
  moreover have "calls s3 = calls s2 @ map (\<lambda>it. Read_2d (grow it) (name it) (ngx E) (ngy E)) (f2d_arr s)"
    by (simp add: s3_def read_loops_calls registry_eqD [OF r2] concat_map_single)
  moreover have "calls s2 = calls s1 @ map (\<lambda>it. Read_BoutReal (grow it) (name it)) (BoutReal_arr s)"
    by (simp add: s2_def read_loops_calls registry_eqD [OF r1] concat_map_single)
  moreover have "calls s1 = calls s @ map (\<lambda>it. Read_int (grow it) (name it)) (int_arr s)"
    by (simp add: s1_def read_loops_calls concat_map_single)
  ultimately show ?thesis
    by (simp add: read_requests_def)
qed

lemma read_int_var_fails:
  assumes "\<not> fst (file_read_int (if grow it then read_rec_int (format E) else read_int (format E))
                    (grow it) (ptr it) (name it) s)"
  shows "int_mem (mem (read_int_var E it s)) (ptr it) = 0
       \<and> output_log (read_int_var E it s) = output_log s @ [warning_int (name it)]"
  using assms
  by (cases "grow it") (simp_all add: read_int_var_def file_read_int_def state_defs split_def)

lemma read_BoutReal_var_fails:
  assumes "\<not> fst (file_read_BoutReal (if grow it then read_rec_BoutReal (format E) else read_BoutReal (format E))
                    (grow it) (ptr it) (name it) s)"
  shows "BoutReal_mem (mem (read_BoutReal_var E it s)) (ptr it) = 0
       \<and> output_log (read_BoutReal_var E it s) = output_log s @ [warning_BoutReal (name it)]"
  using assms
  by (cases "grow it") (simp_all add: read_BoutReal_var_def file_read_BoutReal_def state_defs split_def)

lemma read_f2d_fails:
  assumes "\<not> fst (file_read_2d E (if g then read_rec_2d (format E) else read_2d (format E)) g f nm
                    (set_f2d f (allocate (Field2D E) (load_f2d f (mem s))) s))"
  shows "\<not> fst (read_f2d E nm f g s)
       \<and> load_f2d f (mem (snd (read_f2d E nm f g s)))
           = assign (Field2D E) 0
               (load_f2d f (mem (snd (file_read_2d E (if g then read_rec_2d (format E) else read_2d (format E)) g f nm
                    (set_f2d f (allocate (Field2D E) (load_f2d f (mem s))) s)))))
       \<and> output_log (snd (read_f2d E nm f g s)) = output_log s @ [warning_f2d nm]"
  using assms
  by (cases g) (simp_all add: read_f2d_def file_read_2d_def state_defs split_def Let_def load_store_f2d)

lemma read_f3d_fails:
  assumes "\<not> fst (file_read_3d E (if g then read_rec_3d (format E) else read_3d (format E)) g f nm
                    (set_f3d f (allocate (Field3D E) (load_f3d f (mem s))) s))"
  shows "\<not> fst (read_f3d E nm f g s)
       \<and> load_f3d f (mem (snd (read_f3d E nm f g s)))
           = assign (Field3D E) 0
               (load_f3d f (mem (snd (file_read_3d E (if g then read_rec_3d (format E) else read_3d (format E)) g f nm
                    (set_f3d f (allocate (Field3D E) (load_f3d f (mem s))) s)))))
       \<and> output_log (snd (read_f3d E nm f g s)) = output_log s @ [warning_f3d nm]"
  using assms
  by (cases g) (simp_all add: read_f3d_def file_read_3d_def state_defs split_def Let_def load_store_f3d)

lemma file_calls:
  "calls (snd (file_openr E fn s)) = calls s @ [Openr fn]"
  "calls (snd (file_openw E fn app s)) = calls s @ [Openw fn app]"
  "calls (snd (file_is_valid E s)) = calls s @ [Is_valid]"
  "calls (file_setRecord E n s) = calls s @ [SetRecord n]"
  "calls (file_close E s) = calls s @ [Close]"
  "calls (snd (mpi_wtime E s)) = calls s"
  by (simp_all add: file_openr_def file_openw_def file_is_valid_def file_setRecord_def
      file_close_def mpi_wtime_def invoke_def split_def)

lemma file_registry:
  "registry (snd (file_openr E fn s)) = registry s"
  "registry (snd (file_openw E fn app s)) = registry s"
  "registry (snd (file_is_valid E s)) = registry s"
  "registry (file_setRecord E n s) = registry s"
  "registry (file_close E s) = registry s"
  "registry (snd (mpi_wtime E s)) = registry s"
  by (simp_all add: file_openr_def file_openw_def file_is_valid_def file_setRecord_def
      file_close_def mpi_wtime_def invoke_def split_def registry_def)

lemma read_requests_cong: "registry t = registry s \<Longrightarrow> read_requests E t = read_requests E s"
  by (simp add: read_requests_def registry_def)

lemma file_openr_fst: "fst (file_openr E fn s) = fst (openr (format E) fn (the_file s))"
  by (simp add: file_openr_def split_def)

lemma file_is_valid_fst: "fst (file_is_valid E s) = fst (is_valid (format E) (the_file s))"
  by (simp add: file_is_valid_def split_def)

lemma file_openr_the_file: "the_file (snd (file_openr E fn s)) = snd (openr (format E) fn (the_file s))"
  by (simp add: file_openr_def split_def invoke_def)

lemma mpi_wtime_the_file: "the_file (snd (mpi_wtime E s)) = the_file s"
  by (simp add: mpi_wtime_def)

lemma read_status_and_calls:
  assumes "fst (openr (format E) (vsprintf E fmt ap) (the_file s))"
    and "fst (is_valid (format E) (snd (openr (format E) (vsprintf E fmt ap) (the_file s))))"
  shows "fst (read E (Some fmt) ap s) = 0"
    and "calls (snd (read E (Some fmt) ap s))
           = calls s @ [Openr (vsprintf E fmt ap), Is_valid, SetRecord (- 1)] @ read_requests E s @ [Close]"
proof -
  define s1 where "s1 = snd (mpi_wtime E s)"
  define s2 where "s2 = snd (file_openr E (vsprintf E fmt ap) s1)"
  define s3 where "s3 = snd (file_is_valid E s2)"
  define s4 where "s4 = file_setRecord E (- 1) s3"
  have o: "fst (file_openr E (vsprintf E fmt ap) s1)"
    using assms(1) by (simp add: file_openr_fst s1_def mpi_wtime_the_file)
  have v: "fst (file_is_valid E s2)"
    using assms(2) by (simp add: file_is_valid_fst s2_def file_openr_the_file s1_def mpi_wtime_the_file)
  have r: "read E (Some fmt) ap s =
      (0, (snd (mpi_wtime E (file_close E (read_vars E s4))))
            \<lparr>wtime := wtime (snd (mpi_wtime E (file_close E (read_vars E s4))))
               + (fst (mpi_wtime E (file_close E (read_vars E s4))) - fst (mpi_wtime E s))\<rparr>)"
    using o v by (simp add: read_def Let_def split_def s1_def s2_def s3_def s4_def)
  show "fst (read E (Some fmt) ap s) = 0" by (simp add: r)
  have reg: "registry s4 = registry s"
    by (simp add: s4_def s3_def s2_def s1_def file_registry)
  have c4: "calls s4 = calls s @ [Openr (vsprintf E fmt ap), Is_valid, SetRecord (- 1)]"
    by (simp add: s4_def s3_def s2_def s1_def file_calls)
  show "calls (snd (read E (Some fmt) ap s))
           = calls s @ [Openr (vsprintf E fmt ap), Is_valid, SetRecord (- 1)] @ read_requests E s @ [Close]"
    by (simp add: r file_calls read_vars_calls c4 read_requests_cong [OF reg])
qed

lemma read_opens:
  "\<exists>rest. calls (snd (read E (Some fmt) ap s)) = calls s @ Openr (vsprintf E fmt ap) # rest"
proof (cases "fst (openr (format E) (vsprintf E fmt ap) (the_file s))")
  case False
  then have "calls (snd (read E (Some fmt) ap s)) = calls s @ [Openr (vsprintf E fmt ap)]"
    by (simp add: read_def Let_def split_def file_openr_fst mpi_wtime_the_file file_calls)
  then show ?thesis by simp
next
  case o: True
  show ?thesis
  proof (cases "fst (is_valid (format E) (snd (openr (format E) (vsprintf E fmt ap) (the_file s))))")
    case True
    from read_status_and_calls(2) [OF o True] show ?thesis by simp
  next
    case False
    with o have "calls (snd (read E (Some fmt) ap s)) = calls s @ [Openr (vsprintf E fmt ap), Is_valid]"
      by (simp add: read_def Let_def split_def file_openr_fst file_is_valid_fst file_openr_the_file
          mpi_wtime_the_file file_calls)
    then show ?thesis by simp
  qed
qed

subsection \<open>A loop body whose read fails\<close>

lemma read_bodies_fail:
  "(\<not> fst (file_read_int (if grow it then read_rec_int (format E) else read_int (format E))
             (grow it) (ptr it) (name it) s) \<longrightarrow>
      int_mem (mem (read_int_var E it s)) (ptr it) = 0
    \<and> output_log (read_int_var E it s) = output_log s @ [warning_int (name it)])
 \<and> (\<not> fst (file_read_BoutReal (if grow rt then read_rec_BoutReal (format E) else read_BoutReal (format E))
             (grow rt) (ptr rt) (name rt) s) \<longrightarrow>
      BoutReal_mem (mem (read_BoutReal_var E rt s)) (ptr rt) = 0
    \<and> output_log (read_BoutReal_var E rt s) = output_log s @ [warning_BoutReal (name rt)])
 \<and> (\<not> fst (file_read_2d E (if g2 then read_rec_2d (format E) else read_2d (format E)) g2 f2 nm2
             (set_f2d f2 (allocate (Field2D E) (load_f2d f2 (mem s))) s)) \<longrightarrow>
      \<not> fst (read_f2d E nm2 f2 g2 s)
    \<and> load_f2d f2 (mem (snd (read_f2d E nm2 f2 g2 s)))
        = assign (Field2D E) 0
            (load_f2d f2 (mem (snd (file_read_2d E (if g2 then read_rec_2d (format E) else read_2d (format E)) g2 f2 nm2
                (set_f2d f2 (allocate (Field2D E) (load_f2d f2 (mem s))) s)))))
    \<and> output_log (snd (read_f2d E nm2 f2 g2 s)) = output_log s @ [warning_f2d nm2])
 \<and> (\<not> fst (file_read_3d E (if g3 then read_rec_3d (format E) else read_3d (format E)) g3 f3 nm3
             (set_f3d f3 (allocate (Field3D E) (load_f3d f3 (mem s))) s)) \<longrightarrow>
      \<not> fst (read_f3d E nm3 f3 g3 s)
    \<and> load_f3d f3 (mem (snd (read_f3d E nm3 f3 g3 s)))
        = assign (Field3D E) 0
            (load_f3d f3 (mem (snd (file_read_3d E (if g3 then read_rec_3d (format E) else read_3d (format E)) g3 f3 nm3
                (set_f3d f3 (allocate (Field3D E) (load_f3d f3 (mem s))) s)))))
    \<and> output_log (snd (read_f3d E nm3 f3 g3 s)) = output_log s @ [warning_f3d nm3])
 \<and> (fst (openr (format E) (vsprintf E fmt ap) (the_file s))
    \<and> fst (is_valid (format E) (snd (openr (format E) (vsprintf E fmt ap) (the_file s)))) \<longrightarrow>
      fst (read E (Some fmt) ap s) = 0
    \<and> calls (snd (read E (Some fmt) ap s))
        = calls s @ [Openr (vsprintf E fmt ap), Is_valid, SetRecord (- 1)] @ read_requests E s @ [Close])"
  by (intro conjI impI)
    (simp_all add: read_int_var_fails read_BoutReal_var_fails read_f2d_fails read_f3d_fails
       read_status_and_calls)

subsection \<open>\<^verbatim>\<open>read\<close> and the switch \<^verbatim>\<open>enabled\<close>\<close>

lemma fold_commute:
  assumes "\<And>x s. f x (u s) = u (f x s)"
  shows "fold f xs (u s) = u (fold f xs s)"
  by (induction xs arbitrary: s) (simp_all add: assms)

lemma read_f2d_enabled:
  "read_f2d E nm f g (s\<lparr>enabled := e\<rparr>)
     = (fst (read_f2d E nm f g s), (snd (read_f2d E nm f g s))\<lparr>enabled := e\<rparr>)"
  by (simp add: read_f2d_def file_read_2d_def state_defs split_def Let_def)

lemma read_f3d_enabled:
  "read_f3d E nm f g (s\<lparr>enabled := e\<rparr>)
     = (fst (read_f3d E nm f g s), (snd (read_f3d E nm f g s))\<lparr>enabled := e\<rparr>)"
  by (simp add: read_f3d_def file_read_3d_def state_defs split_def Let_def)

lemma read_steps_enabled:
  "read_int_var E it (s\<lparr>enabled := e\<rparr>) = (read_int_var E it s)\<lparr>enabled := e\<rparr>"
  "read_BoutReal_var E it (s\<lparr>enabled := e\<rparr>) = (read_BoutReal_var E it s)\<lparr>enabled := e\<rparr>"
  "read_f2d_var E ft (s\<lparr>enabled := e\<rparr>) = (read_f2d_var E ft s)\<lparr>enabled := e\<rparr>"
  "read_f3d_var E ft (s\<lparr>enabled := e\<rparr>) = (read_f3d_var E ft s)\<lparr>enabled := e\<rparr>"
  "read_v2d_var E vt (s\<lparr>enabled := e\<rparr>) = (read_v2d_var E vt s)\<lparr>enabled := e\<rparr>"
  "read_v3d_var E vt (s\<lparr>enabled := e\<rparr>) = (read_v3d_var E vt s)\<lparr>enabled := e\<rparr>"
  by (simp_all add: read_int_var_def file_read_int_def read_BoutReal_var_def file_read_BoutReal_def
      read_f2d_var_def read_f3d_var_def read_v2d_var_def read_v3d_var_def read_f2d_enabled
      read_f3d_enabled state_defs split_def Let_def)

lemma read_loops_enabled:
  "fold (read_int_var E) xs (s\<lparr>enabled := e\<rparr>) = (fold (read_int_var E) xs s)\<lparr>enabled := e\<rparr>"
  "fold (read_BoutReal_var E) xs (s\<lparr>enabled := e\<rparr>) = (fold (read_BoutReal_var E) xs s)\<lparr>enabled := e\<rparr>"
  "fold (read_f2d_var E) ys (s\<lparr>enabled := e\<rparr>) = (fold (read_f2d_var E) ys s)\<lparr>enabled := e\<rparr>"
  "fold (read_f3d_var E) ys (s\<lparr>enabled := e\<rparr>) = (fold (read_f3d_var E) ys s)\<lparr>enabled := e\<rparr>"
  "fold (read_v2d_var E) zs (s\<lparr>enabled := e\<rparr>) = (fold (read_v2d_var E) zs s)\<lparr>enabled := e\<rparr>"
  "fold (read_v3d_var E) zs (s\<lparr>enabled := e\<rparr>) = (fold (read_v3d_var E) zs s)\<lparr>enabled := e\<rparr>"
  by (rule fold_commute [where u = "\<lambda>s. s\<lparr>enabled := e\<rparr>"], simp add: read_steps_enabled)+

lemma read_vars_enabled: "read_vars E (s\<lparr>enabled := e\<rparr>) = (read_vars E s)\<lparr>enabled := e\<rparr>"
  by (simp add: read_vars_def Let_def read_loops_enabled)

lemma file_enabled:
  "file_openr E fn (s\<lparr>enabled := e\<rparr>) = (fst (file_openr E fn s), (snd (file_openr E fn s))\<lparr>enabled := e\<rparr>)"
  "file_is_valid E (s\<lparr>enabled := e\<rparr>) = (fst (file_is_valid E s), (snd (file_is_valid E s))\<lparr>enabled := e\<rparr>)"
  "file_setRecord E n (s\<lparr>enabled := e\<rparr>) = (file_setRecord E n s)\<lparr>enabled := e\<rparr>"
  "file_close E (s\<lparr>enabled := e\<rparr>) = (file_close E s)\<lparr>enabled := e\<rparr>"
  "mpi_wtime E (s\<lparr>enabled := e\<rparr>) = (fst (mpi_wtime E s), (snd (mpi_wtime E s))\<lparr>enabled := e\<rparr>)"
  by (simp_all add: file_openr_def file_is_valid_def file_setRecord_def file_close_def
      mpi_wtime_def invoke_def split_def)

lemma read_enabled:
  "read E fmt ap (s\<lparr>enabled := e\<rparr>) = (fst (read E fmt ap s), (snd (read E fmt ap s))\<lparr>enabled := e\<rparr>)"
  by (cases fmt) (simp_all add: read_def Let_def split_def file_enabled read_vars_enabled)

text \<open>
  C7. \<^verbatim>\<open>read\<close> neither tests nor changes \<^verbatim>\<open>enabled\<close>: with any value of the flag it
  returns the same result and leaves the same state, the flag apart. With the flag false and
  a format that is not null, its first call on \<^verbatim>\<open>file\<close> is \<^verbatim>\<open>openr\<close> on the formatted
  name, and when \<^verbatim>\<open>openr\<close> and \<^verbatim>\<open>is_valid\<close> return true it returns 0 after one read
  for every binding.
\<close>

theorem read_ignores_enabled:
  "read E (Some fmt) ap (s\<lparr>enabled := e\<rparr>)
     = (fst (read E (Some fmt) ap s), (snd (read E (Some fmt) ap s))\<lparr>enabled := e\<rparr>)
   \<and> (\<not> enabled s \<longrightarrow>
        (\<exists>rest. calls (snd (read E (Some fmt) ap s)) = calls s @ Openr (vsprintf E fmt ap) # rest))
   \<and> (\<not> enabled s
        \<and> fst (openr (format E) (vsprintf E fmt ap) (the_file s))
        \<and> fst (is_valid (format E) (snd (openr (format E) (vsprintf E fmt ap) (the_file s)))) \<longrightarrow>
        fst (read E (Some fmt) ap s) = 0
      \<and> calls (snd (read E (Some fmt) ap s))
          = calls s @ [Openr (vsprintf E fmt ap), Is_valid, SetRecord (- 1)] @ read_requests E s @ [Close])"
  by (intro conjI impI) (simp_all add: read_enabled read_opens read_status_and_calls)

theorem read_ignores_enabled_witness:
  "\<not> enabled (Datafile1\<lparr>enabled := False\<rparr>)
   \<and> fst (read env0 (Some ''BOUT.restart.0.nc'') [] (Datafile1\<lparr>enabled := False\<rparr>)) = 0
   \<and> calls (snd (read env0 (Some ''BOUT.restart.0.nc'') [] (Datafile1\<lparr>enabled := False\<rparr>)))
       = [Openr ''BOUT.restart.0.nc'', Is_valid, SetRecord (- 1),
          Read_int False ''n'', Read_int True ''t'',
          Read_BoutReal False ''dt'', Read_BoutReal True ''time'',
          Read_2d False ''phi'' 2 2, Read_2d True ''Bx'' 2 2,
          Read_3d True ''rho'' 2 2 1, Read_3d False ''Bz'' 2 2 1,
          Read_2d False ''Bx'' 2 2, Read_2d False ''By'' 2 2, Read_2d False ''Bz'' 2 2,
          Read_2d True ''A_x'' 2 2, Read_2d True ''A_y'' 2 2, Read_2d True ''A_z'' 2 2,
          Read_3d True ''v_x'' 2 2 1, Read_3d True ''v_y'' 2 2 1, Read_3d True ''v_z'' 2 2 1,
          Read_3d False ''ux'' 2 2 1, Read_3d False ''uy'' 2 2 1, Read_3d False ''uz'' 2 2 1,
          Close]"
proof -
  have off: "\<not> enabled (Datafile1\<lparr>enabled := False\<rparr>)" by simp
  have ok: "fst (openr (format env0) (vsprintf env0 ''BOUT.restart.0.nc'' []) (the_file (Datafile1\<lparr>enabled := False\<rparr>)))
    \<and> fst (is_valid (format env0) (snd (openr (format env0) (vsprintf env0 ''BOUT.restart.0.nc'' []) (the_file (Datafile1\<lparr>enabled := False\<rparr>)))))"
    by (simp add: env0_defs)
  have rq: "calls (Datafile1\<lparr>enabled := False\<rparr>) @ [Openr (vsprintf env0 ''BOUT.restart.0.nc'' []), Is_valid, SetRecord (- 1)]
              @ read_requests env0 (Datafile1\<lparr>enabled := False\<rparr>) @ [Close]
       = [Openr ''BOUT.restart.0.nc'', Is_valid, SetRecord (- 1),
          Read_int False ''n'', Read_int True ''t'',
          Read_BoutReal False ''dt'', Read_BoutReal True ''time'',
          Read_2d False ''phi'' 2 2, Read_2d True ''Bx'' 2 2,
          Read_3d True ''rho'' 2 2 1, Read_3d False ''Bz'' 2 2 1,
          Read_2d False ''Bx'' 2 2, Read_2d False ''By'' 2 2, Read_2d False ''Bz'' 2 2,
          Read_2d True ''A_x'' 2 2, Read_2d True ''A_y'' 2 2, Read_2d True ''A_z'' 2 2,
          Read_3d True ''v_x'' 2 2 1, Read_3d True ''v_y'' 2 2 1, Read_3d True ''v_z'' 2 2 1,
          Read_3d False ''ux'' 2 2 1, Read_3d False ''uy'' 2 2 1, Read_3d False ''uz'' 2 2 1,
          Close]"
    by (simp add: read_requests_def Datafile1_defs env0_def)
  show ?thesis
    using off ok
      read_ignores_enabled [where E = env0 and s = "Datafile1\<lparr>enabled := False\<rparr>"
        and fmt = "''BOUT.restart.0.nc''" and ap = "[]" and e = False]
    by (simp only: rq simp_thms)
qed

subsection \<open>The basis flag after a loop body\<close>

lemma read_steps_conversions:
  "read_int_var (E\<lparr>toCovariant2D := c2, toContravariant2D := d2, toCovariant3D := c3, toContravariant3D := d3\<rparr>) = read_int_var E"
  "read_BoutReal_var (E\<lparr>toCovariant2D := c2, toContravariant2D := d2, toCovariant3D := c3, toContravariant3D := d3\<rparr>) = read_BoutReal_var E"
  "read_f2d (E\<lparr>toCovariant2D := c2, toContravariant2D := d2, toCovariant3D := c3, toContravariant3D := d3\<rparr>) = read_f2d E"
  "read_f3d (E\<lparr>toCovariant2D := c2, toContravariant2D := d2, toCovariant3D := c3, toContravariant3D := d3\<rparr>) = read_f3d E"
  by (intro ext, simp add: read_int_var_def read_BoutReal_var_def read_f2d_def read_f3d_def
      file_read_int_def file_read_BoutReal_def file_read_2d_def file_read_3d_def Let_def split_def)+

lemma read_vector_steps_conversions:
  "read_f2d_var (E\<lparr>toCovariant2D := c2, toContravariant2D := d2, toCovariant3D := c3, toContravariant3D := d3\<rparr>) = read_f2d_var E"
  "read_f3d_var (E\<lparr>toCovariant2D := c2, toContravariant2D := d2, toCovariant3D := c3, toContravariant3D := d3\<rparr>) = read_f3d_var E"
  "read_v2d_var (E\<lparr>toCovariant2D := c2, toContravariant2D := d2, toCovariant3D := c3, toContravariant3D := d3\<rparr>) = read_v2d_var E"
  "read_v3d_var (E\<lparr>toCovariant2D := c2, toContravariant2D := d2, toCovariant3D := c3, toContravariant3D := d3\<rparr>) = read_v3d_var E"
  by (intro ext, simp add: read_f2d_var_def read_f3d_var_def read_v2d_var_def read_v3d_var_def
      read_steps_conversions Let_def)+

lemma file_conversions:
  "file_openr (E\<lparr>toCovariant2D := c2, toContravariant2D := d2, toCovariant3D := c3, toContravariant3D := d3\<rparr>) = file_openr E"
  "file_is_valid (E\<lparr>toCovariant2D := c2, toContravariant2D := d2, toCovariant3D := c3, toContravariant3D := d3\<rparr>) = file_is_valid E"
  "file_setRecord (E\<lparr>toCovariant2D := c2, toContravariant2D := d2, toCovariant3D := c3, toContravariant3D := d3\<rparr>) = file_setRecord E"
  "file_close (E\<lparr>toCovariant2D := c2, toContravariant2D := d2, toCovariant3D := c3, toContravariant3D := d3\<rparr>) = file_close E"
  "mpi_wtime (E\<lparr>toCovariant2D := c2, toContravariant2D := d2, toCovariant3D := c3, toContravariant3D := d3\<rparr>) = mpi_wtime E"
  by (intro ext, simp add: file_openr_def file_is_valid_def file_setRecord_def file_close_def
      mpi_wtime_def)+

lemma read_vars_conversions:
  "read_vars (E\<lparr>toCovariant2D := c2, toContravariant2D := d2, toCovariant3D := c3, toContravariant3D := d3\<rparr>) = read_vars E"
  by (intro ext) (simp add: read_vars_def read_steps_conversions read_vector_steps_conversions)

lemma read_conversions:
  "read (E\<lparr>toCovariant2D := c2, toContravariant2D := d2, toCovariant3D := c3, toContravariant3D := d3\<rparr>) fmt ap s
     = read E fmt ap s"
  by (cases fmt) (simp_all add: read_def file_conversions read_vars_conversions Let_def split_def)

lemma read_vector_bodies_flag:
  "covariant (v2d_mem (mem (read_v2d_var E it s)) (ptr it)) = covar it
   \<and> covariant (v3d_mem (mem (read_v3d_var E it s)) (ptr it)) = covar it
   \<and> read (E\<lparr>toCovariant2D := c2, toContravariant2D := d2, toCovariant3D := c3, toContravariant3D := d3\<rparr>) fmt ap s
       = read E fmt ap s
   \<and> (\<not> varAdded nm s \<longrightarrow>
        covar (last (v2d_arr (snd (add_Vector2D a nm g s)))) = covariant (v2d_mem (mem s) a)
      \<and> covar (last (v3d_arr (snd (add_Vector3D a nm g s)))) = covariant (v3d_mem (mem s) a))"
  by (intro conjI impI)
    (simp_all add: read_conversions read_v2d_var_def read_v3d_var_def Let_def
       set_covariant2D_def set_covariant3D_def add_Vector2D_def add_Vector3D_def)

subsection \<open>Frames and calls of the steps of \<^verbatim>\<open>write\<close>\<close>

lemma write_f2d_calls:
  "calls (snd (write_f2d E nm f g s))
     = calls s @ (if isAllocated (Field2D E) f
                  then [Write_2d g nm (ngx E) (ngy E) (getData (Field2D E) f)] else [])"
  by (simp add: write_f2d_def file_write_2d_def invoke_def split_def)

lemma write_f3d_calls:
  "calls (snd (write_f3d E nm f g s))
     = calls s @ (if isAllocated (Field3D E) f
                  then [Write_3d g nm (ngx E) (ngy E) (ngz E) (getData (Field3D E) f)] else [])"
  by (simp add: write_f3d_def file_write_3d_def invoke_def split_def)

lemma write_f2d_mem: "mem (snd (write_f2d E nm f g s)) = mem s"
  by (simp add: write_f2d_def file_write_2d_def invoke_def split_def)

lemma write_f3d_mem: "mem (snd (write_f3d E nm f g s)) = mem s"
  by (simp add: write_f3d_def file_write_3d_def invoke_def split_def)

lemma write_steps_mem:
  "mem (write_int_var E it s) = mem s"
  "mem (write_BoutReal_var E it s) = mem s"
  "mem (write_f2d_var E ft s) = mem s"
  "mem (write_f3d_var E ft s) = mem s"
  "mem (write_v2d_var E vt s) = mem s"
  "mem (write_v3d_var E vt s) = mem s"
  by (simp_all add: write_int_var_def write_BoutReal_var_def file_write_int_def
      file_write_BoutReal_def write_f2d_var_def write_f3d_var_def write_v2d_var_def
      write_v3d_var_def write_f2d_mem write_f3d_mem invoke_def split_def Let_def)

lemma write_loops_mem:
  "mem (fold (write_int_var E) xs s) = mem s"
  "mem (fold (write_BoutReal_var E) xs s) = mem s"
  "mem (fold (write_f2d_var E) ys s) = mem s"
  "mem (fold (write_f3d_var E) ys s) = mem s"
  "mem (fold (write_v2d_var E) zs s) = mem s"
  "mem (fold (write_v3d_var E) zs s) = mem s"
  by (rule fold_frame, simp add: write_steps_mem)+

lemma write_vars_mem: "mem (write_vars E s) = mem s"
  by (simp add: write_vars_def Let_def write_loops_mem)

lemma file_mem:
  "mem (snd (file_openw E fn app s)) = mem s"
  "mem (snd (file_is_valid E s)) = mem s"
  "mem (file_setRecord E n s) = mem s"
  "mem (file_close E s) = mem s"
  "mem (snd (mpi_wtime E s)) = mem s"
  by (simp_all add: file_openw_def file_is_valid_def file_setRecord_def file_close_def
      mpi_wtime_def invoke_def split_def)

lemma write_filename_mem: "mem (snd (write_filename E fn app s)) = mem s"
  by (simp add: write_filename_def Let_def split_def file_mem write_vars_mem)

lemma write_filename_status:
  assumes "fst (openw (format E) fn app (the_file s))"
    and "fst (is_valid (format E) (snd (openw (format E) fn app (the_file s))))"
  shows "fst (write_filename E fn app s)"
  using assms
  by (simp add: write_filename_def Let_def split_def file_openw_def file_is_valid_def
      mpi_wtime_def invoke_def)

lemma write_v2d_var_calls:
  assumes "v = (if covar it then toCovariant2D E (v2d_mem (mem s) (ptr it))
                else toContravariant2D E (v2d_mem (mem s) (ptr it)))"
    and "c = (if covar it then [''_x'', ''_y'', ''_z''] else [''x'', ''y'', ''z''])"
  shows "calls (write_v2d_var E it s)
     = calls s
       @ (if isAllocated (Field2D E) (vec_x v)
          then [Write_2d (grow it) (name it @ c ! 0) (ngx E) (ngy E) (getData (Field2D E) (vec_x v))] else [])
       @ (if isAllocated (Field2D E) (vec_y v)
          then [Write_2d (grow it) (name it @ c ! 1) (ngx E) (ngy E) (getData (Field2D E) (vec_y v))] else [])
       @ (if isAllocated (Field2D E) (vec_z v)
          then [Write_2d (grow it) (name it @ c ! 2) (ngx E) (ngy E) (getData (Field2D E) (vec_z v))] else [])"
  unfolding assms
  by (simp add: write_v2d_var_def Let_def write_f2d_calls)

lemma write_v3d_var_calls:
  assumes "v = (if covar it then toCovariant3D E (v3d_mem (mem s) (ptr it))
                else toContravariant3D E (v3d_mem (mem s) (ptr it)))"
    and "c = (if covar it then [''_x'', ''_y'', ''_z''] else [''x'', ''y'', ''z''])"
  shows "calls (write_v3d_var E it s)
     = calls s
       @ (if isAllocated (Field3D E) (vec_x v)
          then [Write_3d (grow it) (name it @ c ! 0) (ngx E) (ngy E) (ngz E) (getData (Field3D E) (vec_x v))] else [])
       @ (if isAllocated (Field3D E) (vec_y v)
          then [Write_3d (grow it) (name it @ c ! 1) (ngx E) (ngy E) (ngz E) (getData (Field3D E) (vec_y v))] else [])
       @ (if isAllocated (Field3D E) (vec_z v)
          then [Write_3d (grow it) (name it @ c ! 2) (ngx E) (ngy E) (ngz E) (getData (Field3D E) (vec_z v))] else [])"
  unfolding assms
  by (simp add: write_v3d_var_def Let_def write_f3d_calls)

subsection \<open>The names the vector loop bodies use\<close>

lemma vector_bodies_names:
  "(covar it \<and> v2 = toCovariant2D E (v2d_mem (mem s) (ptr it))
             \<and> v3 = toCovariant3D E (v3d_mem (mem s) (ptr it)) \<longrightarrow>
      calls (read_v2d_var E it s)
        = calls s @ [Read_2d (grow it) (name it @ ''_x'') (ngx E) (ngy E),
                     Read_2d (grow it) (name it @ ''_y'') (ngx E) (ngy E),
                     Read_2d (grow it) (name it @ ''_z'') (ngx E) (ngy E)]
    \<and> calls (read_v3d_var E it s)
        = calls s @ [Read_3d (grow it) (name it @ ''_x'') (ngx E) (ngy E) (ngz E),
                     Read_3d (grow it) (name it @ ''_y'') (ngx E) (ngy E) (ngz E),
                     Read_3d (grow it) (name it @ ''_z'') (ngx E) (ngy E) (ngz E)]
    \<and> (\<exists>ws. calls (write_v2d_var E it s) = calls s @ ws
           \<and> map call_name ws
               = (if isAllocated (Field2D E) (vec_x v2) then [Some (name it @ ''_x'')] else [])
               @ (if isAllocated (Field2D E) (vec_y v2) then [Some (name it @ ''_y'')] else [])
               @ (if isAllocated (Field2D E) (vec_z v2) then [Some (name it @ ''_z'')] else []))
    \<and> (\<exists>ws. calls (write_v3d_var E it s) = calls s @ ws
           \<and> map call_name ws
               = (if isAllocated (Field3D E) (vec_x v3) then [Some (name it @ ''_x'')] else [])
               @ (if isAllocated (Field3D E) (vec_y v3) then [Some (name it @ ''_y'')] else [])
               @ (if isAllocated (Field3D E) (vec_z v3) then [Some (name it @ ''_z'')] else [])))
 \<and> (\<not> covar it \<and> v2 = toContravariant2D E (v2d_mem (mem s) (ptr it))
               \<and> v3 = toContravariant3D E (v3d_mem (mem s) (ptr it)) \<longrightarrow>
      calls (read_v2d_var E it s)
        = calls s @ [Read_2d (grow it) (name it @ ''x'') (ngx E) (ngy E),
                     Read_2d (grow it) (name it @ ''y'') (ngx E) (ngy E),
                     Read_2d (grow it) (name it @ ''z'') (ngx E) (ngy E)]
    \<and> calls (read_v3d_var E it s)
        = calls s @ [Read_3d (grow it) (name it @ ''x'') (ngx E) (ngy E) (ngz E),
                     Read_3d (grow it) (name it @ ''y'') (ngx E) (ngy E) (ngz E),
                     Read_3d (grow it) (name it @ ''z'') (ngx E) (ngy E) (ngz E)]
    \<and> (\<exists>ws. calls (write_v2d_var E it s) = calls s @ ws
           \<and> map call_name ws
               = (if isAllocated (Field2D E) (vec_x v2) then [Some (name it @ ''x'')] else [])
               @ (if isAllocated (Field2D E) (vec_y v2) then [Some (name it @ ''y'')] else [])
               @ (if isAllocated (Field2D E) (vec_z v2) then [Some (name it @ ''z'')] else []))
    \<and> (\<exists>ws. calls (write_v3d_var E it s) = calls s @ ws
           \<and> map call_name ws
               = (if isAllocated (Field3D E) (vec_x v3) then [Some (name it @ ''x'')] else [])
               @ (if isAllocated (Field3D E) (vec_y v3) then [Some (name it @ ''y'')] else [])
               @ (if isAllocated (Field3D E) (vec_z v3) then [Some (name it @ ''z'')] else [])))"
  by (intro conjI impI; (elim conjE)?)
    (simp_all add: read_v2d_var_calls read_v3d_var_calls
       write_v2d_var_calls [OF refl refl] write_v3d_var_calls [OF refl refl])

subsection \<open>\<^verbatim>\<open>write\<close> leaves the memory alone\<close>

lemma write_vector_bodies:
  "mem (snd (write_filename E fn app s)) = mem s
   \<and> mem (write_v2d_var E it s) = mem s
   \<and> mem (write_v3d_var E it s) = mem s
   \<and> (covar it \<and> v2 = toCovariant2D E (v2d_mem (mem s) (ptr it))
               \<and> v3 = toCovariant3D E (v3d_mem (mem s) (ptr it)) \<longrightarrow>
        calls (write_v2d_var E it s)
          = calls s
            @ (if isAllocated (Field2D E) (vec_x v2)
               then [Write_2d (grow it) (name it @ ''_x'') (ngx E) (ngy E) (getData (Field2D E) (vec_x v2))] else [])
            @ (if isAllocated (Field2D E) (vec_y v2)
               then [Write_2d (grow it) (name it @ ''_y'') (ngx E) (ngy E) (getData (Field2D E) (vec_y v2))] else [])
            @ (if isAllocated (Field2D E) (vec_z v2)
               then [Write_2d (grow it) (name it @ ''_z'') (ngx E) (ngy E) (getData (Field2D E) (vec_z v2))] else [])
      \<and> calls (write_v3d_var E it s)
          = calls s
            @ (if isAllocated (Field3D E) (vec_x v3)
               then [Write_3d (grow it) (name it @ ''_x'') (ngx E) (ngy E) (ngz E) (getData (Field3D E) (vec_x v3))] else [])
            @ (if isAllocated (Field3D E) (vec_y v3)
               then [Write_3d (grow it) (name it @ ''_y'') (ngx E) (ngy E) (ngz E) (getData (Field3D E) (vec_y v3))] else [])
            @ (if isAllocated (Field3D E) (vec_z v3)
               then [Write_3d (grow it) (name it @ ''_z'') (ngx E) (ngy E) (ngz E) (getData (Field3D E) (vec_z v3))] else []))
   \<and> (\<not> covar it \<and> v2 = toContravariant2D E (v2d_mem (mem s) (ptr it))
                 \<and> v3 = toContravariant3D E (v3d_mem (mem s) (ptr it)) \<longrightarrow>
        calls (write_v2d_var E it s)
          = calls s
            @ (if isAllocated (Field2D E) (vec_x v2)
               then [Write_2d (grow it) (name it @ ''x'') (ngx E) (ngy E) (getData (Field2D E) (vec_x v2))] else [])
            @ (if isAllocated (Field2D E) (vec_y v2)
               then [Write_2d (grow it) (name it @ ''y'') (ngx E) (ngy E) (getData (Field2D E) (vec_y v2))] else [])
            @ (if isAllocated (Field2D E) (vec_z v2)
               then [Write_2d (grow it) (name it @ ''z'') (ngx E) (ngy E) (getData (Field2D E) (vec_z v2))] else [])
      \<and> calls (write_v3d_var E it s)
          = calls s
            @ (if isAllocated (Field3D E) (vec_x v3)
               then [Write_3d (grow it) (name it @ ''x'') (ngx E) (ngy E) (ngz E) (getData (Field3D E) (vec_x v3))] else [])
            @ (if isAllocated (Field3D E) (vec_y v3)
               then [Write_3d (grow it) (name it @ ''y'') (ngx E) (ngy E) (ngz E) (getData (Field3D E) (vec_y v3))] else [])
            @ (if isAllocated (Field3D E) (vec_z v3)
               then [Write_3d (grow it) (name it @ ''z'') (ngx E) (ngy E) (ngz E) (getData (Field3D E) (vec_z v3))] else []))"
  by (intro conjI impI; (elim conjE)?)
    (simp_all add: write_filename_mem write_steps_mem
       write_v2d_var_calls [OF refl refl] write_v3d_var_calls [OF refl refl])

subsection \<open>Fields without data\<close>

text \<open>
  C8. \<^verbatim>\<open>write_f2d\<close> and \<^verbatim>\<open>write_f3d\<close>, given a field that is not allocated, return
  false with the state unchanged: no primitive is called. These are the functions that write
  the field bindings and the members of a vector (for a vector, the members of the converted
  copy), so the loop body of a field binding whose target is not allocated changes nothing.
  \<^verbatim>\<open>write\<close> returns true whenever \<^verbatim>\<open>openw\<close> and \<^verbatim>\<open>is_valid\<close> do, whatever is
  allocated.
\<close>

theorem write_skips_unallocated:
  "(\<not> isAllocated (Field2D E) f2 \<longrightarrow> write_f2d E nm f2 g s = (False, s))
   \<and> (\<not> isAllocated (Field3D E) f3 \<longrightarrow> write_f3d E nm f3 g s = (False, s))
   \<and> (\<not> isAllocated (Field2D E) (load_f2d (ptr it) (mem s)) \<longrightarrow> write_f2d_var E it s = s)
   \<and> (\<not> isAllocated (Field3D E) (load_f3d (ptr it) (mem s)) \<longrightarrow> write_f3d_var E it s = s)
   \<and> (fst (openw (format E) fn app (the_file s))
      \<and> fst (is_valid (format E) (snd (openw (format E) fn app (the_file s)))) \<longrightarrow>
        fst (write_filename E fn app s))"
  by (intro conjI impI; (elim conjE)?)
    (simp_all add: write_f2d_def write_f3d_def write_f2d_var_def write_f3d_var_def
       write_filename_status)

theorem write_skips_unallocated_witness:
  "write_f2d env0 ''phi'' None False Datafile1 = (False, Datafile1)
   \<and> write_f3d env0 ''rho'' None True Datafile1 = (False, Datafile1)
   \<and> write_f2d_var env0 \<lparr>ptr = Whole 0, name = ''phi'', grow = False\<rparr> Datafile1 = Datafile1
   \<and> write_f3d_var env0 \<lparr>ptr = Whole 0, name = ''rho'', grow = True\<rparr> Datafile1 = Datafile1
   \<and> fst (write_filename env0 ''BOUT.dmp.0.nc'' False Datafile1)"
proof -
  have u: "\<not> isAllocated (Field2D env0) None" "\<not> isAllocated (Field3D env0) None"
    "\<not> isAllocated (Field2D env0) (load_f2d (ptr \<lparr>ptr = Whole 0, name = ''phi'', grow = False\<rparr>) (mem Datafile1))"
    "\<not> isAllocated (Field3D env0) (load_f3d (ptr \<lparr>ptr = Whole 0, name = ''rho'', grow = True\<rparr>) (mem Datafile1))"
    by (simp_all add: env0_def Field0_def Datafile1_defs)
  have ok: "fst (openw (format env0) ''BOUT.dmp.0.nc'' False (the_file Datafile1))
      \<and> fst (is_valid (format env0) (snd (openw (format env0) ''BOUT.dmp.0.nc'' False (the_file Datafile1))))"
    by (simp add: env0_def format0_def)
  show ?thesis
    using u ok
      write_skips_unallocated [where E = env0 and s = Datafile1 and ?f2.0 = None and ?f3.0 = None
        and nm = "''phi''" and g = False and it = "\<lparr>ptr = Whole 0, name = ''phi'', grow = False\<rparr>"
        and fn = "''BOUT.dmp.0.nc''" and app = False]
      write_skips_unallocated [where E = env0 and s = Datafile1 and ?f2.0 = None and ?f3.0 = None
        and nm = "''rho''" and g = True and it = "\<lparr>ptr = Whole 0, name = ''rho'', grow = True\<rparr>"
        and fn = "''BOUT.dmp.0.nc''" and app = False]
    by simp
qed

subsection \<open>A format that is null, and one that is empty\<close>

text \<open>
  C9, for the null format only. \<^verbatim>\<open>read\<close>, \<^verbatim>\<open>write\<close> and \<^verbatim>\<open>append\<close> with a null
  format return 1 and leave the state as it was. \<^verbatim>\<open>setFilename\<close> with a null format
  returns nothing: it clears \<^verbatim>\<open>def_filename\<close> and makes no call on \<^verbatim>\<open>file\<close>. An
  empty format is not null: \<^verbatim>\<open>read\<close> formats it and calls \<^verbatim>\<open>openr\<close> on the result.
\<close>

theorem null_format_fails:
  "read E None ap s = (1, s)
   \<and> write_format E None ap s = (1, s)
   \<and> append_format E None ap s = (1, s)
   \<and> setFilename E None ap s = s\<lparr>def_filename := []\<rparr>
   \<and> calls (setFilename E None ap s) = calls s
   \<and> the_file (setFilename E None ap s) = the_file s
   \<and> (\<exists>rest. calls (snd (read E (Some []) ap s)) = calls s @ Openr (vsprintf E [] ap) # rest)"
proof -
  have "read E None ap s = (1, s)"
    by (simp add: read_def)
  moreover have "write_format E None ap s = (1, s)" "append_format E None ap s = (1, s)"
    by (simp_all add: write_format_def append_format_def)
  moreover have "setFilename E None ap s = s\<lparr>def_filename := []\<rparr>"
    by (simp add: setFilename_def)
  ultimately show ?thesis
    using read_opens [of E "[]" ap s] by simp
qed

text \<open>
  \<^verbatim>\<open>read("")\<close> on the small instance, with nothing registered, opens the file of the
  empty name and returns 0.
\<close>

theorem empty_format_opens_file:
  "fst (read env0 (Some []) [] Datafile0) = 0
   \<and> calls (snd (read env0 (Some []) [] Datafile0)) = [Openr [], Is_valid, SetRecord (- 1), Close]"
proof -
  have ok: "fst (openr (format env0) (vsprintf env0 [] []) (the_file Datafile0))"
    "fst (is_valid (format env0) (snd (openr (format env0) (vsprintf env0 [] []) (the_file Datafile0))))"
    by (simp_all add: env0_def format0_def)
  have rq: "read_requests env0 Datafile0 = []" "calls Datafile0 = []" "vsprintf env0 [] [] = []"
    by (simp_all add: read_requests_def Datafile0_def env0_def)
  from read_status_and_calls [OF ok] show ?thesis
    by (simp add: rq)
qed

subsection \<open>The calls of \<^verbatim>\<open>write\<close>\<close>

lemma fold_calls_mem:
  assumes "\<And>x s. calls (f x s) = calls s @ ev (mem s) x"
    and "\<And>x s. mem (f x s) = mem s"
  shows "calls (fold f xs s) = calls s @ concat (map (ev (mem s)) xs)"
  by (induction xs arbitrary: s) (simp_all add: assms)

lemma write_f2d_registry: "registry (snd (write_f2d E nm f g s)) = registry s"
  by (simp add: write_f2d_def file_write_2d_def invoke_def split_def registry_def)

lemma write_f3d_registry: "registry (snd (write_f3d E nm f g s)) = registry s"
  by (simp add: write_f3d_def file_write_3d_def invoke_def split_def registry_def)

lemma write_steps_registry:
  "registry (write_int_var E it s) = registry s"
  "registry (write_BoutReal_var E it s) = registry s"
  "registry (write_f2d_var E ft s) = registry s"
  "registry (write_f3d_var E ft s) = registry s"
  "registry (write_v2d_var E vt s) = registry s"
  "registry (write_v3d_var E vt s) = registry s"
  by (simp_all add: write_int_var_def write_BoutReal_var_def file_write_int_def
      file_write_BoutReal_def write_f2d_var_def write_f3d_var_def write_v2d_var_def
      write_v3d_var_def write_f2d_registry write_f3d_registry invoke_def split_def Let_def,
      simp_all add: registry_def)

lemma write_loops_registry:
  "registry (fold (write_int_var E) xs s) = registry s"
  "registry (fold (write_BoutReal_var E) xs s) = registry s"
  "registry (fold (write_f2d_var E) ys s) = registry s"
  "registry (fold (write_f3d_var E) ys s) = registry s"
  "registry (fold (write_v2d_var E) zs s) = registry s"
  "registry (fold (write_v3d_var E) zs s) = registry s"
  by (rule fold_frame, simp add: write_steps_registry)+

lemma write_scalar_calls:
  "calls (write_int_var E it s) = calls s @ [Write_int (grow it) (name it) (int_mem (mem s) (ptr it))]"
  "calls (write_BoutReal_var E it s)
     = calls s @ [Write_BoutReal (grow it) (name it) (BoutReal_mem (mem s) (ptr it))]"
  by (simp_all add: write_int_var_def write_BoutReal_var_def file_write_int_def
      file_write_BoutReal_def invoke_def split_def)

lemma write_field_calls:
  "calls (write_f2d_var E ft s)
     = calls s @ requests_2d E (grow ft) [(name ft, load_f2d (ptr ft) (mem s))]"
  "calls (write_f3d_var E ft s)
     = calls s @ requests_3d E (grow ft) [(name ft, load_f3d (ptr ft) (mem s))]"
  by (simp_all add: write_f2d_var_def write_f3d_var_def write_f2d_calls write_f3d_calls
      requests_2d_def requests_3d_def)

lemma write_vector_calls:
  "calls (write_v2d_var E vt s)
     = calls s @
       (if covar vt
        then (let v = toCovariant2D E (v2d_mem (mem s) (ptr vt))
              in requests_2d E (grow vt)
                   [(name vt @ ''_x'', vec_x v), (name vt @ ''_y'', vec_y v), (name vt @ ''_z'', vec_z v)])
        else (let v = toContravariant2D E (v2d_mem (mem s) (ptr vt))
              in requests_2d E (grow vt)
                   [(name vt @ ''x'', vec_x v), (name vt @ ''y'', vec_y v), (name vt @ ''z'', vec_z v)]))"
  "calls (write_v3d_var E vt s)
     = calls s @
       (if covar vt
        then (let v = toCovariant3D E (v3d_mem (mem s) (ptr vt))
              in requests_3d E (grow vt)
                   [(name vt @ ''_x'', vec_x v), (name vt @ ''_y'', vec_y v), (name vt @ ''_z'', vec_z v)])
        else (let v = toContravariant3D E (v3d_mem (mem s) (ptr vt))
              in requests_3d E (grow vt)
                   [(name vt @ ''x'', vec_x v), (name vt @ ''y'', vec_y v), (name vt @ ''z'', vec_z v)]))"
  by (simp_all add: write_v2d_var_calls [OF refl refl] write_v3d_var_calls [OF refl refl]
      requests_2d_def requests_3d_def Let_def)

lemma write_vars_calls: "calls (write_vars E s) = calls s @ write_requests E s"
proof -
  define s1 where "s1 = fold (write_int_var E) (int_arr s) s"
  define s2 where "s2 = fold (write_BoutReal_var E) (BoutReal_arr s1) s1"
  define s3 where "s3 = fold (write_f2d_var E) (f2d_arr s2) s2"
  define s4 where "s4 = fold (write_f3d_var E) (f3d_arr s3) s3"
  define s5 where "s5 = fold (write_v2d_var E) (v2d_arr s4) s4"
  define s6 where "s6 = fold (write_v3d_var E) (v3d_arr s5) s5"
  have r1: "registry s1 = registry s" and m1: "mem s1 = mem s"
    by (simp_all add: s1_def write_loops_registry write_loops_mem)
  have r2: "registry s2 = registry s" and m2: "mem s2 = mem s"
    by (simp_all add: s2_def write_loops_registry write_loops_mem r1 m1)
  have r3: "registry s3 = registry s" and m3: "mem s3 = mem s"
    by (simp_all add: s3_def write_loops_registry write_loops_mem r2 m2)
  have r4: "registry s4 = registry s" and m4: "mem s4 = mem s"
    by (simp_all add: s4_def write_loops_registry write_loops_mem r3 m3)
  have r5: "registry s5 = registry s" and m5: "mem s5 = mem s"
    by (simp_all add: s5_def write_loops_registry write_loops_mem r4 m4)
  have c1: "calls s1 = calls s @ map (\<lambda>it. Write_int (grow it) (name it) (int_mem (mem s) (ptr it))) (int_arr s)"
    unfolding s1_def
    by (subst fold_calls_mem [where ev = "\<lambda>m it. [Write_int (grow it) (name it) (int_mem m (ptr it))]"])
      (simp_all add: write_scalar_calls write_steps_mem concat_map_single)
  have c2: "calls s2 = calls s1 @ map (\<lambda>it. Write_BoutReal (grow it) (name it) (BoutReal_mem (mem s) (ptr it))) (BoutReal_arr s)"
    unfolding s2_def
    by (subst fold_calls_mem [where ev = "\<lambda>m it. [Write_BoutReal (grow it) (name it) (BoutReal_mem m (ptr it))]"])
      (simp_all add: write_scalar_calls write_steps_mem concat_map_single m1 registry_eqD [OF r1])
  have c3: "calls s3 = calls s2 @ concat (map (\<lambda>it. requests_2d E (grow it) [(name it, load_f2d (ptr it) (mem s))]) (f2d_arr s))"
    unfolding s3_def
    by (subst fold_calls_mem [where ev = "\<lambda>m it. requests_2d E (grow it) [(name it, load_f2d (ptr it) m)]"])
      (simp_all add: write_field_calls write_steps_mem m2 registry_eqD [OF r2])
  have c4: "calls s4 = calls s3 @ concat (map (\<lambda>it. requests_3d E (grow it) [(name it, load_f3d (ptr it) (mem s))]) (f3d_arr s))"
    unfolding s4_def
    by (subst fold_calls_mem [where ev = "\<lambda>m it. requests_3d E (grow it) [(name it, load_f3d (ptr it) m)]"])
      (simp_all add: write_field_calls write_steps_mem m3 registry_eqD [OF r3])
  have c5: "calls s5 = calls s4 @ concat (map (\<lambda>it.
        if covar it
        then (let v = toCovariant2D E (v2d_mem (mem s) (ptr it))
              in requests_2d E (grow it)
                   [(name it @ ''_x'', vec_x v), (name it @ ''_y'', vec_y v), (name it @ ''_z'', vec_z v)])
        else (let v = toContravariant2D E (v2d_mem (mem s) (ptr it))
              in requests_2d E (grow it)
                   [(name it @ ''x'', vec_x v), (name it @ ''y'', vec_y v), (name it @ ''z'', vec_z v)]))
      (v2d_arr s))"
    unfolding s5_def
    by (subst fold_calls_mem [where ev = "\<lambda>m it.
        if covar it
        then (let v = toCovariant2D E (v2d_mem m (ptr it))
              in requests_2d E (grow it)
                   [(name it @ ''_x'', vec_x v), (name it @ ''_y'', vec_y v), (name it @ ''_z'', vec_z v)])
        else (let v = toContravariant2D E (v2d_mem m (ptr it))
              in requests_2d E (grow it)
                   [(name it @ ''x'', vec_x v), (name it @ ''y'', vec_y v), (name it @ ''z'', vec_z v)])"])
      (simp_all only: write_vector_calls write_steps_mem m4 registry_eqD [OF r4])
  have c6: "calls s6 = calls s5 @ concat (map (\<lambda>it.
        if covar it
        then (let v = toCovariant3D E (v3d_mem (mem s) (ptr it))
              in requests_3d E (grow it)
                   [(name it @ ''_x'', vec_x v), (name it @ ''_y'', vec_y v), (name it @ ''_z'', vec_z v)])
        else (let v = toContravariant3D E (v3d_mem (mem s) (ptr it))
              in requests_3d E (grow it)
                   [(name it @ ''x'', vec_x v), (name it @ ''y'', vec_y v), (name it @ ''z'', vec_z v)]))
      (v3d_arr s))"
    unfolding s6_def
    by (subst fold_calls_mem [where ev = "\<lambda>m it.
        if covar it
        then (let v = toCovariant3D E (v3d_mem m (ptr it))
              in requests_3d E (grow it)
                   [(name it @ ''_x'', vec_x v), (name it @ ''_y'', vec_y v), (name it @ ''_z'', vec_z v)])
        else (let v = toContravariant3D E (v3d_mem m (ptr it))
              in requests_3d E (grow it)
                   [(name it @ ''x'', vec_x v), (name it @ ''y'', vec_y v), (name it @ ''z'', vec_z v)])"])
      (simp_all only: write_vector_calls write_steps_mem m5 registry_eqD [OF r5])
  have "write_vars E s = s6"
    by (simp add: write_vars_def Let_def s1_def s2_def s3_def s4_def s5_def s6_def)
  then show ?thesis
    by (simp only: c1 c2 c3 c4 c5 c6 write_requests_def append_assoc)
qed

lemma write_requests_cong:
  "registry t = registry s \<Longrightarrow> mem t = mem s \<Longrightarrow> write_requests E t = write_requests E s"
  by (simp add: write_requests_def registry_def Let_def cong: if_cong)

lemma write_opened:
  assumes "enabled s"
    and "fst (openw (format E) fn app (the_file s))"
    and "fst (is_valid (format E) (snd (openw (format E) fn app (the_file s))))"
  shows "write_filename E fn app s =
      (True, (snd (mpi_wtime E (file_close E (write_vars E
                (file_setRecord E (- 1) (snd (file_is_valid E (snd (file_openw E fn app (snd (mpi_wtime E s)))))))))))
            \<lparr>wtime := wtime (snd (mpi_wtime E (file_close E (write_vars E
                (file_setRecord E (- 1) (snd (file_is_valid E (snd (file_openw E fn app (snd (mpi_wtime E s)))))))))))
               + (fst (mpi_wtime E (file_close E (write_vars E
                (file_setRecord E (- 1) (snd (file_is_valid E (snd (file_openw E fn app (snd (mpi_wtime E s))))))))))
                  - fst (mpi_wtime E s))\<rparr>)"
  using assms
  by (simp add: write_filename_def Let_def split_def file_openw_def file_is_valid_def
      mpi_wtime_def invoke_def)

lemma write_filename_calls:
  assumes "enabled s"
    and "fst (openw (format E) fn app (the_file s))"
    and "fst (is_valid (format E) (snd (openw (format E) fn app (the_file s))))"
  shows "calls (snd (write_filename E fn app s))
     = calls s @ [Openw fn app, Is_valid, SetRecord (- 1)] @ write_requests E s @ [Close]"
proof -
  define s4 where "s4 = file_setRecord E (- 1) (snd (file_is_valid E (snd (file_openw E fn app (snd (mpi_wtime E s))))))"
  have reg: "registry s4 = registry s" and m: "mem s4 = mem s"
    by (simp_all add: s4_def file_registry file_mem)
  have c4: "calls s4 = calls s @ [Openw fn app, Is_valid, SetRecord (- 1)]"
    by (simp add: s4_def file_calls)
  show ?thesis
    by (simp add: write_opened [OF assms] file_calls write_vars_calls
        s4_def [symmetric] c4 write_requests_cong [OF reg m])
qed

subsection \<open>What the steps of \<^verbatim>\<open>read\<close> leave alone\<close>

lemma store_f2d_frame:
  "int_mem (store_f2d q f m) = int_mem m"
  "BoutReal_mem (store_f2d q f m) = BoutReal_mem m"
  "f3d_mem (store_f2d q f m) = f3d_mem m"
  "v3d_mem (store_f2d q f m) = v3d_mem m"
  by (cases q; simp)+

lemma store_f3d_frame:
  "int_mem (store_f3d q f m) = int_mem m"
  "BoutReal_mem (store_f3d q f m) = BoutReal_mem m"
  "f2d_mem (store_f3d q f m) = f2d_mem m"
  "v2d_mem (store_f3d q f m) = v2d_mem m"
  by (cases q; simp)+

lemma load_f3d_store_f2d: "load_f3d p (store_f2d q f m) = load_f3d p m"
  by (cases p) (simp_all add: store_f2d_frame)

lemma load_f2d_store_f3d: "load_f2d p (store_f3d q f m) = load_f2d p m"
  by (cases p) (simp_all add: store_f3d_frame)

lemma load_store_f2d_other: "p \<noteq> q \<Longrightarrow> load_f2d p (store_f2d q f m) = load_f2d p m"
  by (cases p; cases q) auto

lemma load_store_f3d_other: "p \<noteq> q \<Longrightarrow> load_f3d p (store_f3d q f m) = load_f3d p m"
  by (cases p; cases q) auto

lemma store_store_f2d: "store_f2d q f' (store_f2d q f m) = store_f2d q f' m"
  by (cases q) simp_all

lemma store_store_f3d: "store_f3d q f' (store_f3d q f m) = store_f3d q f' m"
  by (cases q) simp_all

lemma v2d_mem_store_f2d_other:
  "q \<notin> {Member_x a, Member_y a, Member_z a} \<Longrightarrow> v2d_mem (store_f2d q f m) a = v2d_mem m a"
  by (cases q) auto

lemma v3d_mem_store_f3d_other:
  "q \<notin> {Member_x a, Member_y a, Member_z a} \<Longrightarrow> v3d_mem (store_f3d q f m) a = v3d_mem m a"
  by (cases q) auto

lemma read_f2d_mem: "\<exists>f'. mem (snd (read_f2d E nm q g s)) = store_f2d q f' (mem s)"
  by (cases g)
    (auto simp add: read_f2d_def file_read_2d_def state_defs Let_def split_def store_store_f2d)

lemma read_f3d_mem: "\<exists>f'. mem (snd (read_f3d E nm q g s)) = store_f3d q f' (mem s)"
  by (cases g)
    (auto simp add: read_f3d_def file_read_3d_def state_defs Let_def split_def store_store_f3d)

lemma read_f2d_frame:
  "int_mem (mem (snd (read_f2d E nm q g s))) = int_mem (mem s)"
  "BoutReal_mem (mem (snd (read_f2d E nm q g s))) = BoutReal_mem (mem s)"
  "load_f3d p (mem (snd (read_f2d E nm q g s))) = load_f3d p (mem s)"
  "v3d_mem (mem (snd (read_f2d E nm q g s))) = v3d_mem (mem s)"
  "p' \<noteq> q \<Longrightarrow> load_f2d p' (mem (snd (read_f2d E nm q g s))) = load_f2d p' (mem s)"
  "q \<notin> {Member_x a, Member_y a, Member_z a} \<Longrightarrow>
     v2d_mem (mem (snd (read_f2d E nm q g s))) a = v2d_mem (mem s) a"
  using read_f2d_mem [of E nm q g s]
  by (auto simp add: store_f2d_frame load_f3d_store_f2d load_store_f2d_other
      v2d_mem_store_f2d_other)

lemma read_f3d_frame:
  "int_mem (mem (snd (read_f3d E nm q g s))) = int_mem (mem s)"
  "BoutReal_mem (mem (snd (read_f3d E nm q g s))) = BoutReal_mem (mem s)"
  "load_f2d p (mem (snd (read_f3d E nm q g s))) = load_f2d p (mem s)"
  "v2d_mem (mem (snd (read_f3d E nm q g s))) = v2d_mem (mem s)"
  "p' \<noteq> q \<Longrightarrow> load_f3d p' (mem (snd (read_f3d E nm q g s))) = load_f3d p' (mem s)"
  "q \<notin> {Member_x a, Member_y a, Member_z a} \<Longrightarrow>
     v3d_mem (mem (snd (read_f3d E nm q g s))) a = v3d_mem (mem s) a"
  using read_f3d_mem [of E nm q g s]
  by (auto simp add: store_f3d_frame load_f2d_store_f3d load_store_f3d_other
      v3d_mem_store_f3d_other)

lemma set_covariant2D_frame:
  "int_mem (mem (set_covariant2D b c s)) = int_mem (mem s)"
  "BoutReal_mem (mem (set_covariant2D b c s)) = BoutReal_mem (mem s)"
  "load_f2d p (mem (set_covariant2D b c s)) = load_f2d p (mem s)"
  "load_f3d p (mem (set_covariant2D b c s)) = load_f3d p (mem s)"
  "v3d_mem (mem (set_covariant2D b c s)) = v3d_mem (mem s)"
  "a \<noteq> b \<Longrightarrow> v2d_mem (mem (set_covariant2D b c s)) a = v2d_mem (mem s) a"
  by (cases p; simp add: set_covariant2D_def)+

lemma set_covariant3D_frame:
  "int_mem (mem (set_covariant3D b c s)) = int_mem (mem s)"
  "BoutReal_mem (mem (set_covariant3D b c s)) = BoutReal_mem (mem s)"
  "load_f2d p (mem (set_covariant3D b c s)) = load_f2d p (mem s)"
  "load_f3d p (mem (set_covariant3D b c s)) = load_f3d p (mem s)"
  "v2d_mem (mem (set_covariant3D b c s)) = v2d_mem (mem s)"
  "a \<noteq> b \<Longrightarrow> v3d_mem (mem (set_covariant3D b c s)) a = v3d_mem (mem s) a"
  by (cases p; simp add: set_covariant3D_def)+

lemma read_int_var_frame:
  "ptr jt \<noteq> a \<Longrightarrow> int_mem (mem (read_int_var E jt s)) a = int_mem (mem s) a"
  "BoutReal_mem (mem (read_int_var E jt s)) = BoutReal_mem (mem s)"
  "load_f2d p (mem (read_int_var E jt s)) = load_f2d p (mem s)"
  "load_f3d p (mem (read_int_var E jt s)) = load_f3d p (mem s)"
  "v2d_mem (mem (read_int_var E jt s)) = v2d_mem (mem s)"
  "v3d_mem (mem (read_int_var E jt s)) = v3d_mem (mem s)"
  by (cases p; simp add: read_int_var_def file_read_int_def state_defs split_def)+

lemma read_BoutReal_var_frame:
  "int_mem (mem (read_BoutReal_var E jt s)) = int_mem (mem s)"
  "ptr jt \<noteq> a \<Longrightarrow> BoutReal_mem (mem (read_BoutReal_var E jt s)) a = BoutReal_mem (mem s) a"
  "load_f2d p (mem (read_BoutReal_var E jt s)) = load_f2d p (mem s)"
  "load_f3d p (mem (read_BoutReal_var E jt s)) = load_f3d p (mem s)"
  "v2d_mem (mem (read_BoutReal_var E jt s)) = v2d_mem (mem s)"
  "v3d_mem (mem (read_BoutReal_var E jt s)) = v3d_mem (mem s)"
  by (cases p; simp add: read_BoutReal_var_def file_read_BoutReal_def state_defs split_def)+

lemma read_f2d_var_frame:
  "int_mem (mem (read_f2d_var E ft s)) = int_mem (mem s)"
  "BoutReal_mem (mem (read_f2d_var E ft s)) = BoutReal_mem (mem s)"
  "ptr ft \<noteq> p' \<Longrightarrow> load_f2d p' (mem (read_f2d_var E ft s)) = load_f2d p' (mem s)"
  "load_f3d p (mem (read_f2d_var E ft s)) = load_f3d p (mem s)"
  "v3d_mem (mem (read_f2d_var E ft s)) = v3d_mem (mem s)"
  by (auto simp add: read_f2d_var_def read_f2d_frame)

lemma read_f3d_var_frame:
  "int_mem (mem (read_f3d_var E ft s)) = int_mem (mem s)"
  "BoutReal_mem (mem (read_f3d_var E ft s)) = BoutReal_mem (mem s)"
  "load_f2d p (mem (read_f3d_var E ft s)) = load_f2d p (mem s)"
  "ptr ft \<noteq> p' \<Longrightarrow> load_f3d p' (mem (read_f3d_var E ft s)) = load_f3d p' (mem s)"
  "v2d_mem (mem (read_f3d_var E ft s)) = v2d_mem (mem s)"
  by (auto simp add: read_f3d_var_def read_f3d_frame)

lemma read_v2d_var_frame:
  "int_mem (mem (read_v2d_var E vt s)) = int_mem (mem s)"
  "BoutReal_mem (mem (read_v2d_var E vt s)) = BoutReal_mem (mem s)"
  "p' \<notin> {Member_x (ptr vt), Member_y (ptr vt), Member_z (ptr vt)} \<Longrightarrow>
     load_f2d p' (mem (read_v2d_var E vt s)) = load_f2d p' (mem s)"
  "load_f3d p (mem (read_v2d_var E vt s)) = load_f3d p (mem s)"
  "ptr vt \<noteq> a \<Longrightarrow> v2d_mem (mem (read_v2d_var E vt s)) a = v2d_mem (mem s) a"
  "v3d_mem (mem (read_v2d_var E vt s)) = v3d_mem (mem s)"
  by (auto simp add: read_v2d_var_def Let_def read_f2d_frame set_covariant2D_frame)

lemma read_v3d_var_frame:
  "int_mem (mem (read_v3d_var E vt s)) = int_mem (mem s)"
  "BoutReal_mem (mem (read_v3d_var E vt s)) = BoutReal_mem (mem s)"
  "load_f2d p (mem (read_v3d_var E vt s)) = load_f2d p (mem s)"
  "p' \<notin> {Member_x (ptr vt), Member_y (ptr vt), Member_z (ptr vt)} \<Longrightarrow>
     load_f3d p' (mem (read_v3d_var E vt s)) = load_f3d p' (mem s)"
  "v2d_mem (mem (read_v3d_var E vt s)) = v2d_mem (mem s)"
  "ptr vt \<noteq> a \<Longrightarrow> v3d_mem (mem (read_v3d_var E vt s)) a = v3d_mem (mem s) a"
  by (auto simp add: read_v3d_var_def Let_def read_f3d_frame set_covariant3D_frame)

lemma read_f2d_output: "w \<in> set (output_log s) \<Longrightarrow> w \<in> set (output_log (snd (read_f2d E nm q g s)))"
  by (simp add: read_f2d_def file_read_2d_def state_defs Let_def split_def)

lemma read_f3d_output: "w \<in> set (output_log s) \<Longrightarrow> w \<in> set (output_log (snd (read_f3d E nm q g s)))"
  by (simp add: read_f3d_def file_read_3d_def state_defs Let_def split_def)

lemma read_steps_output:
  "w \<in> set (output_log s) \<Longrightarrow> w \<in> set (output_log (read_int_var E it s))"
  "w \<in> set (output_log s) \<Longrightarrow> w \<in> set (output_log (read_BoutReal_var E it s))"
  "w \<in> set (output_log s) \<Longrightarrow> w \<in> set (output_log (read_f2d_var E ft s))"
  "w \<in> set (output_log s) \<Longrightarrow> w \<in> set (output_log (read_f3d_var E ft s))"
  "w \<in> set (output_log s) \<Longrightarrow> w \<in> set (output_log (read_v2d_var E vt s))"
  "w \<in> set (output_log s) \<Longrightarrow> w \<in> set (output_log (read_v3d_var E vt s))"
  by (simp_all add: read_int_var_def file_read_int_def read_BoutReal_var_def
      file_read_BoutReal_def read_f2d_var_def read_f3d_var_def read_v2d_var_def read_v3d_var_def
      read_f2d_output read_f3d_output state_defs split_def Let_def)

lemma fold_keeps:
  assumes "\<And>x s. x \<in> set xs \<Longrightarrow> P s \<Longrightarrow> P (f x s)" and "P s"
  shows "P (fold f xs s)"
  using assms by (induction xs arbitrary: s) simp_all

lemma fold_frame_on:
  assumes "\<And>x s. x \<in> set xs \<Longrightarrow> g (f x s) = g s"
  shows "g (fold f xs s) = g s"
  using assms by (induction xs arbitrary: s) simp_all

lemma read_int_loop_other:
  fixes E :: "('b, 'f2, 'f3) env"
  assumes "a \<notin> ptr ` set xs"
  shows "int_mem (mem (fold (read_int_var E) xs s)) a = int_mem (mem s) a"
proof (rule fold_frame_on [where g = "\<lambda>s. int_mem (mem s) a"])
  fix x and s :: "('b, 'f2, 'f3) state"
  assume "x \<in> set xs"
  with assms have "ptr x \<noteq> a" by auto
  then show "int_mem (mem (read_int_var E x s)) a = int_mem (mem s) a"
    by (rule read_int_var_frame(1))
qed

lemma read_BoutReal_loop_other:
  fixes E :: "('b, 'f2, 'f3) env"
  assumes "a \<notin> ptr ` set xs"
  shows "BoutReal_mem (mem (fold (read_BoutReal_var E) xs s)) a = BoutReal_mem (mem s) a"
proof (rule fold_frame_on [where g = "\<lambda>s. BoutReal_mem (mem s) a"])
  fix x and s :: "('b, 'f2, 'f3) state"
  assume "x \<in> set xs"
  with assms have "ptr x \<noteq> a" by auto
  then show "BoutReal_mem (mem (read_BoutReal_var E x s)) a = BoutReal_mem (mem s) a"
    by (rule read_BoutReal_var_frame(2))
qed

lemma read_f2d_loop_other:
  fixes E :: "('b, 'f2, 'f3) env"
  assumes "p \<notin> ptr ` set ys"
  shows "load_f2d p (mem (fold (read_f2d_var E) ys s)) = load_f2d p (mem s)"
proof (rule fold_frame_on [where g = "\<lambda>s. load_f2d p (mem s)"])
  fix x and s :: "('b, 'f2, 'f3) state"
  assume "x \<in> set ys"
  with assms have "ptr x \<noteq> p" by auto
  then show "load_f2d p (mem (read_f2d_var E x s)) = load_f2d p (mem s)"
    by (rule read_f2d_var_frame(3))
qed

lemma read_f3d_loop_other:
  fixes E :: "('b, 'f2, 'f3) env"
  assumes "p \<notin> ptr ` set ys"
  shows "load_f3d p (mem (fold (read_f3d_var E) ys s)) = load_f3d p (mem s)"
proof (rule fold_frame_on [where g = "\<lambda>s. load_f3d p (mem s)"])
  fix x and s :: "('b, 'f2, 'f3) state"
  assume "x \<in> set ys"
  with assms have "ptr x \<noteq> p" by auto
  then show "load_f3d p (mem (read_f3d_var E x s)) = load_f3d p (mem s)"
    by (rule read_f3d_var_frame(4))
qed

lemma read_v2d_loop_other:
  fixes E :: "('b, 'f2, 'f3) env"
  assumes "a \<notin> ptr ` set zs"
  shows "v2d_mem (mem (fold (read_v2d_var E) zs s)) a = v2d_mem (mem s) a"
proof (rule fold_frame_on [where g = "\<lambda>s. v2d_mem (mem s) a"])
  fix x and s :: "('b, 'f2, 'f3) state"
  assume "x \<in> set zs"
  with assms have "ptr x \<noteq> a" by auto
  then show "v2d_mem (mem (read_v2d_var E x s)) a = v2d_mem (mem s) a"
    by (rule read_v2d_var_frame(5))
qed

lemma read_v3d_loop_other:
  fixes E :: "('b, 'f2, 'f3) env"
  assumes "a \<notin> ptr ` set zs"
  shows "v3d_mem (mem (fold (read_v3d_var E) zs s)) a = v3d_mem (mem s) a"
proof (rule fold_frame_on [where g = "\<lambda>s. v3d_mem (mem s) a"])
  fix x and s :: "('b, 'f2, 'f3) state"
  assume "x \<in> set zs"
  with assms have "ptr x \<noteq> a" by auto
  then show "v3d_mem (mem (read_v3d_var E x s)) a = v3d_mem (mem s) a"
    by (rule read_v3d_var_frame(6))
qed

lemma read_v2d_loop_no_member:
  fixes E :: "('b, 'f2, 'f3) env"
  assumes "\<forall>vt\<in>set zs. p \<notin> {Member_x (ptr vt), Member_y (ptr vt), Member_z (ptr vt)}"
  shows "load_f2d p (mem (fold (read_v2d_var E) zs s)) = load_f2d p (mem s)"
proof (rule fold_frame_on [where g = "\<lambda>s. load_f2d p (mem s)"])
  fix x and s :: "('b, 'f2, 'f3) state"
  assume "x \<in> set zs"
  with assms have "p \<notin> {Member_x (ptr x), Member_y (ptr x), Member_z (ptr x)}" by blast
  then show "load_f2d p (mem (read_v2d_var E x s)) = load_f2d p (mem s)"
    by (rule read_v2d_var_frame(3))
qed

lemma read_v3d_loop_no_member:
  fixes E :: "('b, 'f2, 'f3) env"
  assumes "\<forall>vt\<in>set zs. p \<notin> {Member_x (ptr vt), Member_y (ptr vt), Member_z (ptr vt)}"
  shows "load_f3d p (mem (fold (read_v3d_var E) zs s)) = load_f3d p (mem s)"
proof (rule fold_frame_on [where g = "\<lambda>s. load_f3d p (mem s)"])
  fix x and s :: "('b, 'f2, 'f3) state"
  assume "x \<in> set zs"
  with assms have "p \<notin> {Member_x (ptr x), Member_y (ptr x), Member_z (ptr x)}" by blast
  then show "load_f3d p (mem (read_v3d_var E x s)) = load_f3d p (mem s)"
    by (rule read_v3d_var_frame(4))
qed

lemma read_loops_int_mem:
  "int_mem (mem (fold (read_BoutReal_var E) xs s)) = int_mem (mem s)"
  "int_mem (mem (fold (read_f2d_var E) ys s)) = int_mem (mem s)"
  "int_mem (mem (fold (read_f3d_var E) ys s)) = int_mem (mem s)"
  "int_mem (mem (fold (read_v2d_var E) zs s)) = int_mem (mem s)"
  "int_mem (mem (fold (read_v3d_var E) zs s)) = int_mem (mem s)"
  by (rule fold_frame [where g = "\<lambda>s. int_mem (mem s)"],
      simp add: read_BoutReal_var_frame read_f2d_var_frame read_f3d_var_frame read_v2d_var_frame
        read_v3d_var_frame)+

lemma read_loops_BoutReal_mem:
  "BoutReal_mem (mem (fold (read_f2d_var E) ys s)) = BoutReal_mem (mem s)"
  "BoutReal_mem (mem (fold (read_f3d_var E) ys s)) = BoutReal_mem (mem s)"
  "BoutReal_mem (mem (fold (read_v2d_var E) zs s)) = BoutReal_mem (mem s)"
  "BoutReal_mem (mem (fold (read_v3d_var E) zs s)) = BoutReal_mem (mem s)"
  by (rule fold_frame [where g = "\<lambda>s. BoutReal_mem (mem s)"],
      simp add: read_f2d_var_frame read_f3d_var_frame read_v2d_var_frame read_v3d_var_frame)+

lemma read_loops_load_f2d:
  "load_f2d p (mem (fold (read_f3d_var E) ys s)) = load_f2d p (mem s)"
  "load_f2d p (mem (fold (read_v3d_var E) zs s)) = load_f2d p (mem s)"
  by (rule fold_frame [where g = "\<lambda>s. load_f2d p (mem s)"],
      simp add: read_f3d_var_frame read_v3d_var_frame)+

lemma read_loops_load_f3d:
  "load_f3d p (mem (fold (read_v2d_var E) zs s)) = load_f3d p (mem s)"
  by (rule fold_frame [where g = "\<lambda>s. load_f3d p (mem s)"]) (simp add: read_v2d_var_frame)

lemma read_loops_vector_mem:
  "v2d_mem (mem (fold (read_v3d_var E) zs s)) = v2d_mem (mem s)"
  by (rule fold_frame [where g = "\<lambda>s. v2d_mem (mem s)"]) (simp add: read_v3d_var_frame)

lemma read_loops_output:
  "w \<in> set (output_log s) \<Longrightarrow> w \<in> set (output_log (fold (read_int_var E) xs s))"
  "w \<in> set (output_log s) \<Longrightarrow> w \<in> set (output_log (fold (read_BoutReal_var E) xs s))"
  "w \<in> set (output_log s) \<Longrightarrow> w \<in> set (output_log (fold (read_f2d_var E) ys s))"
  "w \<in> set (output_log s) \<Longrightarrow> w \<in> set (output_log (fold (read_f3d_var E) ys s))"
  "w \<in> set (output_log s) \<Longrightarrow> w \<in> set (output_log (fold (read_v2d_var E) zs s))"
  "w \<in> set (output_log s) \<Longrightarrow> w \<in> set (output_log (fold (read_v3d_var E) zs s))"
  by (rule fold_keeps [where P = "\<lambda>s. w \<in> set (output_log s)"]; simp add: read_steps_output)+

lemma read_vars_unfold:
  "read_vars E s =
     fold (read_v3d_var E) (v3d_arr s)
      (fold (read_v2d_var E) (v2d_arr s)
        (fold (read_f3d_var E) (f3d_arr s)
          (fold (read_f2d_var E) (f2d_arr s)
            (fold (read_BoutReal_var E) (BoutReal_arr s)
              (fold (read_int_var E) (int_arr s) s)))))"
  by (simp add: read_vars_def Let_def registry_eqD [OF read_loops_registry(1)]
      registry_eqD [OF read_loops_registry(2)] registry_eqD [OF read_loops_registry(3)]
      registry_eqD [OF read_loops_registry(4)] registry_eqD [OF read_loops_registry(5)])

lemma read_opened:
  assumes "fst (openr (format E) (vsprintf E fmt ap) (the_file s))"
    and "fst (is_valid (format E) (snd (openr (format E) (vsprintf E fmt ap) (the_file s))))"
    and "s0 = file_setRecord E (- 1) (snd (file_is_valid E (snd (file_openr E (vsprintf E fmt ap) (snd (mpi_wtime E s))))))"
  shows "mem (snd (read E (Some fmt) ap s)) = mem (read_vars E s0)"
    and "output_log (snd (read E (Some fmt) ap s)) = output_log (read_vars E s0)"
    and "registry s0 = registry s"
proof -
  have r: "read E (Some fmt) ap s =
      (0, (snd (mpi_wtime E (file_close E (read_vars E s0))))
            \<lparr>wtime := wtime (snd (mpi_wtime E (file_close E (read_vars E s0))))
               + (fst (mpi_wtime E (file_close E (read_vars E s0))) - fst (mpi_wtime E s))\<rparr>)"
    using assms(1,2) unfolding assms(3)
    by (simp add: read_def Let_def split_def file_openr_fst file_is_valid_fst file_openr_the_file
        mpi_wtime_the_file)
  show "mem (snd (read E (Some fmt) ap s)) = mem (read_vars E s0)"
    by (simp add: r file_close_def invoke_def mpi_wtime_def)
  show "output_log (snd (read E (Some fmt) ap s)) = output_log (read_vars E s0)"
    by (simp add: r file_close_def invoke_def mpi_wtime_def)
  show "registry s0 = registry s"
    by (simp add: assms(3) file_registry)
qed

subsection \<open>A failed read, seen after \<^verbatim>\<open>read\<close>\<close>

lemma read_int_fails_after:
  assumes "fst (openr (format E) (vsprintf E fmt ap) (the_file s))"
    and "fst (is_valid (format E) (snd (openr (format E) (vsprintf E fmt ap) (the_file s))))"
    and "s0 = file_setRecord E (- 1) (snd (file_is_valid E (snd (file_openr E (vsprintf E fmt ap) (snd (mpi_wtime E s))))))"
    and "int_arr s = pre @ it # post" and "ptr it \<notin> ptr ` set post"
    and "\<not> fst (file_read_int (if grow it then read_rec_int (format E) else read_int (format E))
                  (grow it) (ptr it) (name it) (fold (read_int_var E) pre s0))"
  shows "int_mem (mem (snd (read E (Some fmt) ap s))) (ptr it) = 0
       \<and> warning_int (name it) \<in> set (output_log (snd (read E (Some fmt) ap s)))"
proof -
  define t where "t = read_int_var E it (fold (read_int_var E) pre s0)"
  have t: "int_mem (mem t) (ptr it) = 0" "warning_int (name it) \<in> set (output_log t)"
    using read_int_var_fails [OF assms(6)] by (simp_all add: t_def)
  have arrs: "int_arr s0 = pre @ it # post" "BoutReal_arr s0 = BoutReal_arr s" "f2d_arr s0 = f2d_arr s"
    "f3d_arr s0 = f3d_arr s" "v2d_arr s0 = v2d_arr s" "v3d_arr s0 = v3d_arr s"
    using registry_eqD [OF read_opened(3) [OF assms(1-3)]] assms(4) by simp_all
  have v: "read_vars E s0 =
     fold (read_v3d_var E) (v3d_arr s)
      (fold (read_v2d_var E) (v2d_arr s)
        (fold (read_f3d_var E) (f3d_arr s)
          (fold (read_f2d_var E) (f2d_arr s)
            (fold (read_BoutReal_var E) (BoutReal_arr s)
              (fold (read_int_var E) post t)))))"
    by (simp add: read_vars_unfold arrs t_def)
  show ?thesis
    by (simp add: read_opened(1,2) [OF assms(1-3)] v read_loops_int_mem
        read_int_loop_other [OF assms(5)] t read_loops_output)
qed

lemma read_BoutReal_fails_after:
  assumes "fst (openr (format E) (vsprintf E fmt ap) (the_file s))"
    and "fst (is_valid (format E) (snd (openr (format E) (vsprintf E fmt ap) (the_file s))))"
    and "s0 = file_setRecord E (- 1) (snd (file_is_valid E (snd (file_openr E (vsprintf E fmt ap) (snd (mpi_wtime E s))))))"
    and "s1 = fold (read_int_var E) (int_arr s) s0"
    and "BoutReal_arr s = pre @ it # post" and "ptr it \<notin> ptr ` set post"
    and "\<not> fst (file_read_BoutReal (if grow it then read_rec_BoutReal (format E) else read_BoutReal (format E))
                  (grow it) (ptr it) (name it) (fold (read_BoutReal_var E) pre s1))"
  shows "BoutReal_mem (mem (snd (read E (Some fmt) ap s))) (ptr it) = 0
       \<and> warning_BoutReal (name it) \<in> set (output_log (snd (read E (Some fmt) ap s)))"
proof -
  define t where "t = read_BoutReal_var E it (fold (read_BoutReal_var E) pre s1)"
  have t: "BoutReal_mem (mem t) (ptr it) = 0" "warning_BoutReal (name it) \<in> set (output_log t)"
    using read_BoutReal_var_fails [OF assms(7)] by (simp_all add: t_def)
  have arrs: "int_arr s0 = int_arr s" "BoutReal_arr s0 = pre @ it # post" "f2d_arr s0 = f2d_arr s"
    "f3d_arr s0 = f3d_arr s" "v2d_arr s0 = v2d_arr s" "v3d_arr s0 = v3d_arr s"
    using registry_eqD [OF read_opened(3) [OF assms(1-3)]] assms(5) by simp_all
  have v: "read_vars E s0 =
     fold (read_v3d_var E) (v3d_arr s)
      (fold (read_v2d_var E) (v2d_arr s)
        (fold (read_f3d_var E) (f3d_arr s)
          (fold (read_f2d_var E) (f2d_arr s)
            (fold (read_BoutReal_var E) post t))))"
    by (simp add: read_vars_unfold arrs t_def assms(4))
  show ?thesis
    by (simp add: read_opened(1,2) [OF assms(1-3)] v read_loops_BoutReal_mem
        read_BoutReal_loop_other [OF assms(6)] t read_loops_output)
qed

lemma read_f2d_fails_after:
  assumes "fst (openr (format E) (vsprintf E fmt ap) (the_file s))"
    and "fst (is_valid (format E) (snd (openr (format E) (vsprintf E fmt ap) (the_file s))))"
    and "s0 = file_setRecord E (- 1) (snd (file_is_valid E (snd (file_openr E (vsprintf E fmt ap) (snd (mpi_wtime E s))))))"
    and "s2 = fold (read_BoutReal_var E) (BoutReal_arr s) (fold (read_int_var E) (int_arr s) s0)"
    and "f2d_arr s = pre @ ft # post" and "ptr ft \<notin> ptr ` set post"
    and "\<forall>vt\<in>set (v2d_arr s). ptr ft \<notin> {Member_x (ptr vt), Member_y (ptr vt), Member_z (ptr vt)}"
    and "sa = set_f2d (ptr ft) (allocate (Field2D E) (load_f2d (ptr ft) (mem (fold (read_f2d_var E) pre s2))))
                (fold (read_f2d_var E) pre s2)"
    and "\<not> fst (file_read_2d E (if grow ft then read_rec_2d (format E) else read_2d (format E))
                  (grow ft) (ptr ft) (name ft) sa)"
  shows "load_f2d (ptr ft) (mem (snd (read E (Some fmt) ap s)))
           = assign (Field2D E) 0
               (load_f2d (ptr ft) (mem (snd (file_read_2d E
                  (if grow ft then read_rec_2d (format E) else read_2d (format E))
                  (grow ft) (ptr ft) (name ft) sa))))
       \<and> warning_f2d (name ft) \<in> set (output_log (snd (read E (Some fmt) ap s)))"
proof -
  define t where "t = read_f2d_var E ft (fold (read_f2d_var E) pre s2)"
  have t: "load_f2d (ptr ft) (mem t)
           = assign (Field2D E) 0
               (load_f2d (ptr ft) (mem (snd (file_read_2d E
                  (if grow ft then read_rec_2d (format E) else read_2d (format E))
                  (grow ft) (ptr ft) (name ft) sa))))"
    "warning_f2d (name ft) \<in> set (output_log t)"
    using read_f2d_fails [OF assms(9) [unfolded assms(8)]]
    unfolding t_def read_f2d_var_def assms(8) by simp_all
  have arrs: "int_arr s0 = int_arr s" "BoutReal_arr s0 = BoutReal_arr s" "f2d_arr s0 = pre @ ft # post"
    "f3d_arr s0 = f3d_arr s" "v2d_arr s0 = v2d_arr s" "v3d_arr s0 = v3d_arr s"
    using registry_eqD [OF read_opened(3) [OF assms(1-3)]] assms(5) by simp_all
  have v: "read_vars E s0 =
     fold (read_v3d_var E) (v3d_arr s)
      (fold (read_v2d_var E) (v2d_arr s)
        (fold (read_f3d_var E) (f3d_arr s)
          (fold (read_f2d_var E) post t)))"
    by (simp add: read_vars_unfold arrs t_def assms(4))
  show ?thesis
    by (simp add: read_opened(1,2) [OF assms(1-3)] v read_loops_load_f2d
        read_f2d_loop_other [OF assms(6)] read_v2d_loop_no_member [OF assms(7)] t read_loops_output)
qed

lemma read_f3d_fails_after:
  assumes "fst (openr (format E) (vsprintf E fmt ap) (the_file s))"
    and "fst (is_valid (format E) (snd (openr (format E) (vsprintf E fmt ap) (the_file s))))"
    and "s0 = file_setRecord E (- 1) (snd (file_is_valid E (snd (file_openr E (vsprintf E fmt ap) (snd (mpi_wtime E s))))))"
    and "s3 = fold (read_f2d_var E) (f2d_arr s)
               (fold (read_BoutReal_var E) (BoutReal_arr s) (fold (read_int_var E) (int_arr s) s0))"
    and "f3d_arr s = pre @ ft # post" and "ptr ft \<notin> ptr ` set post"
    and "\<forall>vt\<in>set (v3d_arr s). ptr ft \<notin> {Member_x (ptr vt), Member_y (ptr vt), Member_z (ptr vt)}"
    and "sa = set_f3d (ptr ft) (allocate (Field3D E) (load_f3d (ptr ft) (mem (fold (read_f3d_var E) pre s3))))
                (fold (read_f3d_var E) pre s3)"
    and "\<not> fst (file_read_3d E (if grow ft then read_rec_3d (format E) else read_3d (format E))
                  (grow ft) (ptr ft) (name ft) sa)"
  shows "load_f3d (ptr ft) (mem (snd (read E (Some fmt) ap s)))
           = assign (Field3D E) 0
               (load_f3d (ptr ft) (mem (snd (file_read_3d E
                  (if grow ft then read_rec_3d (format E) else read_3d (format E))
                  (grow ft) (ptr ft) (name ft) sa))))
       \<and> warning_f3d (name ft) \<in> set (output_log (snd (read E (Some fmt) ap s)))"
proof -
  define t where "t = read_f3d_var E ft (fold (read_f3d_var E) pre s3)"
  have t: "load_f3d (ptr ft) (mem t)
           = assign (Field3D E) 0
               (load_f3d (ptr ft) (mem (snd (file_read_3d E
                  (if grow ft then read_rec_3d (format E) else read_3d (format E))
                  (grow ft) (ptr ft) (name ft) sa))))"
    "warning_f3d (name ft) \<in> set (output_log t)"
    using read_f3d_fails [OF assms(9) [unfolded assms(8)]]
    unfolding t_def read_f3d_var_def assms(8) by simp_all
  have arrs: "int_arr s0 = int_arr s" "BoutReal_arr s0 = BoutReal_arr s" "f2d_arr s0 = f2d_arr s"
    "f3d_arr s0 = pre @ ft # post" "v2d_arr s0 = v2d_arr s" "v3d_arr s0 = v3d_arr s"
    using registry_eqD [OF read_opened(3) [OF assms(1-3)]] assms(5) by simp_all
  have v: "read_vars E s0 =
     fold (read_v3d_var E) (v3d_arr s)
      (fold (read_v2d_var E) (v2d_arr s)
        (fold (read_f3d_var E) post t))"
    by (simp add: read_vars_unfold arrs t_def assms(4))
  show ?thesis
    by (simp add: read_opened(1,2) [OF assms(1-3)] v read_loops_load_f3d
        read_f3d_loop_other [OF assms(6)] read_v3d_loop_no_member [OF assms(7)] t read_loops_output)
qed

text \<open>
  C1. First, the loop bodies: when the primitive called for a scalar binding
  (\<^verbatim>\<open>read_rec\<close> if the binding grows, \<^verbatim>\<open>read\<close> otherwise) returns false, the body
  leaves 0 at the pointer and the warning with the name as one more line of output; when the
  primitive called by \<^verbatim>\<open>read_f2d\<close> or \<^verbatim>\<open>read_f3d\<close> on the allocated field returns
  false, the helper returns false, the field is what the assignment of 0 makes of it, and
  the warning is on the output. A \<^verbatim>\<open>read\<close> whose \<^verbatim>\<open>openr\<close> and \<^verbatim>\<open>is_valid\<close>
  return true returns 0 and makes one read for every binding, whatever fails.

  Then \<^verbatim>\<open>read\<close> itself. \<open>s0\<close> is the state after \<^verbatim>\<open>setRecord(-1)\<close>, and \<open>s1\<close>,
  \<open>s2\<close>, \<open>s3\<close> the states after the loops over the integers, the reals and the 2D
  fields. Take a scalar or field binding of the registry, the last of its loop to point where
  it points (and, for a field, not a member of a registered vector), and let the primitive
  called for it, in the state the loop has reached, return false. Then after \<^verbatim>\<open>read\<close>
  the target is 0 (for a field, the result of assigning 0) and the warning with the name of
  the variable is among the lines of output.
\<close>

theorem read_failure_zero_and_continue:
  "((\<not> fst (file_read_int (if grow it then read_rec_int (format E) else read_int (format E))
             (grow it) (ptr it) (name it) s) \<longrightarrow>
      int_mem (mem (read_int_var E it s)) (ptr it) = 0
    \<and> output_log (read_int_var E it s) = output_log s @ [warning_int (name it)])
 \<and> (\<not> fst (file_read_BoutReal (if grow rt then read_rec_BoutReal (format E) else read_BoutReal (format E))
             (grow rt) (ptr rt) (name rt) s) \<longrightarrow>
      BoutReal_mem (mem (read_BoutReal_var E rt s)) (ptr rt) = 0
    \<and> output_log (read_BoutReal_var E rt s) = output_log s @ [warning_BoutReal (name rt)])
 \<and> (\<not> fst (file_read_2d E (if g2 then read_rec_2d (format E) else read_2d (format E)) g2 f2 nm2
             (set_f2d f2 (allocate (Field2D E) (load_f2d f2 (mem s))) s)) \<longrightarrow>
      \<not> fst (read_f2d E nm2 f2 g2 s)
    \<and> load_f2d f2 (mem (snd (read_f2d E nm2 f2 g2 s)))
        = assign (Field2D E) 0
            (load_f2d f2 (mem (snd (file_read_2d E (if g2 then read_rec_2d (format E) else read_2d (format E)) g2 f2 nm2
                (set_f2d f2 (allocate (Field2D E) (load_f2d f2 (mem s))) s)))))
    \<and> output_log (snd (read_f2d E nm2 f2 g2 s)) = output_log s @ [warning_f2d nm2])
 \<and> (\<not> fst (file_read_3d E (if g3 then read_rec_3d (format E) else read_3d (format E)) g3 f3 nm3
             (set_f3d f3 (allocate (Field3D E) (load_f3d f3 (mem s))) s)) \<longrightarrow>
      \<not> fst (read_f3d E nm3 f3 g3 s)
    \<and> load_f3d f3 (mem (snd (read_f3d E nm3 f3 g3 s)))
        = assign (Field3D E) 0
            (load_f3d f3 (mem (snd (file_read_3d E (if g3 then read_rec_3d (format E) else read_3d (format E)) g3 f3 nm3
                (set_f3d f3 (allocate (Field3D E) (load_f3d f3 (mem s))) s)))))
    \<and> output_log (snd (read_f3d E nm3 f3 g3 s)) = output_log s @ [warning_f3d nm3])
 \<and> (fst (openr (format E) (vsprintf E fmt ap) (the_file s))
    \<and> fst (is_valid (format E) (snd (openr (format E) (vsprintf E fmt ap) (the_file s)))) \<longrightarrow>
      fst (read E (Some fmt) ap s) = 0
    \<and> calls (snd (read E (Some fmt) ap s))
        = calls s @ [Openr (vsprintf E fmt ap), Is_valid, SetRecord (- 1)] @ read_requests E s @ [Close]))
 \<and> (fst (openr (format E) (vsprintf E fmt ap) (the_file s))
    \<and> fst (is_valid (format E) (snd (openr (format E) (vsprintf E fmt ap) (the_file s))))
    \<and> s0 = file_setRecord E (- 1)
              (snd (file_is_valid E (snd (file_openr E (vsprintf E fmt ap) (snd (mpi_wtime E s))))))
    \<and> s1 = fold (read_int_var E) (int_arr s) s0
    \<and> s2 = fold (read_BoutReal_var E) (BoutReal_arr s) s1
    \<and> s3 = fold (read_f2d_var E) (f2d_arr s) s2 \<longrightarrow>
      (int_arr s = ipre @ it # ipost \<and> ptr it \<notin> ptr ` set ipost
       \<and> \<not> fst (file_read_int (if grow it then read_rec_int (format E) else read_int (format E))
                  (grow it) (ptr it) (name it) (fold (read_int_var E) ipre s0)) \<longrightarrow>
         int_mem (mem (snd (read E (Some fmt) ap s))) (ptr it) = 0
       \<and> warning_int (name it) \<in> set (output_log (snd (read E (Some fmt) ap s))))
    \<and> (BoutReal_arr s = rpre @ rt # rpost \<and> ptr rt \<notin> ptr ` set rpost
       \<and> \<not> fst (file_read_BoutReal (if grow rt then read_rec_BoutReal (format E) else read_BoutReal (format E))
                  (grow rt) (ptr rt) (name rt) (fold (read_BoutReal_var E) rpre s1)) \<longrightarrow>
         BoutReal_mem (mem (snd (read E (Some fmt) ap s))) (ptr rt) = 0
       \<and> warning_BoutReal (name rt) \<in> set (output_log (snd (read E (Some fmt) ap s))))
    \<and> (f2d_arr s = pre2 @ ft2 # post2 \<and> ptr ft2 \<notin> ptr ` set post2
       \<and> (\<forall>vt\<in>set (v2d_arr s). ptr ft2 \<notin> {Member_x (ptr vt), Member_y (ptr vt), Member_z (ptr vt)})
       \<and> sa2 = set_f2d (ptr ft2)
                  (allocate (Field2D E) (load_f2d (ptr ft2) (mem (fold (read_f2d_var E) pre2 s2))))
                  (fold (read_f2d_var E) pre2 s2)
       \<and> \<not> fst (file_read_2d E (if grow ft2 then read_rec_2d (format E) else read_2d (format E))
                  (grow ft2) (ptr ft2) (name ft2) sa2) \<longrightarrow>
         load_f2d (ptr ft2) (mem (snd (read E (Some fmt) ap s)))
           = assign (Field2D E) 0
               (load_f2d (ptr ft2) (mem (snd (file_read_2d E
                  (if grow ft2 then read_rec_2d (format E) else read_2d (format E))
                  (grow ft2) (ptr ft2) (name ft2) sa2))))
       \<and> warning_f2d (name ft2) \<in> set (output_log (snd (read E (Some fmt) ap s))))
    \<and> (f3d_arr s = pre3 @ ft3 # post3 \<and> ptr ft3 \<notin> ptr ` set post3
       \<and> (\<forall>vt\<in>set (v3d_arr s). ptr ft3 \<notin> {Member_x (ptr vt), Member_y (ptr vt), Member_z (ptr vt)})
       \<and> sa3 = set_f3d (ptr ft3)
                  (allocate (Field3D E) (load_f3d (ptr ft3) (mem (fold (read_f3d_var E) pre3 s3))))
                  (fold (read_f3d_var E) pre3 s3)
       \<and> \<not> fst (file_read_3d E (if grow ft3 then read_rec_3d (format E) else read_3d (format E))
                  (grow ft3) (ptr ft3) (name ft3) sa3) \<longrightarrow>
         load_f3d (ptr ft3) (mem (snd (read E (Some fmt) ap s)))
           = assign (Field3D E) 0
               (load_f3d (ptr ft3) (mem (snd (file_read_3d E
                  (if grow ft3 then read_rec_3d (format E) else read_3d (format E))
                  (grow ft3) (ptr ft3) (name ft3) sa3))))
       \<and> warning_f3d (name ft3) \<in> set (output_log (snd (read E (Some fmt) ap s)))))"
proof (rule conjI)
  show "(\<not> fst (file_read_int (if grow it then read_rec_int (format E) else read_int (format E))
             (grow it) (ptr it) (name it) s) \<longrightarrow>
      int_mem (mem (read_int_var E it s)) (ptr it) = 0
    \<and> output_log (read_int_var E it s) = output_log s @ [warning_int (name it)])
 \<and> (\<not> fst (file_read_BoutReal (if grow rt then read_rec_BoutReal (format E) else read_BoutReal (format E))
             (grow rt) (ptr rt) (name rt) s) \<longrightarrow>
      BoutReal_mem (mem (read_BoutReal_var E rt s)) (ptr rt) = 0
    \<and> output_log (read_BoutReal_var E rt s) = output_log s @ [warning_BoutReal (name rt)])
 \<and> (\<not> fst (file_read_2d E (if g2 then read_rec_2d (format E) else read_2d (format E)) g2 f2 nm2
             (set_f2d f2 (allocate (Field2D E) (load_f2d f2 (mem s))) s)) \<longrightarrow>
      \<not> fst (read_f2d E nm2 f2 g2 s)
    \<and> load_f2d f2 (mem (snd (read_f2d E nm2 f2 g2 s)))
        = assign (Field2D E) 0
            (load_f2d f2 (mem (snd (file_read_2d E (if g2 then read_rec_2d (format E) else read_2d (format E)) g2 f2 nm2
                (set_f2d f2 (allocate (Field2D E) (load_f2d f2 (mem s))) s)))))
    \<and> output_log (snd (read_f2d E nm2 f2 g2 s)) = output_log s @ [warning_f2d nm2])
 \<and> (\<not> fst (file_read_3d E (if g3 then read_rec_3d (format E) else read_3d (format E)) g3 f3 nm3
             (set_f3d f3 (allocate (Field3D E) (load_f3d f3 (mem s))) s)) \<longrightarrow>
      \<not> fst (read_f3d E nm3 f3 g3 s)
    \<and> load_f3d f3 (mem (snd (read_f3d E nm3 f3 g3 s)))
        = assign (Field3D E) 0
            (load_f3d f3 (mem (snd (file_read_3d E (if g3 then read_rec_3d (format E) else read_3d (format E)) g3 f3 nm3
                (set_f3d f3 (allocate (Field3D E) (load_f3d f3 (mem s))) s)))))
    \<and> output_log (snd (read_f3d E nm3 f3 g3 s)) = output_log s @ [warning_f3d nm3])
 \<and> (fst (openr (format E) (vsprintf E fmt ap) (the_file s))
    \<and> fst (is_valid (format E) (snd (openr (format E) (vsprintf E fmt ap) (the_file s)))) \<longrightarrow>
      fst (read E (Some fmt) ap s) = 0
    \<and> calls (snd (read E (Some fmt) ap s))
        = calls s @ [Openr (vsprintf E fmt ap), Is_valid, SetRecord (- 1)] @ read_requests E s @ [Close])"
    by (rule read_bodies_fail)
next
  show "fst (openr (format E) (vsprintf E fmt ap) (the_file s))
    \<and> fst (is_valid (format E) (snd (openr (format E) (vsprintf E fmt ap) (the_file s))))
    \<and> s0 = file_setRecord E (- 1)
              (snd (file_is_valid E (snd (file_openr E (vsprintf E fmt ap) (snd (mpi_wtime E s))))))
    \<and> s1 = fold (read_int_var E) (int_arr s) s0
    \<and> s2 = fold (read_BoutReal_var E) (BoutReal_arr s) s1
    \<and> s3 = fold (read_f2d_var E) (f2d_arr s) s2 \<longrightarrow>
      (int_arr s = ipre @ it # ipost \<and> ptr it \<notin> ptr ` set ipost
       \<and> \<not> fst (file_read_int (if grow it then read_rec_int (format E) else read_int (format E))
                  (grow it) (ptr it) (name it) (fold (read_int_var E) ipre s0)) \<longrightarrow>
         int_mem (mem (snd (read E (Some fmt) ap s))) (ptr it) = 0
       \<and> warning_int (name it) \<in> set (output_log (snd (read E (Some fmt) ap s))))
    \<and> (BoutReal_arr s = rpre @ rt # rpost \<and> ptr rt \<notin> ptr ` set rpost
       \<and> \<not> fst (file_read_BoutReal (if grow rt then read_rec_BoutReal (format E) else read_BoutReal (format E))
                  (grow rt) (ptr rt) (name rt) (fold (read_BoutReal_var E) rpre s1)) \<longrightarrow>
         BoutReal_mem (mem (snd (read E (Some fmt) ap s))) (ptr rt) = 0
       \<and> warning_BoutReal (name rt) \<in> set (output_log (snd (read E (Some fmt) ap s))))
    \<and> (f2d_arr s = pre2 @ ft2 # post2 \<and> ptr ft2 \<notin> ptr ` set post2
       \<and> (\<forall>vt\<in>set (v2d_arr s). ptr ft2 \<notin> {Member_x (ptr vt), Member_y (ptr vt), Member_z (ptr vt)})
       \<and> sa2 = set_f2d (ptr ft2)
                  (allocate (Field2D E) (load_f2d (ptr ft2) (mem (fold (read_f2d_var E) pre2 s2))))
                  (fold (read_f2d_var E) pre2 s2)
       \<and> \<not> fst (file_read_2d E (if grow ft2 then read_rec_2d (format E) else read_2d (format E))
                  (grow ft2) (ptr ft2) (name ft2) sa2) \<longrightarrow>
         load_f2d (ptr ft2) (mem (snd (read E (Some fmt) ap s)))
           = assign (Field2D E) 0
               (load_f2d (ptr ft2) (mem (snd (file_read_2d E
                  (if grow ft2 then read_rec_2d (format E) else read_2d (format E))
                  (grow ft2) (ptr ft2) (name ft2) sa2))))
       \<and> warning_f2d (name ft2) \<in> set (output_log (snd (read E (Some fmt) ap s))))
    \<and> (f3d_arr s = pre3 @ ft3 # post3 \<and> ptr ft3 \<notin> ptr ` set post3
       \<and> (\<forall>vt\<in>set (v3d_arr s). ptr ft3 \<notin> {Member_x (ptr vt), Member_y (ptr vt), Member_z (ptr vt)})
       \<and> sa3 = set_f3d (ptr ft3)
                  (allocate (Field3D E) (load_f3d (ptr ft3) (mem (fold (read_f3d_var E) pre3 s3))))
                  (fold (read_f3d_var E) pre3 s3)
       \<and> \<not> fst (file_read_3d E (if grow ft3 then read_rec_3d (format E) else read_3d (format E))
                  (grow ft3) (ptr ft3) (name ft3) sa3) \<longrightarrow>
         load_f3d (ptr ft3) (mem (snd (read E (Some fmt) ap s)))
           = assign (Field3D E) 0
               (load_f3d (ptr ft3) (mem (snd (file_read_3d E
                  (if grow ft3 then read_rec_3d (format E) else read_3d (format E))
                  (grow ft3) (ptr ft3) (name ft3) sa3))))
       \<and> warning_f3d (name ft3) \<in> set (output_log (snd (read E (Some fmt) ap s))))"
  proof (intro impI, elim conjE, intro conjI impI; elim conjE)
    assume a: "fst (openr (format E) (vsprintf E fmt ap) (the_file s))"
      "fst (is_valid (format E) (snd (openr (format E) (vsprintf E fmt ap) (the_file s))))"
      "s0 = file_setRecord E (- 1)
              (snd (file_is_valid E (snd (file_openr E (vsprintf E fmt ap) (snd (mpi_wtime E s))))))"
      "s1 = fold (read_int_var E) (int_arr s) s0"
      "s2 = fold (read_BoutReal_var E) (BoutReal_arr s) s1"
      "s3 = fold (read_f2d_var E) (f2d_arr s) s2"
    have s2: "s2 = fold (read_BoutReal_var E) (BoutReal_arr s) (fold (read_int_var E) (int_arr s) s0)"
      and s3: "s3 = fold (read_f2d_var E) (f2d_arr s)
               (fold (read_BoutReal_var E) (BoutReal_arr s) (fold (read_int_var E) (int_arr s) s0))"
      by (simp_all only: a(4-6))
    {
      assume "int_arr s = ipre @ it # ipost" "ptr it \<notin> ptr ` set ipost"
        "\<not> fst (file_read_int (if grow it then read_rec_int (format E) else read_int (format E))
                  (grow it) (ptr it) (name it) (fold (read_int_var E) ipre s0))"
      from read_int_fails_after [OF a(1-3) this]
      show "int_mem (mem (snd (read E (Some fmt) ap s))) (ptr it) = 0"
        and "warning_int (name it) \<in> set (output_log (snd (read E (Some fmt) ap s)))"
        by simp_all
    }
    {
      assume "BoutReal_arr s = rpre @ rt # rpost" "ptr rt \<notin> ptr ` set rpost"
        "\<not> fst (file_read_BoutReal (if grow rt then read_rec_BoutReal (format E) else read_BoutReal (format E))
                  (grow rt) (ptr rt) (name rt) (fold (read_BoutReal_var E) rpre s1))"
      from read_BoutReal_fails_after [OF a(1-4) this]
      show "BoutReal_mem (mem (snd (read E (Some fmt) ap s))) (ptr rt) = 0"
        and "warning_BoutReal (name rt) \<in> set (output_log (snd (read E (Some fmt) ap s)))"
        by simp_all
    }
    {
      assume "f2d_arr s = pre2 @ ft2 # post2" "ptr ft2 \<notin> ptr ` set post2"
        "\<forall>vt\<in>set (v2d_arr s). ptr ft2 \<notin> {Member_x (ptr vt), Member_y (ptr vt), Member_z (ptr vt)}"
        "sa2 = set_f2d (ptr ft2)
                  (allocate (Field2D E) (load_f2d (ptr ft2) (mem (fold (read_f2d_var E) pre2 s2))))
                  (fold (read_f2d_var E) pre2 s2)"
        "\<not> fst (file_read_2d E (if grow ft2 then read_rec_2d (format E) else read_2d (format E))
                  (grow ft2) (ptr ft2) (name ft2) sa2)"
      from read_f2d_fails_after [OF a(1-3) s2 this]
      show "load_f2d (ptr ft2) (mem (snd (read E (Some fmt) ap s)))
           = assign (Field2D E) 0
               (load_f2d (ptr ft2) (mem (snd (file_read_2d E
                  (if grow ft2 then read_rec_2d (format E) else read_2d (format E))
                  (grow ft2) (ptr ft2) (name ft2) sa2))))"
        and "warning_f2d (name ft2) \<in> set (output_log (snd (read E (Some fmt) ap s)))"
        by simp_all
    }
    {
      assume "f3d_arr s = pre3 @ ft3 # post3" "ptr ft3 \<notin> ptr ` set post3"
        "\<forall>vt\<in>set (v3d_arr s). ptr ft3 \<notin> {Member_x (ptr vt), Member_y (ptr vt), Member_z (ptr vt)}"
        "sa3 = set_f3d (ptr ft3)
                  (allocate (Field3D E) (load_f3d (ptr ft3) (mem (fold (read_f3d_var E) pre3 s3))))
                  (fold (read_f3d_var E) pre3 s3)"
        "\<not> fst (file_read_3d E (if grow ft3 then read_rec_3d (format E) else read_3d (format E))
                  (grow ft3) (ptr ft3) (name ft3) sa3)"
      from read_f3d_fails_after [OF a(1-3) s3 this]
      show "load_f3d (ptr ft3) (mem (snd (read E (Some fmt) ap s)))
           = assign (Field3D E) 0
               (load_f3d (ptr ft3) (mem (snd (file_read_3d E
                  (if grow ft3 then read_rec_3d (format E) else read_3d (format E))
                  (grow ft3) (ptr ft3) (name ft3) sa3))))"
        and "warning_f3d (name ft3) \<in> set (output_log (snd (read E (Some fmt) ap s)))"
        by simp_all
    }
  qed
qed

theorem read_failure_zero_and_continue_witness:
  "int_mem (mem Datafile1) 0 = 7
   \<and> int_mem (mem (snd (read env0 (Some ''BOUT.restart.0.nc'') [] Datafile1))) 0 = 0
   \<and> warning_int ''n'' \<in> set (output_log (snd (read env0 (Some ''BOUT.restart.0.nc'') [] Datafile1)))
   \<and> BoutReal_mem (mem (snd (read env0 (Some ''BOUT.restart.0.nc'') [] Datafile1))) 0 = 0
   \<and> warning_BoutReal ''dt'' \<in> set (output_log (snd (read env0 (Some ''BOUT.restart.0.nc'') [] Datafile1)))
   \<and> load_f2d (Whole 0) (mem (snd (read env0 (Some ''BOUT.restart.0.nc'') [] Datafile1))) = Some [0, 0, 0, 0]
   \<and> warning_f2d ''phi'' \<in> set (output_log (snd (read env0 (Some ''BOUT.restart.0.nc'') [] Datafile1)))
   \<and> load_f3d (Whole 0) (mem (snd (read env0 (Some ''BOUT.restart.0.nc'') [] Datafile1))) = Some [0, 0, 0, 0]
   \<and> warning_f3d ''rho'' \<in> set (output_log (snd (read env0 (Some ''BOUT.restart.0.nc'') [] Datafile1)))
   \<and> fst (read env0 (Some ''BOUT.restart.0.nc'') [] Datafile1) = 0
   \<and> length (calls (snd (read env0 (Some ''BOUT.restart.0.nc'') [] Datafile1))) = 24
   \<and> int_mem (mem (read_int_var env0 \<lparr>ptr = 0, name = ''n'', grow = False\<rparr> Datafile1)) 0 = 0
   \<and> output_log (read_int_var env0 \<lparr>ptr = 0, name = ''n'', grow = False\<rparr> Datafile1) = [warning_int ''n'']
   \<and> BoutReal_mem (mem (read_BoutReal_var env0 \<lparr>ptr = 0, name = ''dt'', grow = False\<rparr> Datafile1)) 0 = 0
   \<and> output_log (read_BoutReal_var env0 \<lparr>ptr = 0, name = ''dt'', grow = False\<rparr> Datafile1) = [warning_BoutReal ''dt'']
   \<and> load_f2d (Member_x 0) (mem (snd (read_f2d env0 ''Bx'' (Member_x 0) True Datafile1))) = Some [0, 0, 0, 0]
   \<and> output_log (snd (read_f2d env0 ''Bx'' (Member_x 0) True Datafile1)) = [warning_f2d ''Bx'']
   \<and> load_f3d (Whole 0) (mem (snd (read_f3d env0 ''rho'' (Whole 0) True Datafile1))) = Some [0, 0, 0, 0]
   \<and> output_log (snd (read_f3d env0 ''rho'' (Whole 0) True Datafile1)) = [warning_f3d ''rho'']"
proof -
  define s0 where "s0 = file_setRecord env0 (- 1)
     (snd (file_is_valid env0 (snd (file_openr env0 (vsprintf env0 ''BOUT.restart.0.nc'' []) (snd (mpi_wtime env0 Datafile1))))))"
  define s1 where "s1 = fold (read_int_var env0) (int_arr Datafile1) s0"
  define s2 where "s2 = fold (read_BoutReal_var env0) (BoutReal_arr Datafile1) s1"
  define s3 where "s3 = fold (read_f2d_var env0) (f2d_arr Datafile1) s2"
  define sa2 where "sa2 = set_f2d (ptr \<lparr>ptr = Whole 0, name = ''phi'', grow = False\<rparr>)
      (allocate (Field2D env0) (load_f2d (ptr \<lparr>ptr = Whole 0, name = ''phi'', grow = False\<rparr>)
         (mem (fold (read_f2d_var env0) [] s2))))
      (fold (read_f2d_var env0) [] s2)"
  define sa3 where "sa3 = set_f3d (ptr \<lparr>ptr = Whole 0, name = ''rho'', grow = True\<rparr>)
      (allocate (Field3D env0) (load_f3d (ptr \<lparr>ptr = Whole 0, name = ''rho'', grow = True\<rparr>)
         (mem (fold (read_f3d_var env0) [] s3))))
      (fold (read_f3d_var env0) [] s3)"
  have f0: "the_file s0 = ([], [])"
    by (simp add: s0_def file_setRecord_def file_is_valid_def file_openr_def mpi_wtime_def
        invoke_def env0_defs Datafile1_defs)
  have f1: "the_file s1 = ([], [])"
    by (simp add: s1_def Datafile1_def read_int_var_def file_read_int_def state_defs env0_defs f0)
  have f2: "the_file s2 = ([], [])"
    by (simp add: s2_def Datafile1_def read_BoutReal_var_def file_read_BoutReal_def state_defs
        env0_defs f1)
  have f3: "the_file s3 = ([], [])"
    by (simp add: s3_def Datafile1_def read_f2d_var_def read_f2d_def file_read_2d_def state_defs
        env0_defs f2 Let_def)
  have ok: "fst (openr (format env0) (vsprintf env0 ''BOUT.restart.0.nc'' []) (the_file Datafile1))"
    "fst (is_valid (format env0) (snd (openr (format env0) (vsprintf env0 ''BOUT.restart.0.nc'' []) (the_file Datafile1))))"
    by (simp_all add: env0_defs)
  have arrs: "int_arr Datafile1 = [] @ \<lparr>ptr = 0, name = ''n'', grow = False\<rparr> # [\<lparr>ptr = 1, name = ''t'', grow = True\<rparr>]"
    "BoutReal_arr Datafile1 = [] @ \<lparr>ptr = 0, name = ''dt'', grow = False\<rparr> # [\<lparr>ptr = 1, name = ''time'', grow = True\<rparr>]"
    "f2d_arr Datafile1 = [] @ \<lparr>ptr = Whole 0, name = ''phi'', grow = False\<rparr> # [\<lparr>ptr = Member_x 0, name = ''Bx'', grow = True\<rparr>]"
    "f3d_arr Datafile1 = [] @ \<lparr>ptr = Whole 0, name = ''rho'', grow = True\<rparr> # [\<lparr>ptr = Member_z 1, name = ''Bz'', grow = False\<rparr>]"
    by (simp_all add: Datafile1_def)
  have last: "ptr \<lparr>ptr = 0 :: addr, name = ''n'', grow = False\<rparr> \<notin> ptr ` set [\<lparr>ptr = 1, name = ''t'', grow = True\<rparr>]"
    "ptr \<lparr>ptr = 0 :: addr, name = ''dt'', grow = False\<rparr> \<notin> ptr ` set [\<lparr>ptr = 1, name = ''time'', grow = True\<rparr>]"
    "ptr \<lparr>ptr = Whole 0, name = ''phi'', grow = False\<rparr> \<notin> ptr ` set [\<lparr>ptr = Member_x 0, name = ''Bx'', grow = True\<rparr>]"
    "ptr \<lparr>ptr = Whole 0, name = ''rho'', grow = True\<rparr> \<notin> ptr ` set [\<lparr>ptr = Member_z 1, name = ''Bz'', grow = False\<rparr>]"
    "\<forall>vt\<in>set (v2d_arr Datafile1). ptr \<lparr>ptr = Whole 0, name = ''phi'', grow = False\<rparr>
        \<notin> {Member_x (ptr vt), Member_y (ptr vt), Member_z (ptr vt)}"
    "\<forall>vt\<in>set (v3d_arr Datafile1). ptr \<lparr>ptr = Whole 0, name = ''rho'', grow = True\<rparr>
        \<notin> {Member_x (ptr vt), Member_y (ptr vt), Member_z (ptr vt)}"
    by simp_all
  have g1: "\<not> fst (file_read_int (if grow \<lparr>ptr = 0, name = ''n'', grow = False\<rparr> then read_rec_int (format env0) else read_int (format env0))
             (grow \<lparr>ptr = 0, name = ''n'', grow = False\<rparr>) (ptr \<lparr>ptr = 0 :: addr, name = ''n'', grow = False\<rparr>)
             (name \<lparr>ptr = 0, name = ''n'', grow = False\<rparr>) (fold (read_int_var env0) [] s0))"
    by (simp add: file_read_int_def env0_defs f0)
  have g2: "\<not> fst (file_read_BoutReal (if grow \<lparr>ptr = 0, name = ''dt'', grow = False\<rparr> then read_rec_BoutReal (format env0) else read_BoutReal (format env0))
             (grow \<lparr>ptr = 0, name = ''dt'', grow = False\<rparr>) (ptr \<lparr>ptr = 0 :: addr, name = ''dt'', grow = False\<rparr>)
             (name \<lparr>ptr = 0, name = ''dt'', grow = False\<rparr>) (fold (read_BoutReal_var env0) [] s1))"
    by (simp add: file_read_BoutReal_def env0_defs f1)
  have g3: "\<not> fst (file_read_2d env0 (if grow \<lparr>ptr = Whole 0, name = ''phi'', grow = False\<rparr> then read_rec_2d (format env0) else read_2d (format env0))
             (grow \<lparr>ptr = Whole 0, name = ''phi'', grow = False\<rparr>) (ptr \<lparr>ptr = Whole 0, name = ''phi'', grow = False\<rparr>)
             (name \<lparr>ptr = Whole 0, name = ''phi'', grow = False\<rparr>) sa2)"
    by (simp add: file_read_2d_def env0_defs sa2_def set_f2d_def f2)
  have g4: "\<not> fst (file_read_3d env0 (if grow \<lparr>ptr = Whole 0, name = ''rho'', grow = True\<rparr> then read_rec_3d (format env0) else read_3d (format env0))
             (grow \<lparr>ptr = Whole 0, name = ''rho'', grow = True\<rparr>) (ptr \<lparr>ptr = Whole 0, name = ''rho'', grow = True\<rparr>)
             (name \<lparr>ptr = Whole 0, name = ''rho'', grow = True\<rparr>) sa3)"
    by (simp add: file_read_3d_def env0_defs sa3_def set_f3d_def f3)
  have h1: "\<not> fst (file_read_int (if grow \<lparr>ptr = 0, name = ''n'', grow = False\<rparr> then read_rec_int (format env0) else read_int (format env0))
             (grow \<lparr>ptr = 0, name = ''n'', grow = False\<rparr>) (ptr \<lparr>ptr = 0 :: addr, name = ''n'', grow = False\<rparr>)
             (name \<lparr>ptr = 0, name = ''n'', grow = False\<rparr>) Datafile1)"
    by (simp add: file_read_int_def env0_defs Datafile1_defs)
  have h2: "\<not> fst (file_read_BoutReal (if grow \<lparr>ptr = 0, name = ''dt'', grow = False\<rparr> then read_rec_BoutReal (format env0) else read_BoutReal (format env0))
             (grow \<lparr>ptr = 0, name = ''dt'', grow = False\<rparr>) (ptr \<lparr>ptr = 0 :: addr, name = ''dt'', grow = False\<rparr>)
             (name \<lparr>ptr = 0, name = ''dt'', grow = False\<rparr>) Datafile1)"
    by (simp add: file_read_BoutReal_def env0_defs Datafile1_defs)
  have h3: "\<not> fst (file_read_2d env0 (if True then read_rec_2d (format env0) else read_2d (format env0)) True (Member_x 0) ''Bx''
             (set_f2d (Member_x 0) (allocate (Field2D env0) (load_f2d (Member_x 0) (mem Datafile1))) Datafile1))"
    by (simp add: file_read_2d_def env0_defs Datafile1_defs state_defs)
  have h4: "\<not> fst (file_read_3d env0 (if True then read_rec_3d (format env0) else read_3d (format env0)) True (Whole 0) ''rho''
             (set_f3d (Whole 0) (allocate (Field3D env0) (load_f3d (Whole 0) (mem Datafile1))) Datafile1))"
    by (simp add: file_read_3d_def env0_defs Datafile1_defs state_defs)
  have a: "assign (Field2D env0) 0 fld = Some [0, 0, 0, 0]" "assign (Field3D env0) 0 fld = Some [0, 0, 0, 0]" for fld
    by (simp_all add: env0_defs)
  have n: "length (read_requests env0 Datafile1) = 20" "output_log Datafile1 = []" "calls Datafile1 = []"
    "int_mem (mem Datafile1) 0 = 7"
    by (simp_all add: read_requests_def Datafile1_defs)
  note T = read_failure_zero_and_continue [where E = env0 and s = Datafile1
        and fmt = "''BOUT.restart.0.nc''" and ap = "[]"
        and it = "\<lparr>ptr = 0, name = ''n'', grow = False\<rparr>"
        and rt = "\<lparr>ptr = 0, name = ''dt'', grow = False\<rparr>"
        and ?f2.0 = "Member_x 0" and ?nm2.0 = "''Bx''" and ?g2.0 = True
        and ?f3.0 = "Whole 0" and ?nm3.0 = "''rho''" and ?g3.0 = True
        and ?s0.0 = s0 and ?s1.0 = s1 and ?s2.0 = s2 and ?s3.0 = s3
        and ipre = "[]" and ipost = "[\<lparr>ptr = 1, name = ''t'', grow = True\<rparr>]"
        and rpre = "[]" and rpost = "[\<lparr>ptr = 1, name = ''time'', grow = True\<rparr>]"
        and ?pre2.0 = "[]" and ?ft2.0 = "\<lparr>ptr = Whole 0, name = ''phi'', grow = False\<rparr>"
        and ?post2.0 = "[\<lparr>ptr = Member_x 0, name = ''Bx'', grow = True\<rparr>]"
        and ?pre3.0 = "[]" and ?ft3.0 = "\<lparr>ptr = Whole 0, name = ''rho'', grow = True\<rparr>"
        and ?post3.0 = "[\<lparr>ptr = Member_z 1, name = ''Bz'', grow = False\<rparr>]"
        and ?sa2.0 = sa2 and ?sa3.0 = sa3]
  have run: "int_mem (mem (snd (read env0 (Some ''BOUT.restart.0.nc'') [] Datafile1))) 0 = 0"
    by (simp add: run_defs)
  from T ok s0_def s1_def s2_def s3_def sa2_def sa3_def arrs last g1 g2 g3 g4 h1 h2 h3 h4 run
  show ?thesis
    by (simp add: a n)
qed

subsection \<open>The basis flag, seen after \<^verbatim>\<open>read\<close>\<close>

lemma read_v2d_flag_after:
  assumes "fst (openr (format E) (vsprintf E fmt ap) (the_file s))"
    and "fst (is_valid (format E) (snd (openr (format E) (vsprintf E fmt ap) (the_file s))))"
    and "v2d_arr s = pre @ vt # post" and "ptr vt \<notin> ptr ` set post"
  shows "covariant (v2d_mem (mem (snd (read E (Some fmt) ap s))) (ptr vt)) = covar vt"
proof -
  define s0 where "s0 = file_setRecord E (- 1) (snd (file_is_valid E (snd (file_openr E (vsprintf E fmt ap) (snd (mpi_wtime E s))))))"
  define s4 where "s4 = fold (read_f3d_var E) (f3d_arr s) (fold (read_f2d_var E) (f2d_arr s)
               (fold (read_BoutReal_var E) (BoutReal_arr s) (fold (read_int_var E) (int_arr s) s0)))"
  define t where "t = read_v2d_var E vt (fold (read_v2d_var E) pre s4)"
  have t: "covariant (v2d_mem (mem t) (ptr vt)) = covar vt"
    by (simp add: t_def read_v2d_var_def Let_def set_covariant2D_def)
  have arrs: "int_arr s0 = int_arr s" "BoutReal_arr s0 = BoutReal_arr s" "f2d_arr s0 = f2d_arr s"
    "f3d_arr s0 = f3d_arr s" "v2d_arr s0 = pre @ vt # post" "v3d_arr s0 = v3d_arr s"
    using registry_eqD [OF read_opened(3) [OF assms(1,2) s0_def]] assms(3) by simp_all
  have v: "read_vars E s0 = fold (read_v3d_var E) (v3d_arr s) (fold (read_v2d_var E) post t)"
    by (simp add: read_vars_unfold arrs t_def s4_def)
  show ?thesis
    by (simp add: read_opened(1) [OF assms(1,2) s0_def] v read_loops_vector_mem
        read_v2d_loop_other [OF assms(4)] t)
qed

lemma read_v3d_flag_after:
  assumes "fst (openr (format E) (vsprintf E fmt ap) (the_file s))"
    and "fst (is_valid (format E) (snd (openr (format E) (vsprintf E fmt ap) (the_file s))))"
    and "v3d_arr s = pre @ vt # post" and "ptr vt \<notin> ptr ` set post"
  shows "covariant (v3d_mem (mem (snd (read E (Some fmt) ap s))) (ptr vt)) = covar vt"
proof -
  define s0 where "s0 = file_setRecord E (- 1) (snd (file_is_valid E (snd (file_openr E (vsprintf E fmt ap) (snd (mpi_wtime E s))))))"
  define s5 where "s5 = fold (read_v2d_var E) (v2d_arr s) (fold (read_f3d_var E) (f3d_arr s)
               (fold (read_f2d_var E) (f2d_arr s)
               (fold (read_BoutReal_var E) (BoutReal_arr s) (fold (read_int_var E) (int_arr s) s0))))"
  define t where "t = read_v3d_var E vt (fold (read_v3d_var E) pre s5)"
  have t: "covariant (v3d_mem (mem t) (ptr vt)) = covar vt"
    by (simp add: t_def read_v3d_var_def Let_def set_covariant3D_def)
  have arrs: "int_arr s0 = int_arr s" "BoutReal_arr s0 = BoutReal_arr s" "f2d_arr s0 = f2d_arr s"
    "f3d_arr s0 = f3d_arr s" "v2d_arr s0 = v2d_arr s" "v3d_arr s0 = pre @ vt # post"
    using registry_eqD [OF read_opened(3) [OF assms(1,2) s0_def]] assms(3) by simp_all
  have v: "read_vars E s0 = fold (read_v3d_var E) post t"
    by (simp add: read_vars_unfold arrs t_def s5_def)
  show ?thesis
    by (simp add: read_opened(1) [OF assms(1,2) s0_def] v read_v3d_loop_other [OF assms(4)] t)
qed

text \<open>
  C6. After the body of a vector loop of \<^verbatim>\<open>read\<close>, the flag \<^verbatim>\<open>covariant\<close> of the vector
  the binding points to is the \<^verbatim>\<open>covar\<close> of the binding, which \<^verbatim>\<open>add\<close> took from the
  flag the vector had then; and \<^verbatim>\<open>read\<close> converts nothing: it is the same function
  whatever \<^verbatim>\<open>toCovariant\<close> and \<^verbatim>\<open>toContravariant\<close> do. For \<^verbatim>\<open>read\<close> itself: when
  \<^verbatim>\<open>openr\<close> and \<^verbatim>\<open>is_valid\<close> return true, every vector binding of the registry that
  is the last to point to its vector finds, after \<^verbatim>\<open>read\<close>, the flag of that vector
  equal to its \<^verbatim>\<open>covar\<close>.
\<close>

theorem read_sets_basis_flag:
  "(covariant (v2d_mem (mem (read_v2d_var E it s)) (ptr it)) = covar it
   \<and> covariant (v3d_mem (mem (read_v3d_var E it s)) (ptr it)) = covar it
   \<and> read (E\<lparr>toCovariant2D := c2, toContravariant2D := d2, toCovariant3D := c3, toContravariant3D := d3\<rparr>) fmt ap s
       = read E fmt ap s
   \<and> (\<not> varAdded nm s \<longrightarrow>
        covar (last (v2d_arr (snd (add_Vector2D a nm g s)))) = covariant (v2d_mem (mem s) a)
      \<and> covar (last (v3d_arr (snd (add_Vector3D a nm g s)))) = covariant (v3d_mem (mem s) a)))
 \<and> (fst (openr (format E) (vsprintf E fm ap) (the_file s))
    \<and> fst (is_valid (format E) (snd (openr (format E) (vsprintf E fm ap) (the_file s)))) \<longrightarrow>
      (v2d_arr s = pre2 @ vt2 # post2 \<and> ptr vt2 \<notin> ptr ` set post2 \<longrightarrow>
         covariant (v2d_mem (mem (snd (read E (Some fm) ap s))) (ptr vt2)) = covar vt2)
    \<and> (v3d_arr s = pre3 @ vt3 # post3 \<and> ptr vt3 \<notin> ptr ` set post3 \<longrightarrow>
         covariant (v3d_mem (mem (snd (read E (Some fm) ap s))) (ptr vt3)) = covar vt3))"
proof (rule conjI)
  show "covariant (v2d_mem (mem (read_v2d_var E it s)) (ptr it)) = covar it
   \<and> covariant (v3d_mem (mem (read_v3d_var E it s)) (ptr it)) = covar it
   \<and> read (E\<lparr>toCovariant2D := c2, toContravariant2D := d2, toCovariant3D := c3, toContravariant3D := d3\<rparr>) fmt ap s
       = read E fmt ap s
   \<and> (\<not> varAdded nm s \<longrightarrow>
        covar (last (v2d_arr (snd (add_Vector2D a nm g s)))) = covariant (v2d_mem (mem s) a)
      \<and> covar (last (v3d_arr (snd (add_Vector3D a nm g s)))) = covariant (v3d_mem (mem s) a))"
    by (rule read_vector_bodies_flag)
next
  show "(fst (openr (format E) (vsprintf E fm ap) (the_file s))
    \<and> fst (is_valid (format E) (snd (openr (format E) (vsprintf E fm ap) (the_file s)))) \<longrightarrow>
      (v2d_arr s = pre2 @ vt2 # post2 \<and> ptr vt2 \<notin> ptr ` set post2 \<longrightarrow>
         covariant (v2d_mem (mem (snd (read E (Some fm) ap s))) (ptr vt2)) = covar vt2)
    \<and> (v3d_arr s = pre3 @ vt3 # post3 \<and> ptr vt3 \<notin> ptr ` set post3 \<longrightarrow>
         covariant (v3d_mem (mem (snd (read E (Some fm) ap s))) (ptr vt3)) = covar vt3))"
    by (intro conjI impI; (elim conjE)?)
      (erule (3) read_v2d_flag_after, erule (3) read_v3d_flag_after)
qed

theorem read_sets_basis_flag_witness:
  "covariant (v2d_mem (mem Datafile1) 1) = False
   \<and> covariant (v2d_mem (mem (snd (read env0 (Some ''BOUT.restart.0.nc'') [] Datafile1))) 1) = True
   \<and> covariant (v3d_mem (mem Datafile1) 1) = True
   \<and> covariant (v3d_mem (mem (snd (read env0 (Some ''BOUT.restart.0.nc'') [] Datafile1))) 1) = False
   \<and> \<not> varAdded ''w'' Datafile1
   \<and> covar (last (v2d_arr (snd (add_Vector2D 2 ''w'' 1 Datafile1)))) = False
   \<and> covar (last (v3d_arr (snd (add_Vector3D 2 ''w'' 1 Datafile1)))) = True"
proof -
  have new: "\<not> varAdded ''w'' Datafile1"
    by (simp add: varAdded_def Datafile1_def)
  have ok: "fst (openr (format env0) (vsprintf env0 ''BOUT.restart.0.nc'' []) (the_file Datafile1))"
    "fst (is_valid (format env0) (snd (openr (format env0) (vsprintf env0 ''BOUT.restart.0.nc'' []) (the_file Datafile1))))"
    by (simp_all add: env0_defs)
  have arrs: "v2d_arr Datafile1 = [\<lparr>ptr = 0, name = ''B'', grow = False, covar = False\<rparr>]
        @ \<lparr>ptr = 1, name = ''A'', grow = True, covar = True\<rparr> # []"
    "v3d_arr Datafile1 = [\<lparr>ptr = 0, name = ''v'', grow = True, covar = True\<rparr>]
        @ \<lparr>ptr = 1, name = ''u'', grow = False, covar = False\<rparr> # []"
    by (simp_all add: Datafile1_def)
  have last: "ptr \<lparr>ptr = 1 :: addr, name = ''A'', grow = True, covar = True\<rparr> \<notin> ptr ` set ([] :: addr VecVarStr list)"
    "ptr \<lparr>ptr = 1 :: addr, name = ''u'', grow = False, covar = False\<rparr> \<notin> ptr ` set ([] :: addr VecVarStr list)"
    by simp_all
  have e: "covariant (v2d_mem (mem Datafile1) a) = False" "covariant (v3d_mem (mem Datafile1) a) = True" for a
    by (simp_all add: Datafile1_defs)
  note T = read_sets_basis_flag [where E = env0 and s = Datafile1 and nm = "''w''" and a = 2 and g = 1
      and fm = "''BOUT.restart.0.nc''" and ap = "[]"
      and ?pre2.0 = "[\<lparr>ptr = 0, name = ''B'', grow = False, covar = False\<rparr>]"
      and ?vt2.0 = "\<lparr>ptr = 1, name = ''A'', grow = True, covar = True\<rparr>" and ?post2.0 = "[]"
      and ?pre3.0 = "[\<lparr>ptr = 0, name = ''v'', grow = True, covar = True\<rparr>]"
      and ?vt3.0 = "\<lparr>ptr = 1, name = ''u'', grow = False, covar = False\<rparr>" and ?post3.0 = "[]"]
  have run: "covariant (v2d_mem (mem (snd (read env0 (Some ''BOUT.restart.0.nc'') [] Datafile1))) 1) = True"
    by (simp add: run_defs)
  from T new ok arrs last run show ?thesis
    by (simp add: e)
qed

subsection \<open>The requests of one vector among those of a registry\<close>

lemma in_concat_map:
  assumes "x \<in> set xs"
  shows "\<exists>p q. concat (map F xs) = p @ F x @ q"
proof -
  from assms obtain ys zs where "xs = ys @ x # zs"
    by (auto dest: split_list)
  then have "concat (map F xs) = concat (map F ys) @ F x @ concat (map F zs)"
    by simp
  then show ?thesis by blast
qed

lemma mid_of_5: "ys = p @ x @ q \<Longrightarrow> \<exists>pre post. a1 @ a2 @ a3 @ a4 @ ys @ r = pre @ x @ post"
  by (rule exI [of _ "a1 @ a2 @ a3 @ a4 @ p"], rule exI [of _ "q @ r"]) simp

lemma mid_of_6: "ys = p @ x @ q \<Longrightarrow> \<exists>pre post. a1 @ a2 @ a3 @ a4 @ a5 @ ys = pre @ x @ post"
  by (rule exI [of _ "a1 @ a2 @ a3 @ a4 @ a5 @ p"], rule exI [of _ q]) simp

lemma mid_of_calls: "ys = pre @ x @ post \<Longrightarrow> \<exists>pre' post'. a @ b @ ys @ c = pre' @ x @ post'"
  by (rule exI [of _ "a @ b @ pre"], rule exI [of _ "post @ c"]) simp

lemma read_requests_v2d:
  assumes "vt \<in> set (v2d_arr s)"
  shows "\<exists>pre post. read_requests E s
           = pre @ map (\<lambda>c. Read_2d (grow vt) (name vt @ c) (ngx E) (ngy E))
                     (if covar vt then [''_x'', ''_y'', ''_z''] else [''x'', ''y'', ''z'']) @ post"
proof -
  from in_concat_map [OF assms] obtain p q where
    "concat (map (\<lambda>it. map (\<lambda>c. Read_2d (grow it) (name it @ c) (ngx E) (ngy E))
                          (if covar it then [''_x'', ''_y'', ''_z''] else [''x'', ''y'', ''z'']))
                 (v2d_arr s))
       = p @ map (\<lambda>c. Read_2d (grow vt) (name vt @ c) (ngx E) (ngy E))
                     (if covar vt then [''_x'', ''_y'', ''_z''] else [''x'', ''y'', ''z'']) @ q"
    by blast
  then show ?thesis
    unfolding read_requests_def by (rule mid_of_5)
qed

lemma read_requests_v3d:
  assumes "vt \<in> set (v3d_arr s)"
  shows "\<exists>pre post. read_requests E s
           = pre @ map (\<lambda>c. Read_3d (grow vt) (name vt @ c) (ngx E) (ngy E) (ngz E))
                     (if covar vt then [''_x'', ''_y'', ''_z''] else [''x'', ''y'', ''z'']) @ post"
proof -
  from in_concat_map [OF assms] obtain p q where
    "concat (map (\<lambda>it. map (\<lambda>c. Read_3d (grow it) (name it @ c) (ngx E) (ngy E) (ngz E))
                          (if covar it then [''_x'', ''_y'', ''_z''] else [''x'', ''y'', ''z'']))
                 (v3d_arr s))
       = p @ map (\<lambda>c. Read_3d (grow vt) (name vt @ c) (ngx E) (ngy E) (ngz E))
                     (if covar vt then [''_x'', ''_y'', ''_z''] else [''x'', ''y'', ''z'']) @ q"
    by blast
  then show ?thesis
    unfolding read_requests_def by (rule mid_of_6)
qed

lemma write_requests_v2d:
  assumes "vt \<in> set (v2d_arr s)"
  shows "\<exists>pre post. write_requests E s
           = pre @ (if covar vt
                    then (let v = toCovariant2D E (v2d_mem (mem s) (ptr vt))
                          in requests_2d E (grow vt)
                               [(name vt @ ''_x'', vec_x v), (name vt @ ''_y'', vec_y v), (name vt @ ''_z'', vec_z v)])
                    else (let v = toContravariant2D E (v2d_mem (mem s) (ptr vt))
                          in requests_2d E (grow vt)
                               [(name vt @ ''x'', vec_x v), (name vt @ ''y'', vec_y v), (name vt @ ''z'', vec_z v)]))
               @ post"
proof -
  from in_concat_map [OF assms] obtain p q where
    "concat (map (\<lambda>it.
        if covar it
        then (let v = toCovariant2D E (v2d_mem (mem s) (ptr it))
              in requests_2d E (grow it)
                   [(name it @ ''_x'', vec_x v), (name it @ ''_y'', vec_y v), (name it @ ''_z'', vec_z v)])
        else (let v = toContravariant2D E (v2d_mem (mem s) (ptr it))
              in requests_2d E (grow it)
                   [(name it @ ''x'', vec_x v), (name it @ ''y'', vec_y v), (name it @ ''z'', vec_z v)]))
      (v2d_arr s))
       = p @ (if covar vt
                    then (let v = toCovariant2D E (v2d_mem (mem s) (ptr vt))
                          in requests_2d E (grow vt)
                               [(name vt @ ''_x'', vec_x v), (name vt @ ''_y'', vec_y v), (name vt @ ''_z'', vec_z v)])
                    else (let v = toContravariant2D E (v2d_mem (mem s) (ptr vt))
                          in requests_2d E (grow vt)
                               [(name vt @ ''x'', vec_x v), (name vt @ ''y'', vec_y v), (name vt @ ''z'', vec_z v)])) @ q"
    by blast
  then show ?thesis
    unfolding write_requests_def by (rule mid_of_5)
qed

lemma write_requests_v3d:
  assumes "vt \<in> set (v3d_arr s)"
  shows "\<exists>pre post. write_requests E s
           = pre @ (if covar vt
                    then (let v = toCovariant3D E (v3d_mem (mem s) (ptr vt))
                          in requests_3d E (grow vt)
                               [(name vt @ ''_x'', vec_x v), (name vt @ ''_y'', vec_y v), (name vt @ ''_z'', vec_z v)])
                    else (let v = toContravariant3D E (v3d_mem (mem s) (ptr vt))
                          in requests_3d E (grow vt)
                               [(name vt @ ''x'', vec_x v), (name vt @ ''y'', vec_y v), (name vt @ ''z'', vec_z v)]))
               @ post"
proof -
  from in_concat_map [OF assms] obtain p q where
    "concat (map (\<lambda>it.
        if covar it
        then (let v = toCovariant3D E (v3d_mem (mem s) (ptr it))
              in requests_3d E (grow it)
                   [(name it @ ''_x'', vec_x v), (name it @ ''_y'', vec_y v), (name it @ ''_z'', vec_z v)])
        else (let v = toContravariant3D E (v3d_mem (mem s) (ptr it))
              in requests_3d E (grow it)
                   [(name it @ ''x'', vec_x v), (name it @ ''y'', vec_y v), (name it @ ''z'', vec_z v)]))
      (v3d_arr s))
       = p @ (if covar vt
                    then (let v = toCovariant3D E (v3d_mem (mem s) (ptr vt))
                          in requests_3d E (grow vt)
                               [(name vt @ ''_x'', vec_x v), (name vt @ ''_y'', vec_y v), (name vt @ ''_z'', vec_z v)])
                    else (let v = toContravariant3D E (v3d_mem (mem s) (ptr vt))
                          in requests_3d E (grow vt)
                               [(name vt @ ''x'', vec_x v), (name vt @ ''y'', vec_y v), (name vt @ ''z'', vec_z v)])) @ q"
    by blast
  then show ?thesis
    unfolding write_requests_def by (rule mid_of_6)
qed

lemma read_calls_v2d:
  assumes "fst (openr (format E) (vsprintf E fmt ap) (the_file s))"
    and "fst (is_valid (format E) (snd (openr (format E) (vsprintf E fmt ap) (the_file s))))"
    and "vt \<in> set (v2d_arr s)"
  shows "\<exists>pre post. calls (snd (read E (Some fmt) ap s))
           = pre @ (if covar vt
                    then [Read_2d (grow vt) (name vt @ ''_x'') (ngx E) (ngy E),
                          Read_2d (grow vt) (name vt @ ''_y'') (ngx E) (ngy E),
                          Read_2d (grow vt) (name vt @ ''_z'') (ngx E) (ngy E)]
                    else [Read_2d (grow vt) (name vt @ ''x'') (ngx E) (ngy E),
                          Read_2d (grow vt) (name vt @ ''y'') (ngx E) (ngy E),
                          Read_2d (grow vt) (name vt @ ''z'') (ngx E) (ngy E)]) @ post"
proof -
  from read_requests_v2d [OF assms(3), of E] obtain pre post where
    "read_requests E s
       = pre @ (if covar vt
                    then [Read_2d (grow vt) (name vt @ ''_x'') (ngx E) (ngy E),
                          Read_2d (grow vt) (name vt @ ''_y'') (ngx E) (ngy E),
                          Read_2d (grow vt) (name vt @ ''_z'') (ngx E) (ngy E)]
                    else [Read_2d (grow vt) (name vt @ ''x'') (ngx E) (ngy E),
                          Read_2d (grow vt) (name vt @ ''y'') (ngx E) (ngy E),
                          Read_2d (grow vt) (name vt @ ''z'') (ngx E) (ngy E)]) @ post"
    by (auto split: if_splits)
  then show ?thesis
    unfolding read_status_and_calls(2) [OF assms(1,2)] by (rule mid_of_calls)
qed

lemma read_calls_v3d:
  assumes "fst (openr (format E) (vsprintf E fmt ap) (the_file s))"
    and "fst (is_valid (format E) (snd (openr (format E) (vsprintf E fmt ap) (the_file s))))"
    and "vt \<in> set (v3d_arr s)"
  shows "\<exists>pre post. calls (snd (read E (Some fmt) ap s))
           = pre @ (if covar vt
                    then [Read_3d (grow vt) (name vt @ ''_x'') (ngx E) (ngy E) (ngz E),
                          Read_3d (grow vt) (name vt @ ''_y'') (ngx E) (ngy E) (ngz E),
                          Read_3d (grow vt) (name vt @ ''_z'') (ngx E) (ngy E) (ngz E)]
                    else [Read_3d (grow vt) (name vt @ ''x'') (ngx E) (ngy E) (ngz E),
                          Read_3d (grow vt) (name vt @ ''y'') (ngx E) (ngy E) (ngz E),
                          Read_3d (grow vt) (name vt @ ''z'') (ngx E) (ngy E) (ngz E)]) @ post"
proof -
  from read_requests_v3d [OF assms(3), of E] obtain pre post where
    "read_requests E s
       = pre @ (if covar vt
                    then [Read_3d (grow vt) (name vt @ ''_x'') (ngx E) (ngy E) (ngz E),
                          Read_3d (grow vt) (name vt @ ''_y'') (ngx E) (ngy E) (ngz E),
                          Read_3d (grow vt) (name vt @ ''_z'') (ngx E) (ngy E) (ngz E)]
                    else [Read_3d (grow vt) (name vt @ ''x'') (ngx E) (ngy E) (ngz E),
                          Read_3d (grow vt) (name vt @ ''y'') (ngx E) (ngy E) (ngz E),
                          Read_3d (grow vt) (name vt @ ''z'') (ngx E) (ngy E) (ngz E)]) @ post"
    by (auto split: if_splits)
  then show ?thesis
    unfolding read_status_and_calls(2) [OF assms(1,2)] by (rule mid_of_calls)
qed

lemma write_calls_v2d:
  assumes "enabled s"
    and "fst (openw (format E) fn app (the_file s))"
    and "fst (is_valid (format E) (snd (openw (format E) fn app (the_file s))))"
    and "vt \<in> set (v2d_arr s)"
    and "w = (if covar vt then toCovariant2D E (v2d_mem (mem s) (ptr vt))
              else toContravariant2D E (v2d_mem (mem s) (ptr vt)))"
  shows "\<exists>pre post. calls (snd (write_filename E fn app s))
           = pre @ (if covar vt
                    then (if isAllocated (Field2D E) (vec_x w)
                          then [Write_2d (grow vt) (name vt @ ''_x'') (ngx E) (ngy E) (getData (Field2D E) (vec_x w))] else [])
                       @ (if isAllocated (Field2D E) (vec_y w)
                          then [Write_2d (grow vt) (name vt @ ''_y'') (ngx E) (ngy E) (getData (Field2D E) (vec_y w))] else [])
                       @ (if isAllocated (Field2D E) (vec_z w)
                          then [Write_2d (grow vt) (name vt @ ''_z'') (ngx E) (ngy E) (getData (Field2D E) (vec_z w))] else [])
                    else (if isAllocated (Field2D E) (vec_x w)
                          then [Write_2d (grow vt) (name vt @ ''x'') (ngx E) (ngy E) (getData (Field2D E) (vec_x w))] else [])
                       @ (if isAllocated (Field2D E) (vec_y w)
                          then [Write_2d (grow vt) (name vt @ ''y'') (ngx E) (ngy E) (getData (Field2D E) (vec_y w))] else [])
                       @ (if isAllocated (Field2D E) (vec_z w)
                          then [Write_2d (grow vt) (name vt @ ''z'') (ngx E) (ngy E) (getData (Field2D E) (vec_z w))] else []))
               @ post"
proof -
  have x: "(if covar vt
                    then (let v = toCovariant2D E (v2d_mem (mem s) (ptr vt))
                          in requests_2d E (grow vt)
                               [(name vt @ ''_x'', vec_x v), (name vt @ ''_y'', vec_y v), (name vt @ ''_z'', vec_z v)])
                    else (let v = toContravariant2D E (v2d_mem (mem s) (ptr vt))
                          in requests_2d E (grow vt)
                               [(name vt @ ''x'', vec_x v), (name vt @ ''y'', vec_y v), (name vt @ ''z'', vec_z v)]))
      = (if covar vt
                    then (if isAllocated (Field2D E) (vec_x w)
                          then [Write_2d (grow vt) (name vt @ ''_x'') (ngx E) (ngy E) (getData (Field2D E) (vec_x w))] else [])
                       @ (if isAllocated (Field2D E) (vec_y w)
                          then [Write_2d (grow vt) (name vt @ ''_y'') (ngx E) (ngy E) (getData (Field2D E) (vec_y w))] else [])
                       @ (if isAllocated (Field2D E) (vec_z w)
                          then [Write_2d (grow vt) (name vt @ ''_z'') (ngx E) (ngy E) (getData (Field2D E) (vec_z w))] else [])
                    else (if isAllocated (Field2D E) (vec_x w)
                          then [Write_2d (grow vt) (name vt @ ''x'') (ngx E) (ngy E) (getData (Field2D E) (vec_x w))] else [])
                       @ (if isAllocated (Field2D E) (vec_y w)
                          then [Write_2d (grow vt) (name vt @ ''y'') (ngx E) (ngy E) (getData (Field2D E) (vec_y w))] else [])
                       @ (if isAllocated (Field2D E) (vec_z w)
                          then [Write_2d (grow vt) (name vt @ ''z'') (ngx E) (ngy E) (getData (Field2D E) (vec_z w))] else []))"
    unfolding assms(5) by (cases "covar vt") (simp_all add: requests_2d_def Let_def)
  from write_requests_v2d [OF assms(4), of E, unfolded x] obtain pre post where
    "write_requests E s = pre @ (if covar vt
                    then (if isAllocated (Field2D E) (vec_x w)
                          then [Write_2d (grow vt) (name vt @ ''_x'') (ngx E) (ngy E) (getData (Field2D E) (vec_x w))] else [])
                       @ (if isAllocated (Field2D E) (vec_y w)
                          then [Write_2d (grow vt) (name vt @ ''_y'') (ngx E) (ngy E) (getData (Field2D E) (vec_y w))] else [])
                       @ (if isAllocated (Field2D E) (vec_z w)
                          then [Write_2d (grow vt) (name vt @ ''_z'') (ngx E) (ngy E) (getData (Field2D E) (vec_z w))] else [])
                    else (if isAllocated (Field2D E) (vec_x w)
                          then [Write_2d (grow vt) (name vt @ ''x'') (ngx E) (ngy E) (getData (Field2D E) (vec_x w))] else [])
                       @ (if isAllocated (Field2D E) (vec_y w)
                          then [Write_2d (grow vt) (name vt @ ''y'') (ngx E) (ngy E) (getData (Field2D E) (vec_y w))] else [])
                       @ (if isAllocated (Field2D E) (vec_z w)
                          then [Write_2d (grow vt) (name vt @ ''z'') (ngx E) (ngy E) (getData (Field2D E) (vec_z w))] else [])) @ post"
    by blast
  then show ?thesis
    unfolding write_filename_calls [OF assms(1-3)] by (rule mid_of_calls)
qed

lemma write_calls_v3d:
  assumes "enabled s"
    and "fst (openw (format E) fn app (the_file s))"
    and "fst (is_valid (format E) (snd (openw (format E) fn app (the_file s))))"
    and "vt \<in> set (v3d_arr s)"
    and "w = (if covar vt then toCovariant3D E (v3d_mem (mem s) (ptr vt))
              else toContravariant3D E (v3d_mem (mem s) (ptr vt)))"
  shows "\<exists>pre post. calls (snd (write_filename E fn app s))
           = pre @ (if covar vt
                    then (if isAllocated (Field3D E) (vec_x w)
                          then [Write_3d (grow vt) (name vt @ ''_x'') (ngx E) (ngy E) (ngz E) (getData (Field3D E) (vec_x w))] else [])
                       @ (if isAllocated (Field3D E) (vec_y w)
                          then [Write_3d (grow vt) (name vt @ ''_y'') (ngx E) (ngy E) (ngz E) (getData (Field3D E) (vec_y w))] else [])
                       @ (if isAllocated (Field3D E) (vec_z w)
                          then [Write_3d (grow vt) (name vt @ ''_z'') (ngx E) (ngy E) (ngz E) (getData (Field3D E) (vec_z w))] else [])
                    else (if isAllocated (Field3D E) (vec_x w)
                          then [Write_3d (grow vt) (name vt @ ''x'') (ngx E) (ngy E) (ngz E) (getData (Field3D E) (vec_x w))] else [])
                       @ (if isAllocated (Field3D E) (vec_y w)
                          then [Write_3d (grow vt) (name vt @ ''y'') (ngx E) (ngy E) (ngz E) (getData (Field3D E) (vec_y w))] else [])
                       @ (if isAllocated (Field3D E) (vec_z w)
                          then [Write_3d (grow vt) (name vt @ ''z'') (ngx E) (ngy E) (ngz E) (getData (Field3D E) (vec_z w))] else []))
               @ post"
proof -
  have x: "(if covar vt
                    then (let v = toCovariant3D E (v3d_mem (mem s) (ptr vt))
                          in requests_3d E (grow vt)
                               [(name vt @ ''_x'', vec_x v), (name vt @ ''_y'', vec_y v), (name vt @ ''_z'', vec_z v)])
                    else (let v = toContravariant3D E (v3d_mem (mem s) (ptr vt))
                          in requests_3d E (grow vt)
                               [(name vt @ ''x'', vec_x v), (name vt @ ''y'', vec_y v), (name vt @ ''z'', vec_z v)]))
      = (if covar vt
                    then (if isAllocated (Field3D E) (vec_x w)
                          then [Write_3d (grow vt) (name vt @ ''_x'') (ngx E) (ngy E) (ngz E) (getData (Field3D E) (vec_x w))] else [])
                       @ (if isAllocated (Field3D E) (vec_y w)
                          then [Write_3d (grow vt) (name vt @ ''_y'') (ngx E) (ngy E) (ngz E) (getData (Field3D E) (vec_y w))] else [])
                       @ (if isAllocated (Field3D E) (vec_z w)
                          then [Write_3d (grow vt) (name vt @ ''_z'') (ngx E) (ngy E) (ngz E) (getData (Field3D E) (vec_z w))] else [])
                    else (if isAllocated (Field3D E) (vec_x w)
                          then [Write_3d (grow vt) (name vt @ ''x'') (ngx E) (ngy E) (ngz E) (getData (Field3D E) (vec_x w))] else [])
                       @ (if isAllocated (Field3D E) (vec_y w)
                          then [Write_3d (grow vt) (name vt @ ''y'') (ngx E) (ngy E) (ngz E) (getData (Field3D E) (vec_y w))] else [])
                       @ (if isAllocated (Field3D E) (vec_z w)
                          then [Write_3d (grow vt) (name vt @ ''z'') (ngx E) (ngy E) (ngz E) (getData (Field3D E) (vec_z w))] else []))"
    unfolding assms(5) by (cases "covar vt") (simp_all add: requests_3d_def Let_def)
  from write_requests_v3d [OF assms(4), of E, unfolded x] obtain pre post where
    "write_requests E s = pre @ (if covar vt
                    then (if isAllocated (Field3D E) (vec_x w)
                          then [Write_3d (grow vt) (name vt @ ''_x'') (ngx E) (ngy E) (ngz E) (getData (Field3D E) (vec_x w))] else [])
                       @ (if isAllocated (Field3D E) (vec_y w)
                          then [Write_3d (grow vt) (name vt @ ''_y'') (ngx E) (ngy E) (ngz E) (getData (Field3D E) (vec_y w))] else [])
                       @ (if isAllocated (Field3D E) (vec_z w)
                          then [Write_3d (grow vt) (name vt @ ''_z'') (ngx E) (ngy E) (ngz E) (getData (Field3D E) (vec_z w))] else [])
                    else (if isAllocated (Field3D E) (vec_x w)
                          then [Write_3d (grow vt) (name vt @ ''x'') (ngx E) (ngy E) (ngz E) (getData (Field3D E) (vec_x w))] else [])
                       @ (if isAllocated (Field3D E) (vec_y w)
                          then [Write_3d (grow vt) (name vt @ ''y'') (ngx E) (ngy E) (ngz E) (getData (Field3D E) (vec_y w))] else [])
                       @ (if isAllocated (Field3D E) (vec_z w)
                          then [Write_3d (grow vt) (name vt @ ''z'') (ngx E) (ngy E) (ngz E) (getData (Field3D E) (vec_z w))] else [])) @ post"
    by blast
  then show ?thesis
    unfolding write_filename_calls [OF assms(1-3)] by (rule mid_of_calls)
qed

lemma write_names_v2d:
  assumes "enabled s"
    and "fst (openw (format E) fn app (the_file s))"
    and "fst (is_valid (format E) (snd (openw (format E) fn app (the_file s))))"
    and "vt \<in> set (v2d_arr s)"
    and "w = (if covar vt then toCovariant2D E (v2d_mem (mem s) (ptr vt))
              else toContravariant2D E (v2d_mem (mem s) (ptr vt)))"
  shows "\<exists>pre ws post. calls (snd (write_filename E fn app s)) = pre @ ws @ post
           \<and> map call_name ws
               = (if covar vt
                  then (if isAllocated (Field2D E) (vec_x w) then [Some (name vt @ ''_x'')] else [])
                     @ (if isAllocated (Field2D E) (vec_y w) then [Some (name vt @ ''_y'')] else [])
                     @ (if isAllocated (Field2D E) (vec_z w) then [Some (name vt @ ''_z'')] else [])
                  else (if isAllocated (Field2D E) (vec_x w) then [Some (name vt @ ''x'')] else [])
                     @ (if isAllocated (Field2D E) (vec_y w) then [Some (name vt @ ''y'')] else [])
                     @ (if isAllocated (Field2D E) (vec_z w) then [Some (name vt @ ''z'')] else []))"
proof -
  from write_calls_v2d [OF assms] obtain pre post where
    c: "calls (snd (write_filename E fn app s))
           = pre @ (if covar vt
                    then (if isAllocated (Field2D E) (vec_x w)
                          then [Write_2d (grow vt) (name vt @ ''_x'') (ngx E) (ngy E) (getData (Field2D E) (vec_x w))] else [])
                       @ (if isAllocated (Field2D E) (vec_y w)
                          then [Write_2d (grow vt) (name vt @ ''_y'') (ngx E) (ngy E) (getData (Field2D E) (vec_y w))] else [])
                       @ (if isAllocated (Field2D E) (vec_z w)
                          then [Write_2d (grow vt) (name vt @ ''_z'') (ngx E) (ngy E) (getData (Field2D E) (vec_z w))] else [])
                    else (if isAllocated (Field2D E) (vec_x w)
                          then [Write_2d (grow vt) (name vt @ ''x'') (ngx E) (ngy E) (getData (Field2D E) (vec_x w))] else [])
                       @ (if isAllocated (Field2D E) (vec_y w)
                          then [Write_2d (grow vt) (name vt @ ''y'') (ngx E) (ngy E) (getData (Field2D E) (vec_y w))] else [])
                       @ (if isAllocated (Field2D E) (vec_z w)
                          then [Write_2d (grow vt) (name vt @ ''z'') (ngx E) (ngy E) (getData (Field2D E) (vec_z w))] else []))
               @ post"
    by blast
  show ?thesis
    by (rule exI [of _ pre], rule exI, rule exI [of _ post], rule conjI, rule c) simp
qed

lemma write_names_v3d:
  assumes "enabled s"
    and "fst (openw (format E) fn app (the_file s))"
    and "fst (is_valid (format E) (snd (openw (format E) fn app (the_file s))))"
    and "vt \<in> set (v3d_arr s)"
    and "w = (if covar vt then toCovariant3D E (v3d_mem (mem s) (ptr vt))
              else toContravariant3D E (v3d_mem (mem s) (ptr vt)))"
  shows "\<exists>pre ws post. calls (snd (write_filename E fn app s)) = pre @ ws @ post
           \<and> map call_name ws
               = (if covar vt
                  then (if isAllocated (Field3D E) (vec_x w) then [Some (name vt @ ''_x'')] else [])
                     @ (if isAllocated (Field3D E) (vec_y w) then [Some (name vt @ ''_y'')] else [])
                     @ (if isAllocated (Field3D E) (vec_z w) then [Some (name vt @ ''_z'')] else [])
                  else (if isAllocated (Field3D E) (vec_x w) then [Some (name vt @ ''x'')] else [])
                     @ (if isAllocated (Field3D E) (vec_y w) then [Some (name vt @ ''y'')] else [])
                     @ (if isAllocated (Field3D E) (vec_z w) then [Some (name vt @ ''z'')] else []))"
proof -
  from write_calls_v3d [OF assms] obtain pre post where
    c: "calls (snd (write_filename E fn app s))
           = pre @ (if covar vt
                    then (if isAllocated (Field3D E) (vec_x w)
                          then [Write_3d (grow vt) (name vt @ ''_x'') (ngx E) (ngy E) (ngz E) (getData (Field3D E) (vec_x w))] else [])
                       @ (if isAllocated (Field3D E) (vec_y w)
                          then [Write_3d (grow vt) (name vt @ ''_y'') (ngx E) (ngy E) (ngz E) (getData (Field3D E) (vec_y w))] else [])
                       @ (if isAllocated (Field3D E) (vec_z w)
                          then [Write_3d (grow vt) (name vt @ ''_z'') (ngx E) (ngy E) (ngz E) (getData (Field3D E) (vec_z w))] else [])
                    else (if isAllocated (Field3D E) (vec_x w)
                          then [Write_3d (grow vt) (name vt @ ''x'') (ngx E) (ngy E) (ngz E) (getData (Field3D E) (vec_x w))] else [])
                       @ (if isAllocated (Field3D E) (vec_y w)
                          then [Write_3d (grow vt) (name vt @ ''y'') (ngx E) (ngy E) (ngz E) (getData (Field3D E) (vec_y w))] else [])
                       @ (if isAllocated (Field3D E) (vec_z w)
                          then [Write_3d (grow vt) (name vt @ ''z'') (ngx E) (ngy E) (ngz E) (getData (Field3D E) (vec_z w))] else []))
               @ post"
    by blast
  show ?thesis
    by (rule exI [of _ pre], rule exI, rule exI [of _ post], rule conjI, rule c) simp
qed

text \<open>
  C4. For a vector binding whose \<^verbatim>\<open>covar\<close> is true the loop bodies ask for, and write
  under, the names \<^verbatim>\<open>name_x\<close>, \<^verbatim>\<open>name_y\<close>, \<^verbatim>\<open>name_z\<close>; with \<^verbatim>\<open>covar\<close> false the
  names are \<^verbatim>\<open>namex\<close>, \<^verbatim>\<open>namey\<close>, \<^verbatim>\<open>namez\<close>. For the drivers: the calls of a
  \<^verbatim>\<open>read\<close> that has opened a valid file contain, for every vector binding of the
  registry, the three reads of these names, one after the other; the calls of a
  \<^verbatim>\<open>write\<close> that is enabled and has opened a valid file contain, one after the other,
  writes under these names, one for each allocated member of the converted copy.
\<close>

theorem vector_component_names:
  "((covar it \<and> v2 = toCovariant2D E (v2d_mem (mem s) (ptr it))
             \<and> v3 = toCovariant3D E (v3d_mem (mem s) (ptr it)) \<longrightarrow>
      calls (read_v2d_var E it s)
        = calls s @ [Read_2d (grow it) (name it @ ''_x'') (ngx E) (ngy E),
                     Read_2d (grow it) (name it @ ''_y'') (ngx E) (ngy E),
                     Read_2d (grow it) (name it @ ''_z'') (ngx E) (ngy E)]
    \<and> calls (read_v3d_var E it s)
        = calls s @ [Read_3d (grow it) (name it @ ''_x'') (ngx E) (ngy E) (ngz E),
                     Read_3d (grow it) (name it @ ''_y'') (ngx E) (ngy E) (ngz E),
                     Read_3d (grow it) (name it @ ''_z'') (ngx E) (ngy E) (ngz E)]
    \<and> (\<exists>ws. calls (write_v2d_var E it s) = calls s @ ws
           \<and> map call_name ws
               = (if isAllocated (Field2D E) (vec_x v2) then [Some (name it @ ''_x'')] else [])
               @ (if isAllocated (Field2D E) (vec_y v2) then [Some (name it @ ''_y'')] else [])
               @ (if isAllocated (Field2D E) (vec_z v2) then [Some (name it @ ''_z'')] else []))
    \<and> (\<exists>ws. calls (write_v3d_var E it s) = calls s @ ws
           \<and> map call_name ws
               = (if isAllocated (Field3D E) (vec_x v3) then [Some (name it @ ''_x'')] else [])
               @ (if isAllocated (Field3D E) (vec_y v3) then [Some (name it @ ''_y'')] else [])
               @ (if isAllocated (Field3D E) (vec_z v3) then [Some (name it @ ''_z'')] else [])))
 \<and> (\<not> covar it \<and> v2 = toContravariant2D E (v2d_mem (mem s) (ptr it))
               \<and> v3 = toContravariant3D E (v3d_mem (mem s) (ptr it)) \<longrightarrow>
      calls (read_v2d_var E it s)
        = calls s @ [Read_2d (grow it) (name it @ ''x'') (ngx E) (ngy E),
                     Read_2d (grow it) (name it @ ''y'') (ngx E) (ngy E),
                     Read_2d (grow it) (name it @ ''z'') (ngx E) (ngy E)]
    \<and> calls (read_v3d_var E it s)
        = calls s @ [Read_3d (grow it) (name it @ ''x'') (ngx E) (ngy E) (ngz E),
                     Read_3d (grow it) (name it @ ''y'') (ngx E) (ngy E) (ngz E),
                     Read_3d (grow it) (name it @ ''z'') (ngx E) (ngy E) (ngz E)]
    \<and> (\<exists>ws. calls (write_v2d_var E it s) = calls s @ ws
           \<and> map call_name ws
               = (if isAllocated (Field2D E) (vec_x v2) then [Some (name it @ ''x'')] else [])
               @ (if isAllocated (Field2D E) (vec_y v2) then [Some (name it @ ''y'')] else [])
               @ (if isAllocated (Field2D E) (vec_z v2) then [Some (name it @ ''z'')] else []))
    \<and> (\<exists>ws. calls (write_v3d_var E it s) = calls s @ ws
           \<and> map call_name ws
               = (if isAllocated (Field3D E) (vec_x v3) then [Some (name it @ ''x'')] else [])
               @ (if isAllocated (Field3D E) (vec_y v3) then [Some (name it @ ''y'')] else [])
               @ (if isAllocated (Field3D E) (vec_z v3) then [Some (name it @ ''z'')] else []))))
 \<and> (fst (openr (format E) (vsprintf E fm ap) (the_file s))
    \<and> fst (is_valid (format E) (snd (openr (format E) (vsprintf E fm ap) (the_file s)))) \<longrightarrow>
      (vt2 \<in> set (v2d_arr s) \<longrightarrow>
         (\<exists>pre post. calls (snd (read E (Some fm) ap s)) = pre @ (if covar vt2
                    then [Read_2d (grow vt2) (name vt2 @ ''_x'') (ngx E) (ngy E),
                          Read_2d (grow vt2) (name vt2 @ ''_y'') (ngx E) (ngy E),
                          Read_2d (grow vt2) (name vt2 @ ''_z'') (ngx E) (ngy E)]
                    else [Read_2d (grow vt2) (name vt2 @ ''x'') (ngx E) (ngy E),
                          Read_2d (grow vt2) (name vt2 @ ''y'') (ngx E) (ngy E),
                          Read_2d (grow vt2) (name vt2 @ ''z'') (ngx E) (ngy E)]) @ post))
    \<and> (vt3 \<in> set (v3d_arr s) \<longrightarrow>
         (\<exists>pre post. calls (snd (read E (Some fm) ap s)) = pre @ (if covar vt3
                    then [Read_3d (grow vt3) (name vt3 @ ''_x'') (ngx E) (ngy E) (ngz E),
                          Read_3d (grow vt3) (name vt3 @ ''_y'') (ngx E) (ngy E) (ngz E),
                          Read_3d (grow vt3) (name vt3 @ ''_z'') (ngx E) (ngy E) (ngz E)]
                    else [Read_3d (grow vt3) (name vt3 @ ''x'') (ngx E) (ngy E) (ngz E),
                          Read_3d (grow vt3) (name vt3 @ ''y'') (ngx E) (ngy E) (ngz E),
                          Read_3d (grow vt3) (name vt3 @ ''z'') (ngx E) (ngy E) (ngz E)]) @ post)))
 \<and> (enabled s
    \<and> fst (openw (format E) fn app (the_file s))
    \<and> fst (is_valid (format E) (snd (openw (format E) fn app (the_file s)))) \<longrightarrow>
      (vt2 \<in> set (v2d_arr s) \<and> w2 = (if covar vt2 then toCovariant2D E (v2d_mem (mem s) (ptr vt2))
                   else toContravariant2D E (v2d_mem (mem s) (ptr vt2))) \<longrightarrow>
         (\<exists>pre ws post. calls (snd (write_filename E fn app s)) = pre @ ws @ post
            \<and> map call_name ws = (if covar vt2
                  then (if isAllocated (Field2D E) (vec_x w2) then [Some (name vt2 @ ''_x'')] else [])
                     @ (if isAllocated (Field2D E) (vec_y w2) then [Some (name vt2 @ ''_y'')] else [])
                     @ (if isAllocated (Field2D E) (vec_z w2) then [Some (name vt2 @ ''_z'')] else [])
                  else (if isAllocated (Field2D E) (vec_x w2) then [Some (name vt2 @ ''x'')] else [])
                     @ (if isAllocated (Field2D E) (vec_y w2) then [Some (name vt2 @ ''y'')] else [])
                     @ (if isAllocated (Field2D E) (vec_z w2) then [Some (name vt2 @ ''z'')] else []))))
    \<and> (vt3 \<in> set (v3d_arr s) \<and> w3 = (if covar vt3 then toCovariant3D E (v3d_mem (mem s) (ptr vt3))
                   else toContravariant3D E (v3d_mem (mem s) (ptr vt3))) \<longrightarrow>
         (\<exists>pre ws post. calls (snd (write_filename E fn app s)) = pre @ ws @ post
            \<and> map call_name ws = (if covar vt3
                  then (if isAllocated (Field3D E) (vec_x w3) then [Some (name vt3 @ ''_x'')] else [])
                     @ (if isAllocated (Field3D E) (vec_y w3) then [Some (name vt3 @ ''_y'')] else [])
                     @ (if isAllocated (Field3D E) (vec_z w3) then [Some (name vt3 @ ''_z'')] else [])
                  else (if isAllocated (Field3D E) (vec_x w3) then [Some (name vt3 @ ''x'')] else [])
                     @ (if isAllocated (Field3D E) (vec_y w3) then [Some (name vt3 @ ''y'')] else [])
                     @ (if isAllocated (Field3D E) (vec_z w3) then [Some (name vt3 @ ''z'')] else [])))))"
proof (rule conjI)
  show "(covar it \<and> v2 = toCovariant2D E (v2d_mem (mem s) (ptr it))
             \<and> v3 = toCovariant3D E (v3d_mem (mem s) (ptr it)) \<longrightarrow>
      calls (read_v2d_var E it s)
        = calls s @ [Read_2d (grow it) (name it @ ''_x'') (ngx E) (ngy E),
                     Read_2d (grow it) (name it @ ''_y'') (ngx E) (ngy E),
                     Read_2d (grow it) (name it @ ''_z'') (ngx E) (ngy E)]
    \<and> calls (read_v3d_var E it s)
        = calls s @ [Read_3d (grow it) (name it @ ''_x'') (ngx E) (ngy E) (ngz E),
                     Read_3d (grow it) (name it @ ''_y'') (ngx E) (ngy E) (ngz E),
                     Read_3d (grow it) (name it @ ''_z'') (ngx E) (ngy E) (ngz E)]
    \<and> (\<exists>ws. calls (write_v2d_var E it s) = calls s @ ws
           \<and> map call_name ws
               = (if isAllocated (Field2D E) (vec_x v2) then [Some (name it @ ''_x'')] else [])
               @ (if isAllocated (Field2D E) (vec_y v2) then [Some (name it @ ''_y'')] else [])
               @ (if isAllocated (Field2D E) (vec_z v2) then [Some (name it @ ''_z'')] else []))
    \<and> (\<exists>ws. calls (write_v3d_var E it s) = calls s @ ws
           \<and> map call_name ws
               = (if isAllocated (Field3D E) (vec_x v3) then [Some (name it @ ''_x'')] else [])
               @ (if isAllocated (Field3D E) (vec_y v3) then [Some (name it @ ''_y'')] else [])
               @ (if isAllocated (Field3D E) (vec_z v3) then [Some (name it @ ''_z'')] else [])))
 \<and> (\<not> covar it \<and> v2 = toContravariant2D E (v2d_mem (mem s) (ptr it))
               \<and> v3 = toContravariant3D E (v3d_mem (mem s) (ptr it)) \<longrightarrow>
      calls (read_v2d_var E it s)
        = calls s @ [Read_2d (grow it) (name it @ ''x'') (ngx E) (ngy E),
                     Read_2d (grow it) (name it @ ''y'') (ngx E) (ngy E),
                     Read_2d (grow it) (name it @ ''z'') (ngx E) (ngy E)]
    \<and> calls (read_v3d_var E it s)
        = calls s @ [Read_3d (grow it) (name it @ ''x'') (ngx E) (ngy E) (ngz E),
                     Read_3d (grow it) (name it @ ''y'') (ngx E) (ngy E) (ngz E),
                     Read_3d (grow it) (name it @ ''z'') (ngx E) (ngy E) (ngz E)]
    \<and> (\<exists>ws. calls (write_v2d_var E it s) = calls s @ ws
           \<and> map call_name ws
               = (if isAllocated (Field2D E) (vec_x v2) then [Some (name it @ ''x'')] else [])
               @ (if isAllocated (Field2D E) (vec_y v2) then [Some (name it @ ''y'')] else [])
               @ (if isAllocated (Field2D E) (vec_z v2) then [Some (name it @ ''z'')] else []))
    \<and> (\<exists>ws. calls (write_v3d_var E it s) = calls s @ ws
           \<and> map call_name ws
               = (if isAllocated (Field3D E) (vec_x v3) then [Some (name it @ ''x'')] else [])
               @ (if isAllocated (Field3D E) (vec_y v3) then [Some (name it @ ''y'')] else [])
               @ (if isAllocated (Field3D E) (vec_z v3) then [Some (name it @ ''z'')] else [])))"
    by (rule vector_bodies_names)
next
  show "(fst (openr (format E) (vsprintf E fm ap) (the_file s))
    \<and> fst (is_valid (format E) (snd (openr (format E) (vsprintf E fm ap) (the_file s)))) \<longrightarrow>
      (vt2 \<in> set (v2d_arr s) \<longrightarrow>
         (\<exists>pre post. calls (snd (read E (Some fm) ap s)) = pre @ (if covar vt2
                    then [Read_2d (grow vt2) (name vt2 @ ''_x'') (ngx E) (ngy E),
                          Read_2d (grow vt2) (name vt2 @ ''_y'') (ngx E) (ngy E),
                          Read_2d (grow vt2) (name vt2 @ ''_z'') (ngx E) (ngy E)]
                    else [Read_2d (grow vt2) (name vt2 @ ''x'') (ngx E) (ngy E),
                          Read_2d (grow vt2) (name vt2 @ ''y'') (ngx E) (ngy E),
                          Read_2d (grow vt2) (name vt2 @ ''z'') (ngx E) (ngy E)]) @ post))
    \<and> (vt3 \<in> set (v3d_arr s) \<longrightarrow>
         (\<exists>pre post. calls (snd (read E (Some fm) ap s)) = pre @ (if covar vt3
                    then [Read_3d (grow vt3) (name vt3 @ ''_x'') (ngx E) (ngy E) (ngz E),
                          Read_3d (grow vt3) (name vt3 @ ''_y'') (ngx E) (ngy E) (ngz E),
                          Read_3d (grow vt3) (name vt3 @ ''_z'') (ngx E) (ngy E) (ngz E)]
                    else [Read_3d (grow vt3) (name vt3 @ ''x'') (ngx E) (ngy E) (ngz E),
                          Read_3d (grow vt3) (name vt3 @ ''y'') (ngx E) (ngy E) (ngz E),
                          Read_3d (grow vt3) (name vt3 @ ''z'') (ngx E) (ngy E) (ngz E)]) @ post)))
 \<and> (enabled s
    \<and> fst (openw (format E) fn app (the_file s))
    \<and> fst (is_valid (format E) (snd (openw (format E) fn app (the_file s)))) \<longrightarrow>
      (vt2 \<in> set (v2d_arr s) \<and> w2 = (if covar vt2 then toCovariant2D E (v2d_mem (mem s) (ptr vt2))
                   else toContravariant2D E (v2d_mem (mem s) (ptr vt2))) \<longrightarrow>
         (\<exists>pre ws post. calls (snd (write_filename E fn app s)) = pre @ ws @ post
            \<and> map call_name ws = (if covar vt2
                  then (if isAllocated (Field2D E) (vec_x w2) then [Some (name vt2 @ ''_x'')] else [])
                     @ (if isAllocated (Field2D E) (vec_y w2) then [Some (name vt2 @ ''_y'')] else [])
                     @ (if isAllocated (Field2D E) (vec_z w2) then [Some (name vt2 @ ''_z'')] else [])
                  else (if isAllocated (Field2D E) (vec_x w2) then [Some (name vt2 @ ''x'')] else [])
                     @ (if isAllocated (Field2D E) (vec_y w2) then [Some (name vt2 @ ''y'')] else [])
                     @ (if isAllocated (Field2D E) (vec_z w2) then [Some (name vt2 @ ''z'')] else []))))
    \<and> (vt3 \<in> set (v3d_arr s) \<and> w3 = (if covar vt3 then toCovariant3D E (v3d_mem (mem s) (ptr vt3))
                   else toContravariant3D E (v3d_mem (mem s) (ptr vt3))) \<longrightarrow>
         (\<exists>pre ws post. calls (snd (write_filename E fn app s)) = pre @ ws @ post
            \<and> map call_name ws = (if covar vt3
                  then (if isAllocated (Field3D E) (vec_x w3) then [Some (name vt3 @ ''_x'')] else [])
                     @ (if isAllocated (Field3D E) (vec_y w3) then [Some (name vt3 @ ''_y'')] else [])
                     @ (if isAllocated (Field3D E) (vec_z w3) then [Some (name vt3 @ ''_z'')] else [])
                  else (if isAllocated (Field3D E) (vec_x w3) then [Some (name vt3 @ ''x'')] else [])
                     @ (if isAllocated (Field3D E) (vec_y w3) then [Some (name vt3 @ ''y'')] else [])
                     @ (if isAllocated (Field3D E) (vec_z w3) then [Some (name vt3 @ ''z'')] else [])))))"
    by (intro conjI impI; (elim conjE)?)
      (erule (2) read_calls_v2d, erule (2) read_calls_v3d,
       erule (4) write_names_v2d, erule (4) write_names_v3d)
qed

theorem vector_component_names_witness:
  "(\<exists>pre post. calls (snd (read env0 (Some ''BOUT.restart.0.nc'') [] Datafile1))
       = pre @ [Read_2d True ''A_x'' 2 2, Read_2d True ''A_y'' 2 2, Read_2d True ''A_z'' 2 2] @ post)
   \<and> (\<exists>pre post. calls (snd (read env0 (Some ''BOUT.restart.0.nc'') [] Datafile1))
       = pre @ [Read_3d False ''ux'' 2 2 1, Read_3d False ''uy'' 2 2 1, Read_3d False ''uz'' 2 2 1] @ post)
   \<and> (\<exists>pre ws post. calls (snd (write_filename env0 ''BOUT.dmp.0.nc'' False Datafile1)) = pre @ ws @ post
         \<and> map call_name ws = [Some ''A_x'', Some ''A_z''])
   \<and> (\<exists>pre ws post. calls (snd (write_filename env0 ''BOUT.dmp.0.nc'' False Datafile1)) = pre @ ws @ post
         \<and> map call_name ws = [Some ''ux'', Some ''uz''])
   \<and> calls (read_v2d_var env0 \<lparr>ptr = 1, name = ''A'', grow = True, covar = True\<rparr> Datafile1)
     = [Read_2d True ''A_x'' 2 2, Read_2d True ''A_y'' 2 2, Read_2d True ''A_z'' 2 2]
   \<and> calls (read_v3d_var env0 \<lparr>ptr = 1, name = ''u'', grow = False, covar = False\<rparr> Datafile1)
     = [Read_3d False ''ux'' 2 2 1, Read_3d False ''uy'' 2 2 1, Read_3d False ''uz'' 2 2 1]
   \<and> (\<exists>ws. calls (write_v2d_var env0 \<lparr>ptr = 1, name = ''A'', grow = True, covar = True\<rparr> Datafile1) = ws
         \<and> map call_name ws = [Some ''A_x'', Some ''A_z''])
   \<and> (\<exists>ws. calls (write_v3d_var env0 \<lparr>ptr = 1, name = ''u'', grow = False, covar = False\<rparr> Datafile1) = ws
         \<and> map call_name ws = [Some ''ux'', Some ''uz''])"
proof -
  have co: "covar \<lparr>ptr = 1 :: addr, name = ''A'', grow = True, covar = True\<rparr>"
    and contra: "\<not> covar \<lparr>ptr = 1 :: addr, name = ''u'', grow = False, covar = False\<rparr>"
    by simp_all
  have reg: "\<lparr>ptr = 1, name = ''A'', grow = True, covar = True\<rparr> \<in> set (v2d_arr Datafile1)"
    "\<lparr>ptr = 1, name = ''u'', grow = False, covar = False\<rparr> \<in> set (v3d_arr Datafile1)"
    by (simp_all add: Datafile1_def)
  have ok: "fst (openr (format env0) (vsprintf env0 ''BOUT.restart.0.nc'' []) (the_file Datafile1))"
    "fst (is_valid (format env0) (snd (openr (format env0) (vsprintf env0 ''BOUT.restart.0.nc'' []) (the_file Datafile1))))"
    "enabled Datafile1"
    "fst (openw (format env0) ''BOUT.dmp.0.nc'' False (the_file Datafile1))"
    "fst (is_valid (format env0) (snd (openw (format env0) ''BOUT.dmp.0.nc'' False (the_file Datafile1))))"
    by (simp_all add: env0_defs Datafile1_defs)
  have m: "isAllocated (Field2D env0) (vec_x (toCovariant2D env0 (v2d_mem (mem Datafile1) a)))"
    "\<not> isAllocated (Field2D env0) (vec_y (toCovariant2D env0 (v2d_mem (mem Datafile1) a)))"
    "isAllocated (Field2D env0) (vec_z (toCovariant2D env0 (v2d_mem (mem Datafile1) a)))"
    "isAllocated (Field3D env0) (vec_x (toContravariant3D env0 (v3d_mem (mem Datafile1) a)))"
    "\<not> isAllocated (Field3D env0) (vec_y (toContravariant3D env0 (v3d_mem (mem Datafile1) a)))"
    "isAllocated (Field3D env0) (vec_z (toContravariant3D env0 (v3d_mem (mem Datafile1) a)))" for a
    by (simp_all add: env0_def Field0_def Datafile1_defs)
  have e: "ngx env0 = 2" "ngy env0 = 2" "ngz env0 = 1" "calls Datafile1 = []"
    by (simp_all add: env0_def Datafile1_def Datafile0_def)
  note T1 = vector_component_names [where E = env0 and s = Datafile1
        and fm = "''BOUT.restart.0.nc''" and ap = "[]" and fn = "''BOUT.dmp.0.nc''" and app = False
        and it = "\<lparr>ptr = 1, name = ''A'', grow = True, covar = True\<rparr>"
        and ?v2.0 = "toCovariant2D env0 (v2d_mem (mem Datafile1) (ptr \<lparr>ptr = 1 :: addr, name = ''A'', grow = True, covar = True\<rparr>))"
        and ?v3.0 = "toCovariant3D env0 (v3d_mem (mem Datafile1) (ptr \<lparr>ptr = 1 :: addr, name = ''A'', grow = True, covar = True\<rparr>))"
        and ?vt2.0 = "\<lparr>ptr = 1, name = ''A'', grow = True, covar = True\<rparr>"
        and ?vt3.0 = "\<lparr>ptr = 1, name = ''u'', grow = False, covar = False\<rparr>"
        and ?w2.0 = "toCovariant2D env0 (v2d_mem (mem Datafile1) 1)"
        and ?w3.0 = "toContravariant3D env0 (v3d_mem (mem Datafile1) 1)"]
  note T2 = vector_component_names [where E = env0 and s = Datafile1
        and fm = "''BOUT.restart.0.nc''" and ap = "[]" and fn = "''BOUT.dmp.0.nc''" and app = False
        and it = "\<lparr>ptr = 1, name = ''u'', grow = False, covar = False\<rparr>"
        and ?v2.0 = "toContravariant2D env0 (v2d_mem (mem Datafile1) (ptr \<lparr>ptr = 1 :: addr, name = ''u'', grow = False, covar = False\<rparr>))"
        and ?v3.0 = "toContravariant3D env0 (v3d_mem (mem Datafile1) (ptr \<lparr>ptr = 1 :: addr, name = ''u'', grow = False, covar = False\<rparr>))"
        and ?vt2.0 = "\<lparr>ptr = 1, name = ''A'', grow = True, covar = True\<rparr>"
        and ?vt3.0 = "\<lparr>ptr = 1, name = ''u'', grow = False, covar = False\<rparr>"
        and ?w2.0 = "toCovariant2D env0 (v2d_mem (mem Datafile1) 1)"
        and ?w3.0 = "toContravariant3D env0 (v3d_mem (mem Datafile1) 1)"]
  have run: "map call_name (calls (snd (write_filename env0 ''BOUT.dmp.0.nc'' False Datafile1)))
     = [None, None, None, Some ''n'', Some ''t'', Some ''dt'', Some ''time'', Some ''Bx'', Some ''Bz'',
        Some ''Bx'', Some ''Bz'', Some ''A_x'', Some ''A_z'', Some ''v_x'', Some ''v_z'',
        Some ''ux'', Some ''uz'', None]"
    by (simp add: run_defs)
  from T1 T2 co contra reg ok run show ?thesis
    by (simp add: m e)
qed

text \<open>
  C5. \<^verbatim>\<open>write\<close> leaves the memory of the caller as it was, and so does each vector loop
  body: the vector a binding points to keeps its members and its flag. A \<^verbatim>\<open>write\<close> that
  is enabled and has opened a valid file makes the calls \<open>write_requests\<close> lists and no
  other transfer; among them, for every vector binding of the registry, are the writes of
  the buffers of the allocated members of \<open>w\<close>, the vector in memory converted with
  \<^verbatim>\<open>toCovariant\<close> when \<^verbatim>\<open>covar\<close> is true and with \<^verbatim>\<open>toContravariant\<close> otherwise.
\<close>

theorem write_copies_vector:
  "(mem (snd (write_filename E fn app s)) = mem s
   \<and> mem (write_v2d_var E it s) = mem s
   \<and> mem (write_v3d_var E it s) = mem s
   \<and> (covar it \<and> v2 = toCovariant2D E (v2d_mem (mem s) (ptr it))
               \<and> v3 = toCovariant3D E (v3d_mem (mem s) (ptr it)) \<longrightarrow>
        calls (write_v2d_var E it s)
          = calls s
            @ (if isAllocated (Field2D E) (vec_x v2)
               then [Write_2d (grow it) (name it @ ''_x'') (ngx E) (ngy E) (getData (Field2D E) (vec_x v2))] else [])
            @ (if isAllocated (Field2D E) (vec_y v2)
               then [Write_2d (grow it) (name it @ ''_y'') (ngx E) (ngy E) (getData (Field2D E) (vec_y v2))] else [])
            @ (if isAllocated (Field2D E) (vec_z v2)
               then [Write_2d (grow it) (name it @ ''_z'') (ngx E) (ngy E) (getData (Field2D E) (vec_z v2))] else [])
      \<and> calls (write_v3d_var E it s)
          = calls s
            @ (if isAllocated (Field3D E) (vec_x v3)
               then [Write_3d (grow it) (name it @ ''_x'') (ngx E) (ngy E) (ngz E) (getData (Field3D E) (vec_x v3))] else [])
            @ (if isAllocated (Field3D E) (vec_y v3)
               then [Write_3d (grow it) (name it @ ''_y'') (ngx E) (ngy E) (ngz E) (getData (Field3D E) (vec_y v3))] else [])
            @ (if isAllocated (Field3D E) (vec_z v3)
               then [Write_3d (grow it) (name it @ ''_z'') (ngx E) (ngy E) (ngz E) (getData (Field3D E) (vec_z v3))] else []))
   \<and> (\<not> covar it \<and> v2 = toContravariant2D E (v2d_mem (mem s) (ptr it))
                 \<and> v3 = toContravariant3D E (v3d_mem (mem s) (ptr it)) \<longrightarrow>
        calls (write_v2d_var E it s)
          = calls s
            @ (if isAllocated (Field2D E) (vec_x v2)
               then [Write_2d (grow it) (name it @ ''x'') (ngx E) (ngy E) (getData (Field2D E) (vec_x v2))] else [])
            @ (if isAllocated (Field2D E) (vec_y v2)
               then [Write_2d (grow it) (name it @ ''y'') (ngx E) (ngy E) (getData (Field2D E) (vec_y v2))] else [])
            @ (if isAllocated (Field2D E) (vec_z v2)
               then [Write_2d (grow it) (name it @ ''z'') (ngx E) (ngy E) (getData (Field2D E) (vec_z v2))] else [])
      \<and> calls (write_v3d_var E it s)
          = calls s
            @ (if isAllocated (Field3D E) (vec_x v3)
               then [Write_3d (grow it) (name it @ ''x'') (ngx E) (ngy E) (ngz E) (getData (Field3D E) (vec_x v3))] else [])
            @ (if isAllocated (Field3D E) (vec_y v3)
               then [Write_3d (grow it) (name it @ ''y'') (ngx E) (ngy E) (ngz E) (getData (Field3D E) (vec_y v3))] else [])
            @ (if isAllocated (Field3D E) (vec_z v3)
               then [Write_3d (grow it) (name it @ ''z'') (ngx E) (ngy E) (ngz E) (getData (Field3D E) (vec_z v3))] else [])))
 \<and> (enabled s
    \<and> fst (openw (format E) fn app (the_file s))
    \<and> fst (is_valid (format E) (snd (openw (format E) fn app (the_file s)))) \<longrightarrow>
      calls (snd (write_filename E fn app s))
        = calls s @ [Openw fn app, Is_valid, SetRecord (- 1)] @ write_requests E s @ [Close]
    \<and> (vt2 \<in> set (v2d_arr s) \<and> w2 = (if covar vt2 then toCovariant2D E (v2d_mem (mem s) (ptr vt2))
                   else toContravariant2D E (v2d_mem (mem s) (ptr vt2))) \<longrightarrow>
         (\<exists>pre post. calls (snd (write_filename E fn app s)) = pre @ (if covar vt2
                    then (if isAllocated (Field2D E) (vec_x w2)
                          then [Write_2d (grow vt2) (name vt2 @ ''_x'') (ngx E) (ngy E) (getData (Field2D E) (vec_x w2))] else [])
                       @ (if isAllocated (Field2D E) (vec_y w2)
                          then [Write_2d (grow vt2) (name vt2 @ ''_y'') (ngx E) (ngy E) (getData (Field2D E) (vec_y w2))] else [])
                       @ (if isAllocated (Field2D E) (vec_z w2)
                          then [Write_2d (grow vt2) (name vt2 @ ''_z'') (ngx E) (ngy E) (getData (Field2D E) (vec_z w2))] else [])
                    else (if isAllocated (Field2D E) (vec_x w2)
                          then [Write_2d (grow vt2) (name vt2 @ ''x'') (ngx E) (ngy E) (getData (Field2D E) (vec_x w2))] else [])
                       @ (if isAllocated (Field2D E) (vec_y w2)
                          then [Write_2d (grow vt2) (name vt2 @ ''y'') (ngx E) (ngy E) (getData (Field2D E) (vec_y w2))] else [])
                       @ (if isAllocated (Field2D E) (vec_z w2)
                          then [Write_2d (grow vt2) (name vt2 @ ''z'') (ngx E) (ngy E) (getData (Field2D E) (vec_z w2))] else [])) @ post))
    \<and> (vt3 \<in> set (v3d_arr s) \<and> w3 = (if covar vt3 then toCovariant3D E (v3d_mem (mem s) (ptr vt3))
                   else toContravariant3D E (v3d_mem (mem s) (ptr vt3))) \<longrightarrow>
         (\<exists>pre post. calls (snd (write_filename E fn app s)) = pre @ (if covar vt3
                    then (if isAllocated (Field3D E) (vec_x w3)
                          then [Write_3d (grow vt3) (name vt3 @ ''_x'') (ngx E) (ngy E) (ngz E) (getData (Field3D E) (vec_x w3))] else [])
                       @ (if isAllocated (Field3D E) (vec_y w3)
                          then [Write_3d (grow vt3) (name vt3 @ ''_y'') (ngx E) (ngy E) (ngz E) (getData (Field3D E) (vec_y w3))] else [])
                       @ (if isAllocated (Field3D E) (vec_z w3)
                          then [Write_3d (grow vt3) (name vt3 @ ''_z'') (ngx E) (ngy E) (ngz E) (getData (Field3D E) (vec_z w3))] else [])
                    else (if isAllocated (Field3D E) (vec_x w3)
                          then [Write_3d (grow vt3) (name vt3 @ ''x'') (ngx E) (ngy E) (ngz E) (getData (Field3D E) (vec_x w3))] else [])
                       @ (if isAllocated (Field3D E) (vec_y w3)
                          then [Write_3d (grow vt3) (name vt3 @ ''y'') (ngx E) (ngy E) (ngz E) (getData (Field3D E) (vec_y w3))] else [])
                       @ (if isAllocated (Field3D E) (vec_z w3)
                          then [Write_3d (grow vt3) (name vt3 @ ''z'') (ngx E) (ngy E) (ngz E) (getData (Field3D E) (vec_z w3))] else [])) @ post)))"
proof (rule conjI)
  show "mem (snd (write_filename E fn app s)) = mem s
   \<and> mem (write_v2d_var E it s) = mem s
   \<and> mem (write_v3d_var E it s) = mem s
   \<and> (covar it \<and> v2 = toCovariant2D E (v2d_mem (mem s) (ptr it))
               \<and> v3 = toCovariant3D E (v3d_mem (mem s) (ptr it)) \<longrightarrow>
        calls (write_v2d_var E it s)
          = calls s
            @ (if isAllocated (Field2D E) (vec_x v2)
               then [Write_2d (grow it) (name it @ ''_x'') (ngx E) (ngy E) (getData (Field2D E) (vec_x v2))] else [])
            @ (if isAllocated (Field2D E) (vec_y v2)
               then [Write_2d (grow it) (name it @ ''_y'') (ngx E) (ngy E) (getData (Field2D E) (vec_y v2))] else [])
            @ (if isAllocated (Field2D E) (vec_z v2)
               then [Write_2d (grow it) (name it @ ''_z'') (ngx E) (ngy E) (getData (Field2D E) (vec_z v2))] else [])
      \<and> calls (write_v3d_var E it s)
          = calls s
            @ (if isAllocated (Field3D E) (vec_x v3)
               then [Write_3d (grow it) (name it @ ''_x'') (ngx E) (ngy E) (ngz E) (getData (Field3D E) (vec_x v3))] else [])
            @ (if isAllocated (Field3D E) (vec_y v3)
               then [Write_3d (grow it) (name it @ ''_y'') (ngx E) (ngy E) (ngz E) (getData (Field3D E) (vec_y v3))] else [])
            @ (if isAllocated (Field3D E) (vec_z v3)
               then [Write_3d (grow it) (name it @ ''_z'') (ngx E) (ngy E) (ngz E) (getData (Field3D E) (vec_z v3))] else []))
   \<and> (\<not> covar it \<and> v2 = toContravariant2D E (v2d_mem (mem s) (ptr it))
                 \<and> v3 = toContravariant3D E (v3d_mem (mem s) (ptr it)) \<longrightarrow>
        calls (write_v2d_var E it s)
          = calls s
            @ (if isAllocated (Field2D E) (vec_x v2)
               then [Write_2d (grow it) (name it @ ''x'') (ngx E) (ngy E) (getData (Field2D E) (vec_x v2))] else [])
            @ (if isAllocated (Field2D E) (vec_y v2)
               then [Write_2d (grow it) (name it @ ''y'') (ngx E) (ngy E) (getData (Field2D E) (vec_y v2))] else [])
            @ (if isAllocated (Field2D E) (vec_z v2)
               then [Write_2d (grow it) (name it @ ''z'') (ngx E) (ngy E) (getData (Field2D E) (vec_z v2))] else [])
      \<and> calls (write_v3d_var E it s)
          = calls s
            @ (if isAllocated (Field3D E) (vec_x v3)
               then [Write_3d (grow it) (name it @ ''x'') (ngx E) (ngy E) (ngz E) (getData (Field3D E) (vec_x v3))] else [])
            @ (if isAllocated (Field3D E) (vec_y v3)
               then [Write_3d (grow it) (name it @ ''y'') (ngx E) (ngy E) (ngz E) (getData (Field3D E) (vec_y v3))] else [])
            @ (if isAllocated (Field3D E) (vec_z v3)
               then [Write_3d (grow it) (name it @ ''z'') (ngx E) (ngy E) (ngz E) (getData (Field3D E) (vec_z v3))] else []))"
    by (rule write_vector_bodies)
next
  show "(enabled s
    \<and> fst (openw (format E) fn app (the_file s))
    \<and> fst (is_valid (format E) (snd (openw (format E) fn app (the_file s)))) \<longrightarrow>
      calls (snd (write_filename E fn app s))
        = calls s @ [Openw fn app, Is_valid, SetRecord (- 1)] @ write_requests E s @ [Close]
    \<and> (vt2 \<in> set (v2d_arr s) \<and> w2 = (if covar vt2 then toCovariant2D E (v2d_mem (mem s) (ptr vt2))
                   else toContravariant2D E (v2d_mem (mem s) (ptr vt2))) \<longrightarrow>
         (\<exists>pre post. calls (snd (write_filename E fn app s)) = pre @ (if covar vt2
                    then (if isAllocated (Field2D E) (vec_x w2)
                          then [Write_2d (grow vt2) (name vt2 @ ''_x'') (ngx E) (ngy E) (getData (Field2D E) (vec_x w2))] else [])
                       @ (if isAllocated (Field2D E) (vec_y w2)
                          then [Write_2d (grow vt2) (name vt2 @ ''_y'') (ngx E) (ngy E) (getData (Field2D E) (vec_y w2))] else [])
                       @ (if isAllocated (Field2D E) (vec_z w2)
                          then [Write_2d (grow vt2) (name vt2 @ ''_z'') (ngx E) (ngy E) (getData (Field2D E) (vec_z w2))] else [])
                    else (if isAllocated (Field2D E) (vec_x w2)
                          then [Write_2d (grow vt2) (name vt2 @ ''x'') (ngx E) (ngy E) (getData (Field2D E) (vec_x w2))] else [])
                       @ (if isAllocated (Field2D E) (vec_y w2)
                          then [Write_2d (grow vt2) (name vt2 @ ''y'') (ngx E) (ngy E) (getData (Field2D E) (vec_y w2))] else [])
                       @ (if isAllocated (Field2D E) (vec_z w2)
                          then [Write_2d (grow vt2) (name vt2 @ ''z'') (ngx E) (ngy E) (getData (Field2D E) (vec_z w2))] else [])) @ post))
    \<and> (vt3 \<in> set (v3d_arr s) \<and> w3 = (if covar vt3 then toCovariant3D E (v3d_mem (mem s) (ptr vt3))
                   else toContravariant3D E (v3d_mem (mem s) (ptr vt3))) \<longrightarrow>
         (\<exists>pre post. calls (snd (write_filename E fn app s)) = pre @ (if covar vt3
                    then (if isAllocated (Field3D E) (vec_x w3)
                          then [Write_3d (grow vt3) (name vt3 @ ''_x'') (ngx E) (ngy E) (ngz E) (getData (Field3D E) (vec_x w3))] else [])
                       @ (if isAllocated (Field3D E) (vec_y w3)
                          then [Write_3d (grow vt3) (name vt3 @ ''_y'') (ngx E) (ngy E) (ngz E) (getData (Field3D E) (vec_y w3))] else [])
                       @ (if isAllocated (Field3D E) (vec_z w3)
                          then [Write_3d (grow vt3) (name vt3 @ ''_z'') (ngx E) (ngy E) (ngz E) (getData (Field3D E) (vec_z w3))] else [])
                    else (if isAllocated (Field3D E) (vec_x w3)
                          then [Write_3d (grow vt3) (name vt3 @ ''x'') (ngx E) (ngy E) (ngz E) (getData (Field3D E) (vec_x w3))] else [])
                       @ (if isAllocated (Field3D E) (vec_y w3)
                          then [Write_3d (grow vt3) (name vt3 @ ''y'') (ngx E) (ngy E) (ngz E) (getData (Field3D E) (vec_y w3))] else [])
                       @ (if isAllocated (Field3D E) (vec_z w3)
                          then [Write_3d (grow vt3) (name vt3 @ ''z'') (ngx E) (ngy E) (ngz E) (getData (Field3D E) (vec_z w3))] else [])) @ post)))"
    by (intro conjI impI; (elim conjE)?)
      (erule (2) write_filename_calls, erule (4) write_calls_v2d, erule (4) write_calls_v3d)
qed

theorem write_copies_vector_witness:
  "calls (snd (write_filename env0 ''BOUT.dmp.0.nc'' False Datafile1))
     = [Openw ''BOUT.dmp.0.nc'' False, Is_valid, SetRecord (- 1),
        Write_int False ''n'' 7, Write_int True ''t'' 7,
        Write_BoutReal False ''dt'' (5 / 2), Write_BoutReal True ''time'' (5 / 2),
        Write_2d True ''Bx'' 2 2 [1, 2, 3, 4],
        Write_3d False ''Bz'' 2 2 1 [5, 6, 7, 8],
        Write_2d False ''Bx'' 2 2 [1, 2, 3, 4], Write_2d False ''Bz'' 2 2 [5, 6, 7, 8],
        Write_2d True ''A_x'' 2 2 [1, 2, 3, 4], Write_2d True ''A_z'' 2 2 [5, 6, 7, 8],
        Write_3d True ''v_x'' 2 2 1 [1, 2, 3, 4], Write_3d True ''v_z'' 2 2 1 [5, 6, 7, 8],
        Write_3d False ''ux'' 2 2 1 [1, 2, 3, 4], Write_3d False ''uz'' 2 2 1 [5, 6, 7, 8],
        Close]
   \<and> (\<exists>pre post. calls (snd (write_filename env0 ''BOUT.dmp.0.nc'' False Datafile1))
         = pre @ [Write_2d True ''A_x'' 2 2 [1, 2, 3, 4], Write_2d True ''A_z'' 2 2 [5, 6, 7, 8]] @ post)
   \<and> (\<exists>pre post. calls (snd (write_filename env0 ''BOUT.dmp.0.nc'' False Datafile1))
         = pre @ [Write_3d False ''ux'' 2 2 1 [1, 2, 3, 4], Write_3d False ''uz'' 2 2 1 [5, 6, 7, 8]] @ post)
   \<and> mem (snd (write_filename env0 ''BOUT.dmp.0.nc'' False Datafile1)) = mem Datafile1
   \<and> covariant (v2d_mem (mem (snd (write_filename env0 ''BOUT.dmp.0.nc'' False Datafile1))) 1) = False
   \<and> calls (write_v2d_var env0 \<lparr>ptr = 1, name = ''A'', grow = True, covar = True\<rparr> Datafile1)
       = [Write_2d True ''A_x'' 2 2 [1, 2, 3, 4], Write_2d True ''A_z'' 2 2 [5, 6, 7, 8]]
   \<and> calls (write_v3d_var env0 \<lparr>ptr = 1, name = ''u'', grow = False, covar = False\<rparr> Datafile1)
       = [Write_3d False ''ux'' 2 2 1 [1, 2, 3, 4], Write_3d False ''uz'' 2 2 1 [5, 6, 7, 8]]
   \<and> covariant (v2d_mem (mem (write_v2d_var env0 \<lparr>ptr = 1, name = ''A'', grow = True, covar = True\<rparr> Datafile1)) 1) = False
   \<and> covariant (v3d_mem (mem (write_v3d_var env0 \<lparr>ptr = 1, name = ''u'', grow = False, covar = False\<rparr> Datafile1)) 1) = True"
proof -
  have co: "covar \<lparr>ptr = 1 :: addr, name = ''A'', grow = True, covar = True\<rparr>"
    and contra: "\<not> covar \<lparr>ptr = 1 :: addr, name = ''u'', grow = False, covar = False\<rparr>"
    by simp_all
  have reg: "\<lparr>ptr = 1, name = ''A'', grow = True, covar = True\<rparr> \<in> set (v2d_arr Datafile1)"
    "\<lparr>ptr = 1, name = ''u'', grow = False, covar = False\<rparr> \<in> set (v3d_arr Datafile1)"
    by (simp_all add: Datafile1_def)
  have ok: "enabled Datafile1"
    "fst (openw (format env0) ''BOUT.dmp.0.nc'' False (the_file Datafile1))"
    "fst (is_valid (format env0) (snd (openw (format env0) ''BOUT.dmp.0.nc'' False (the_file Datafile1))))"
    by (simp_all add: env0_defs Datafile1_defs)
  have m: "isAllocated (Field2D env0) (vec_x (toCovariant2D env0 (v2d_mem (mem Datafile1) a)))"
    "\<not> isAllocated (Field2D env0) (vec_y (toCovariant2D env0 (v2d_mem (mem Datafile1) a)))"
    "isAllocated (Field2D env0) (vec_z (toCovariant2D env0 (v2d_mem (mem Datafile1) a)))"
    "isAllocated (Field3D env0) (vec_x (toContravariant3D env0 (v3d_mem (mem Datafile1) a)))"
    "\<not> isAllocated (Field3D env0) (vec_y (toContravariant3D env0 (v3d_mem (mem Datafile1) a)))"
    "isAllocated (Field3D env0) (vec_z (toContravariant3D env0 (v3d_mem (mem Datafile1) a)))"
    "getData (Field2D env0) (vec_x (toCovariant2D env0 (v2d_mem (mem Datafile1) a))) = [1, 2, 3, 4]"
    "getData (Field2D env0) (vec_z (toCovariant2D env0 (v2d_mem (mem Datafile1) a))) = [5, 6, 7, 8]"
    "getData (Field3D env0) (vec_x (toContravariant3D env0 (v3d_mem (mem Datafile1) a))) = [1, 2, 3, 4]"
    "getData (Field3D env0) (vec_z (toContravariant3D env0 (v3d_mem (mem Datafile1) a))) = [5, 6, 7, 8]" for a
    by (simp_all add: env0_def Field0_def Datafile1_defs)
  have e: "ngx env0 = 2" "ngy env0 = 2" "ngz env0 = 1" "calls Datafile1 = []"
    "covariant (v2d_mem (mem Datafile1) a) = False" "covariant (v3d_mem (mem Datafile1) a) = True" for a
    by (simp_all add: env0_def Datafile1_defs)
  have rq: "write_requests env0 Datafile1
     = [Write_int False ''n'' 7, Write_int True ''t'' 7,
        Write_BoutReal False ''dt'' (5 / 2), Write_BoutReal True ''time'' (5 / 2),
        Write_2d True ''Bx'' 2 2 [1, 2, 3, 4],
        Write_3d False ''Bz'' 2 2 1 [5, 6, 7, 8],
        Write_2d False ''Bx'' 2 2 [1, 2, 3, 4], Write_2d False ''Bz'' 2 2 [5, 6, 7, 8],
        Write_2d True ''A_x'' 2 2 [1, 2, 3, 4], Write_2d True ''A_z'' 2 2 [5, 6, 7, 8],
        Write_3d True ''v_x'' 2 2 1 [1, 2, 3, 4], Write_3d True ''v_z'' 2 2 1 [5, 6, 7, 8],
        Write_3d False ''ux'' 2 2 1 [1, 2, 3, 4], Write_3d False ''uz'' 2 2 1 [5, 6, 7, 8]]"
    by (simp add: write_requests_def requests_2d_def requests_3d_def Datafile1_defs env0_def
        Field0_def Let_def)
  note T1 = write_copies_vector [where E = env0 and s = Datafile1 and fn = "''BOUT.dmp.0.nc''" and app = False
        and it = "\<lparr>ptr = 1, name = ''A'', grow = True, covar = True\<rparr>"
        and ?v2.0 = "toCovariant2D env0 (v2d_mem (mem Datafile1) (ptr \<lparr>ptr = 1 :: addr, name = ''A'', grow = True, covar = True\<rparr>))"
        and ?v3.0 = "toCovariant3D env0 (v3d_mem (mem Datafile1) (ptr \<lparr>ptr = 1 :: addr, name = ''A'', grow = True, covar = True\<rparr>))"
        and ?vt2.0 = "\<lparr>ptr = 1, name = ''A'', grow = True, covar = True\<rparr>"
        and ?vt3.0 = "\<lparr>ptr = 1, name = ''u'', grow = False, covar = False\<rparr>"
        and ?w2.0 = "toCovariant2D env0 (v2d_mem (mem Datafile1) 1)"
        and ?w3.0 = "toContravariant3D env0 (v3d_mem (mem Datafile1) 1)"]
  note T2 = write_copies_vector [where E = env0 and s = Datafile1 and fn = "''BOUT.dmp.0.nc''" and app = False
        and it = "\<lparr>ptr = 1, name = ''u'', grow = False, covar = False\<rparr>"
        and ?v2.0 = "toContravariant2D env0 (v2d_mem (mem Datafile1) (ptr \<lparr>ptr = 1 :: addr, name = ''u'', grow = False, covar = False\<rparr>))"
        and ?v3.0 = "toContravariant3D env0 (v3d_mem (mem Datafile1) (ptr \<lparr>ptr = 1 :: addr, name = ''u'', grow = False, covar = False\<rparr>))"
        and ?vt2.0 = "\<lparr>ptr = 1, name = ''A'', grow = True, covar = True\<rparr>"
        and ?vt3.0 = "\<lparr>ptr = 1, name = ''u'', grow = False, covar = False\<rparr>"
        and ?w2.0 = "toCovariant2D env0 (v2d_mem (mem Datafile1) 1)"
        and ?w3.0 = "toContravariant3D env0 (v3d_mem (mem Datafile1) 1)"]
  have run: "calls (snd (write_filename env0 ''BOUT.dmp.0.nc'' False Datafile1))
     = [Openw ''BOUT.dmp.0.nc'' False, Is_valid, SetRecord (- 1),
        Write_int False ''n'' 7, Write_int True ''t'' 7,
        Write_BoutReal False ''dt'' (5 / 2), Write_BoutReal True ''time'' (5 / 2),
        Write_2d True ''Bx'' 2 2 [1, 2, 3, 4],
        Write_3d False ''Bz'' 2 2 1 [5, 6, 7, 8],
        Write_2d False ''Bx'' 2 2 [1, 2, 3, 4], Write_2d False ''Bz'' 2 2 [5, 6, 7, 8],
        Write_2d True ''A_x'' 2 2 [1, 2, 3, 4], Write_2d True ''A_z'' 2 2 [5, 6, 7, 8],
        Write_3d True ''v_x'' 2 2 1 [1, 2, 3, 4], Write_3d True ''v_z'' 2 2 1 [5, 6, 7, 8],
        Write_3d False ''ux'' 2 2 1 [1, 2, 3, 4], Write_3d False ''uz'' 2 2 1 [5, 6, 7, 8],
        Close]"
    by (simp add: run_defs)
  from T1 T2 co contra reg ok run show ?thesis
    by (simp add: m e rq)
qed

end
